theory Spec2Isabelle
  imports Complex_Main "HOL-Library.Sublist" "HOL-Library.AList"
begin

section \<open>The master pipeline (scripts/run\_task2\_analysis.py)\<close>

text \<open>
  What calling a module's \<^verbatim>\<open>main()\<close> (after importing the module) does, as far as
  \<^verbatim>\<open>run_module\<close> can tell: it returns, it raises an exception derived from
  \<^verbatim>\<open>Exception\<close> (caught by the handler of \<^verbatim>\<open>run_module\<close>), or it raises
  something else derived from \<^verbatim>\<open>BaseException\<close> (\<^verbatim>\<open>KeyboardInterrupt\<close>,
  \<^verbatim>\<open>SystemExit\<close>), which the handler lets through.
\<close>

datatype outcome = Returns | Raises_Exception | Raises_BaseException

text \<open>How the process ends: \<^verbatim>\<open>sys.exit(n)\<close>, the end of \<^verbatim>\<open>main\<close>, or an
  exception nobody caught.\<close>

datatype ending = Exit int | Completed | Uncaught

text \<open>
  \<^verbatim>\<open>run_module(module_name, description)\<close>. The state threaded through is the list of
  modules attempted so far, in order. The result is \<open>Some True\<close> or \<open>Some False\<close> for the
  returned flag and \<open>None\<close> when an exception leaves the function. A name that is none of
  the four runs nothing and returns \<^verbatim>\<open>True\<close>, as the \<^verbatim>\<open>if/elif\<close> chain does.
\<close>

definition run_module :: "(string \<Rightarrow> outcome) \<Rightarrow> string \<Rightarrow> string list \<Rightarrow> bool option \<times> string list" where
  "run_module mains module_name attempted =
     (if module_name = ''sentiment_analysis'' \<or> module_name = ''topic_modeling''
         \<or> module_name = ''visualizations'' \<or> module_name = ''generate_report''
      then (case mains module_name of
              Returns \<Rightarrow> (Some True, attempted @ [module_name])
            | Raises_Exception \<Rightarrow> (Some False, attempted @ [module_name])
            | Raises_BaseException \<Rightarrow> (None, attempted @ [module_name]))
      else (Some True, attempted))"

text \<open>
  \<^verbatim>\<open>main()\<close> of the master script. \<open>prerequisites\<close> is the result of
  \<^verbatim>\<open>check_prerequisites()\<close> (whether data/bank\_reviews\_clean.csv exists).
\<close>

definition run_task2_main :: "bool \<Rightarrow> (string \<Rightarrow> outcome) \<Rightarrow> ending \<times> string list" where
  "run_task2_main prerequisites mains =
     (if \<not> prerequisites then (Exit 1, [])
      else
        (case run_module mains ''sentiment_analysis'' [] of
           (None, t1) \<Rightarrow> (Uncaught, t1)
         | (Some sentiment, t1) \<Rightarrow>
             if \<not> sentiment then (Exit 1, t1)
             else
               (case run_module mains ''topic_modeling'' t1 of
                  (None, t2) \<Rightarrow> (Uncaught, t2)
                | (Some topics, t2) \<Rightarrow>
                    if \<not> topics then (Exit 1, t2)
                    else
                      (case run_module mains ''visualizations'' t2 of
                         (None, t3) \<Rightarrow> (Uncaught, t3)
                       | (Some visualizations, t3) \<Rightarrow>
                           (case run_module mains ''generate_report'' t3 of
                              (None, t4) \<Rightarrow> (Uncaught, t4)
                            | (Some report, t4) \<Rightarrow> (Completed, t4))))))"

definition task2_modules :: "string list" where
  "task2_modules = [''sentiment_analysis'', ''topic_modeling'', ''visualizations'', ''generate_report'']"

section \<open>Data frames\<close>

text \<open>
  The scripts pass pandas data frames from one step to the next. A cell is a missing value
  (\<^verbatim>\<open>NaN\<close>, \<^verbatim>\<open>None\<close>, \<^verbatim>\<open>NaT\<close>: whatever \<^verbatim>\<open>pd.isnull\<close> accepts), a string, a
  number or a list of tokens. A data frame is its columns in order, each a name with the
  cells of that column from the first row to the last; all columns of a frame have the
  same length, the number of rows.
\<close>

datatype cell = NaN | Str string | Num real | Toks "string list"

type_synonym dataframe = "(string \<times> cell list) list"

text \<open>The exceptions the models below distinguish. \<open>LibraryError\<close> stands for an exception
  raised inside a third-party library call.\<close>

datatype error = KeyError string | TypeError | ValueError | AttributeError | LibraryError

definition columns :: "dataframe \<Rightarrow> string list" where
  "columns df = map fst df"

text \<open>\<^verbatim>\<open>df[c]\<close> for a label that stands on one column at most: the column, or \<^verbatim>\<open>KeyError\<close>.
  A frame read from a CSV file has no label twice (\<^verbatim>\<open>read_csv\<close> renames a repeated one),
  and assigning a column never repeats one; only the renaming of the cleaning script
  can put one label on two columns.\<close>

definition get_col :: "dataframe \<Rightarrow> string \<Rightarrow> error + cell list" where
  "get_col df c = (case map_of df c of None \<Rightarrow> Inl (KeyError c) | Some vs \<Rightarrow> Inr vs)"

text \<open>\<^verbatim>\<open>df[c] = vs\<close>: an existing column is replaced where it stands, a new one is
  appended as the last column.\<close>

definition set_col :: "dataframe \<Rightarrow> string \<Rightarrow> cell list \<Rightarrow> dataframe" where
  "set_col df c vs = AList.update c vs df"

text \<open>\<^verbatim>\<open>df.drop(c, axis=1)\<close> on a frame that has the column.\<close>

definition drop_col :: "dataframe \<Rightarrow> string \<Rightarrow> dataframe" where
  "drop_col df c = AList.delete c df"

text \<open>\<^verbatim>\<open>df[keep]\<close> for a boolean series \<open>keep\<close>: the rows where it is true, in order.\<close>

definition select :: "bool list \<Rightarrow> 'a list \<Rightarrow> 'a list" where
  "select keep vs = map snd (filter fst (zip keep vs))"

definition select_rows :: "bool list \<Rightarrow> dataframe \<Rightarrow> dataframe" where
  "select_rows keep df = map (\<lambda>(c, vs). (c, select keep vs)) df"

text \<open>\<^verbatim>\<open>df[[c1, ..., cn]]\<close> on a frame in which each label asked for stands on one column
  at most: the named columns in the order asked for, or \<^verbatim>\<open>KeyError\<close> for the first one the
  frame does not have.\<close>

fun select_cols :: "dataframe \<Rightarrow> string list \<Rightarrow> error + dataframe" where
  "select_cols df [] = Inr []"
| "select_cols df (c # cs) =
     (case get_col df c of
        Inl e \<Rightarrow> Inl e
      | Inr vs \<Rightarrow> (case select_cols df cs of Inl e \<Rightarrow> Inl e | Inr rest \<Rightarrow> Inr ((c, vs) # rest)))"

text \<open>\<^verbatim>\<open>df[[c1, ..., cn]]\<close> on any frame, also one in which renaming has put one label on
  two columns: for each label asked for, in the order asked for, every column that carries
  it, in the order of the frame; \<^verbatim>\<open>KeyError\<close> for the first label that no column
  carries.\<close>

fun select_labels :: "dataframe \<Rightarrow> string list \<Rightarrow> error + dataframe" where
  "select_labels df [] = Inr []"
| "select_labels df (c # cs) =
     (case filter (\<lambda>cv. fst cv = c) df of
        [] \<Rightarrow> Inl (KeyError c)
      | found # more \<Rightarrow>
          (case select_labels df cs of
             Inl e \<Rightarrow> Inl e
           | Inr rest \<Rightarrow> Inr (found # more @ rest)))"

text \<open>
  The \<^verbatim>\<open>.str\<close> accessor exists on a column of Python objects and raises
  \<^verbatim>\<open>AttributeError\<close> on a numeric one. \<^verbatim>\<open>read_csv\<close> makes a column numeric when it has
  rows and none of them holds a string (numbers and missing values only), and a column of
  objects otherwise.
\<close>

definition holds_objects :: "cell list \<Rightarrow> bool" where
  "holds_objects col =
     list_ex (\<lambda>v. case v of Str s \<Rightarrow> True | Toks ts \<Rightarrow> True | _ \<Rightarrow> False) col"

definition object_dtype :: "cell list \<Rightarrow> bool" where
  "object_dtype col = (col = [] \<or> holds_objects col)"

text \<open>
  Whether \<^verbatim>\<open>.str\<close> exists on a column later on: a column without rows is of the kind it
  was before it lost them (\<open>was_object\<close>), since selecting rows keeps the kind of a column
  and \<^verbatim>\<open>apply\<close> on a column without rows keeps it too.
\<close>

definition str_accessor :: "bool \<Rightarrow> cell list \<Rightarrow> bool" where
  "str_accessor was_object col = (if col = [] then was_object else holds_objects col)"

text \<open>\<^verbatim>\<open>str(v)\<close>: a string is itself; for any other value the text Python prints for it is
  given by \<open>repr\<close>.\<close>

definition py_str :: "(cell \<Rightarrow> string) \<Rightarrow> cell \<Rightarrow> string" where
  "py_str repr v = (case v of Str s \<Rightarrow> s | _ \<Rightarrow> repr v)"

section \<open>Sentiment analysis (scripts/sentiment\_analysis.py)\<close>

text \<open>
  The third-party parts of the stage, as parameters: the VADER compound score
  (\<^verbatim>\<open>analyzer.polarity_scores(s)['compound']\<close>), TextBlob's polarity and subjectivity
  (\<^verbatim>\<open>TextBlob(s).sentiment\<close>), the Afinn score (\<^verbatim>\<open>afinn.score(s)\<close>), the month of a
  date column (\<^verbatim>\<open>pd.to_datetime(col).dt.to_period('M')\<close>, \<open>None\<close> when it raises), the
  exception, if any, that pandas raises inside the aggregations whose results are only
  printed (\<^verbatim>\<open>groupby\<close>, \<^verbatim>\<open>agg\<close>, \<^verbatim>\<open>corr\<close>, \<^verbatim>\<open>index[0]\<close>, \<^verbatim>\<open>mean\<close>, ...), and
  \<^verbatim>\<open>str\<close> of a value that is not a string.
\<close>

record sentiment_lib =
  polarity_scores_compound :: "string \<Rightarrow> real"
  textblob_sentiment :: "string \<Rightarrow> real \<times> real"
  afinn_score :: "string \<Rightarrow> real"
  to_period_M :: "cell list \<Rightarrow> cell list option"
  aggregation_error :: "dataframe \<Rightarrow> error option"
  sentiment_repr :: "cell \<Rightarrow> string"

definition get_vader_scores :: "sentiment_lib \<Rightarrow> cell \<Rightarrow> real" where
  "get_vader_scores L text =
     (if text = NaN \<or> text = Str '''' then 0
      else polarity_scores_compound L (py_str (sentiment_repr L) text))"

definition get_textblob_scores :: "sentiment_lib \<Rightarrow> cell \<Rightarrow> real \<times> real" where
  "get_textblob_scores L text =
     (if text = NaN \<or> text = Str '''' then (0, 0)
      else textblob_sentiment L (py_str (sentiment_repr L) text))"

definition get_afinn_score :: "sentiment_lib \<Rightarrow> cell \<Rightarrow> real" where
  "get_afinn_score L text =
     (if text = NaN \<or> text = Str '''' then 0
      else afinn_score L (py_str (sentiment_repr L) text))"

definition apply_vader_sentiment :: "sentiment_lib \<Rightarrow> dataframe \<Rightarrow> error + dataframe" where
  "apply_vader_sentiment L df =
     (case get_col df ''review'' of
        Inl e \<Rightarrow> Inl e
      | Inr review \<Rightarrow>
          Inr (set_col df ''vader_compound'' (map (\<lambda>t. Num (get_vader_scores L t)) review)))"

definition apply_textblob_sentiment :: "sentiment_lib \<Rightarrow> dataframe \<Rightarrow> error + dataframe" where
  "apply_textblob_sentiment L df =
     (case get_col df ''review'' of
        Inl e \<Rightarrow> Inl e
      | Inr review \<Rightarrow>
          (let textblob_scores = map (get_textblob_scores L) review;
               df1 = set_col df ''textblob_polarity'' (map (\<lambda>x. Num (fst x)) textblob_scores)
           in Inr (set_col df1 ''textblob_subjectivity''
                     (map (\<lambda>x. Num (snd x)) textblob_scores))))"

definition apply_afinn_sentiment :: "sentiment_lib \<Rightarrow> dataframe \<Rightarrow> error + dataframe" where
  "apply_afinn_sentiment L df =
     (case get_col df ''review'' of
        Inl e \<Rightarrow> Inl e
      | Inr review \<Rightarrow>
          Inr (set_col df ''afinn_score'' (map (\<lambda>t. Num (get_afinn_score L t)) review)))"

text \<open>\<^verbatim>\<open>compute_aggregated_insights\<close> prints its tables; what it leaves in the frame is
  the \<^verbatim>\<open>month\<close> column.\<close>

definition compute_aggregated_insights :: "sentiment_lib \<Rightarrow> dataframe \<Rightarrow> error + dataframe" where
  "compute_aggregated_insights L df =
     (case aggregation_error L df of
        Some e \<Rightarrow> Inl e
      | None \<Rightarrow>
          (case get_col df ''date'' of
             Inl e \<Rightarrow> Inl e
           | Inr date \<Rightarrow>
               (case to_period_M L date of
                  None \<Rightarrow> Inl LibraryError
                | Some month \<Rightarrow> Inr (set_col df ''month'' month))))"

text \<open>\<^verbatim>\<open>pd.cut(x, bins=[-1, -0.05, 0.05, 1], labels=['Negative', 'Neutral', 'Positive'])\<close>:
  the intervals are open on the left and closed on the right.\<close>

definition pd_cut :: "cell \<Rightarrow> cell" where
  "pd_cut v =
     (case v of
        Num x \<Rightarrow>
          (if - 1 < x \<and> x \<le> - 0.05 then Str ''Negative''
           else if - 0.05 < x \<and> x \<le> 0.05 then Str ''Neutral''
           else if 0.05 < x \<and> x \<le> 1 then Str ''Positive''
           else NaN)
      | _ \<Rightarrow> NaN)"

text \<open>\<^verbatim>\<open>generate_summary_statistics\<close> returns nothing, but it adds the
  \<^verbatim>\<open>sentiment_category\<close> column to the frame it is given, which \<^verbatim>\<open>main\<close> then saves.\<close>

definition generate_summary_statistics :: "sentiment_lib \<Rightarrow> dataframe \<Rightarrow> error + dataframe" where
  "generate_summary_statistics L df =
     (case aggregation_error L df of
        Some e \<Rightarrow> Inl e
      | None \<Rightarrow>
          (case get_col df ''vader_compound'' of
             Inl e \<Rightarrow> Inl e
           | Inr vader \<Rightarrow> Inr (set_col df ''sentiment_category'' (map pd_cut vader))))"

text \<open>\<^verbatim>\<open>save_results\<close>: the frame written to data/sentiment\_results.csv.\<close>

definition save_results :: "dataframe \<Rightarrow> dataframe" where
  "save_results df =
     (if ''month'' \<in> set (columns df) then drop_col df ''month'' else df)"

text \<open>\<^verbatim>\<open>main()\<close> from the loaded frame to the saved one.\<close>

definition sentiment_main :: "sentiment_lib \<Rightarrow> dataframe \<Rightarrow> error + dataframe" where
  "sentiment_main L df =
     (case apply_vader_sentiment L df of Inl e \<Rightarrow> Inl e | Inr df1 \<Rightarrow>
      case apply_textblob_sentiment L df1 of Inl e \<Rightarrow> Inl e | Inr df2 \<Rightarrow>
      case apply_afinn_sentiment L df2 of Inl e \<Rightarrow> Inl e | Inr df3 \<Rightarrow>
      case compute_aggregated_insights L df3 of Inl e \<Rightarrow> Inl e | Inr df4 \<Rightarrow>
      case generate_summary_statistics L df4 of Inl e \<Rightarrow> Inl e | Inr df5 \<Rightarrow>
      Inr (save_results df5))"

definition sentiment_columns :: "string list" where
  "sentiment_columns = [''vader_compound'', ''textblob_polarity'', ''textblob_subjectivity'',
     ''afinn_score'', ''sentiment_category'']"

text \<open>A sample frame with the schema of data/bank\_reviews\_clean.csv and sample scorers,
  for evaluating the stage on a concrete input.\<close>

definition sample_clean_df :: dataframe where
  "sample_clean_df =
     [(''review'', [Str ''great'', Str '''', NaN]),
      (''rating'', [Num 5, Num 3, Num 1]),
      (''date'', [Str ''2024-01-05'', Str ''2024-02-07'', Str ''2024-02-09'']),
      (''bank'', [Str ''Dashen Bank'', Str ''Dashen Bank'', Str ''Bank of Abyssinia'']),
      (''source'', [Str ''google_play'', Str ''google_play'', Str ''google_play''])]"

definition sample_sentiment_lib :: sentiment_lib where
  "sample_sentiment_lib =
     \<lparr> polarity_scores_compound = (\<lambda>s. if s = ''great'' then 0.6249 else 0),
       textblob_sentiment = (\<lambda>s. if s = ''great'' then (0.8, 0.75) else (0, 0)),
       afinn_score = (\<lambda>s. if s = ''great'' then 3 else 0),
       to_period_M = (\<lambda>col. Some (map (\<lambda>v. case v of Str d \<Rightarrow> Str (take 7 d) | _ \<Rightarrow> NaN) col)),
       aggregation_error = (\<lambda>df. None),
       sentiment_repr = (\<lambda>v. ''nan'') \<rparr>"

section \<open>Topic modeling (scripts/topic\_modeling.py)\<close>

subsection \<open>Characters and regular expressions\<close>

text \<open>
  Review text is modelled over the code points 0 to 255 (the cleaning stage leaves only
  printable ASCII in a review). \<open>py_isspace\<close> is the class \<^verbatim>\<open>\s\<close> of Python's \<^verbatim>\<open>re\<close> on
  \<^verbatim>\<open>str\<close> patterns, restricted to that range; \<open>py_lower\<close> is \<^verbatim>\<open>str.lower\<close> there.
\<close>

definition py_isspace :: "char \<Rightarrow> bool" where
  "py_isspace c = (of_char c \<in> {9, 10, 11, 12, 13, 28, 29, 30, 31, 32, 133, 160 :: nat})"

definition is_lower_az :: "char \<Rightarrow> bool" where
  "is_lower_az c = (97 \<le> (of_char c :: nat) \<and> (of_char c :: nat) \<le> 122)"

definition py_lower_char :: "char \<Rightarrow> char" where
  "py_lower_char c =
     (let n = (of_char c :: nat)
      in if (65 \<le> n \<and> n \<le> 90) \<or> (192 \<le> n \<and> n \<le> 222 \<and> n \<noteq> 215)
         then char_of (n + 32) else c)"

definition py_lower :: "string \<Rightarrow> string" where
  "py_lower s = map py_lower_char s"

text \<open>The literal \<open>p\<close> stands at the head of \<open>s\<close> and a non-space character follows it:
  where \<^verbatim>\<open>p\S+\<close> matches at the head of \<open>s\<close>.\<close>

definition nonspace_follows :: "string \<Rightarrow> string \<Rightarrow> bool" where
  "nonspace_follows p s =
     (prefix p s \<and> (case drop (length p) s of [] \<Rightarrow> False | c # _ \<Rightarrow> \<not> py_isspace c))"

text \<open>\<^verbatim>\<open>re.sub(r'http\S+|www\S+', '', text)\<close>: scanning from the left, a match takes the
  literal and the whole run of non-space characters after it, and the scan goes on
  behind the match.\<close>

function sub_urls :: "string \<Rightarrow> string" where
  "sub_urls [] = []"
| "sub_urls (c # cs) =
     (if nonspace_follows ''http'' (c # cs)
      then sub_urls (dropWhile (\<lambda>x. \<not> py_isspace x) (drop 4 (c # cs)))
      else if nonspace_follows ''www'' (c # cs)
      then sub_urls (dropWhile (\<lambda>x. \<not> py_isspace x) (drop 3 (c # cs)))
      else c # sub_urls cs)"
  by pat_completeness auto
termination
proof (relation "measure length")
  fix c :: char and cs :: string
  have "length (dropWhile (\<lambda>x. \<not> py_isspace x) (drop 4 (c # cs))) \<le> length (drop 4 (c # cs))"
    by (rule length_dropWhile_le)
  then show "(dropWhile (\<lambda>x. \<not> py_isspace x) (drop 4 (c # cs)), c # cs) \<in> measure length"
    by simp
  have "length (dropWhile (\<lambda>x. \<not> py_isspace x) (drop 3 (c # cs))) \<le> length (drop 3 (c # cs))"
    by (rule length_dropWhile_le)
  then show "(dropWhile (\<lambda>x. \<not> py_isspace x) (drop 3 (c # cs)), c # cs) \<in> measure length"
    by simp
qed simp_all

text \<open>
  \<^verbatim>\<open>\S+@\S+\<close> matches at the head of a run of non-space characters exactly when the run
  has an \<^verbatim>\<open>@\<close> that is neither its first nor its last character; the match is then the
  whole run (both \<^verbatim>\<open>\S+\<close> are greedy).
\<close>

definition email_run :: "string \<Rightarrow> bool" where
  "email_run run = (CHR ''@'' \<in> set (butlast (tl run)))"

text \<open>\<^verbatim>\<open>re.sub(r'\S+@\S+', '', text)\<close>.\<close>

function sub_emails :: "string \<Rightarrow> string" where
  "sub_emails [] = []"
| "sub_emails (c # cs) =
     (if email_run (takeWhile (\<lambda>x. \<not> py_isspace x) (c # cs))
      then sub_emails (dropWhile (\<lambda>x. \<not> py_isspace x) (c # cs))
      else c # sub_emails cs)"
  by pat_completeness auto
termination
proof (relation "measure length")
  fix c :: char and cs :: string
  assume "email_run (takeWhile (\<lambda>x. \<not> py_isspace x) (c # cs))"
  then have "\<not> py_isspace c"
    by (auto simp: email_run_def split: if_splits)
  then show "(dropWhile (\<lambda>x. \<not> py_isspace x) (c # cs), c # cs) \<in> measure length"
    using length_dropWhile_le [of "\<lambda>x. \<not> py_isspace x" cs] by simp
qed simp_all

text \<open>\<^verbatim>\<open>re.sub(r'[^a-z\s]', ' ', text)\<close>.\<close>

definition sub_non_letters :: "string \<Rightarrow> string" where
  "sub_non_letters s = map (\<lambda>c. if is_lower_az c \<or> py_isspace c then c else CHR '' '') s"

text \<open>\<^verbatim>\<open>' '.join(x)\<close>.\<close>

fun py_join :: "string list \<Rightarrow> string" where
  "py_join [] = []"
| "py_join [w] = w"
| "py_join (w # ws) = w @ '' '' @ py_join ws"

subsection \<open>The libraries\<close>

text \<open>
  The third-party parts of the stage, as parameters:
  \<^item> \<open>stopwords_english\<close>: \<^verbatim>\<open>stopwords.words('english')\<close> of NLTK;
  \<^item> \<open>word_tokenize\<close>: NLTK's tokenizer;
  \<^item> \<open>lemmatize\<close>: \<^verbatim>\<open>WordNetLemmatizer().lemmatize\<close>;
  \<^item> \<open>Phrases\<close>: \<^verbatim>\<open>Phraser(Phrases(sentences, min_count=5, threshold=10))\<close> of gensim, as
    the function it applies to a list of tokens;
  \<^item> \<open>tfidf_error\<close>, \<open>nmf_error\<close>: the exception, if any, that scikit-learn raises while
    fitting TF-IDF and NMF on the processed texts (their keyword tables are printed and
    written to another file);
  \<^item> \<open>doc2bow\<close>: the gensim dictionary built from the documents and filtered with
    \<^verbatim>\<open>filter_extremes(no_below=5, no_above=0.5)\<close>, as its \<^verbatim>\<open>doc2bow\<close>;
  \<^item> \<open>LdaModel\<close>: the model trained on the corpus with the dictionary of the documents and
    the number of topics, as its \<^verbatim>\<open>get_document_topics\<close> (\<open>None\<close> when training raises);
  \<^item> \<open>nlp_repr\<close>: \<^verbatim>\<open>str\<close> of a value that is not a string.
\<close>

record nlp_lib =
  stopwords_english :: "string list"
  word_tokenize :: "string \<Rightarrow> string list"
  lemmatize :: "string \<Rightarrow> string"
  Phrases :: "string list list \<Rightarrow> string list \<Rightarrow> string list"
  tfidf_error :: "string list \<Rightarrow> error option"
  doc2bow :: "string list list \<Rightarrow> string list \<Rightarrow> (nat \<times> nat) list"
  LdaModel :: "(nat \<times> nat) list list \<Rightarrow> string list list \<Rightarrow> nat
                 \<Rightarrow> ((nat \<times> nat) list \<Rightarrow> (int \<times> real) list) option"
  nmf_error :: "string list \<Rightarrow> error option"
  nlp_repr :: "cell \<Rightarrow> string"

subsection \<open>Preprocessing\<close>

definition custom_stopwords :: "string list" where
  "custom_stopwords =
     [''app'', ''bank'', ''banking'', ''mobile'', ''application'', ''apps'',
      ''use'', ''using'', ''used'', ''one'', ''get'', ''make'', ''also'', ''would'',
      ''could'', ''even'', ''really'', ''much'', ''well'', ''good'', ''bad'']"

definition stop_words :: "nlp_lib \<Rightarrow> string set" where
  "stop_words L = set (stopwords_english L) \<union> set custom_stopwords"

text \<open>The inner function \<^verbatim>\<open>clean_text(text)\<close> of \<^verbatim>\<open>preprocess_text\<close>.\<close>

definition clean_text :: "nlp_lib \<Rightarrow> cell \<Rightarrow> string list" where
  "clean_text L text =
     (if text = NaN then []
      else
        (let text1 = py_lower (py_str (nlp_repr L) text);
             text2 = sub_urls text1;
             text3 = sub_emails text2;
             text4 = sub_non_letters text3;
             tokens = word_tokenize L text4;
             tokens1 = filter (\<lambda>word. word \<notin> stop_words L \<and> length word \<ge> 3) tokens
         in map (lemmatize L) tokens1))"

text \<open>\<^verbatim>\<open>preprocess_text(df)\<close>: the \<^verbatim>\<open>tokens\<close> column, then the rows whose token list is not
  empty.\<close>

definition preprocess_text :: "nlp_lib \<Rightarrow> dataframe \<Rightarrow> error + dataframe" where
  "preprocess_text L df =
     (case get_col df ''review'' of
        Inl e \<Rightarrow> Inl e
      | Inr review \<Rightarrow>
          (let tokens = map (clean_text L) review;
               df1 = set_col df ''tokens'' (map Toks tokens)
           in Inr (select_rows (map (\<lambda>t. length t > 0) tokens) df1)))"

text \<open>\<^verbatim>\<open>df[c].tolist()\<close> for a column of token lists.\<close>

fun token_lists :: "cell list \<Rightarrow> error + string list list" where
  "token_lists [] = Inr []"
| "token_lists (Toks t # vs) = (case token_lists vs of Inl e \<Rightarrow> Inl e | Inr ts \<Rightarrow> Inr (t # ts))"
| "token_lists (v # vs) = Inl TypeError"

text \<open>\<^verbatim>\<open>create_bigrams_trigrams(df)\<close>, as far as the frame goes: the phrase counts it also
  returns are printed and written to the keywords file.\<close>

definition create_bigrams_trigrams :: "nlp_lib \<Rightarrow> dataframe \<Rightarrow> error + dataframe" where
  "create_bigrams_trigrams L df =
     (case get_col df ''tokens'' of
        Inl e \<Rightarrow> Inl e
      | Inr col \<Rightarrow>
          (case token_lists col of
             Inl e \<Rightarrow> Inl e
           | Inr sentences \<Rightarrow>
               (let bigram_mod = Phrases L sentences;
                    trigram_mod = Phrases L (map bigram_mod sentences)
                in Inr (set_col df ''tokens_with_phrases''
                          (map (\<lambda>x. Toks (trigram_mod (bigram_mod x))) sentences)))))"

text \<open>\<^verbatim>\<open>extract_tfidf_keywords(df)\<close>: it adds the \<^verbatim>\<open>processed_text\<close> column to the frame
  of \<^verbatim>\<open>main\<close> and reads the \<^verbatim>\<open>bank\<close> column.\<close>

definition extract_tfidf_keywords :: "nlp_lib \<Rightarrow> dataframe \<Rightarrow> error + dataframe" where
  "extract_tfidf_keywords L df =
     (case get_col df ''tokens_with_phrases'' of
        Inl e \<Rightarrow> Inl e
      | Inr col \<Rightarrow>
          (case token_lists col of
             Inl e \<Rightarrow> Inl e
           | Inr docs \<Rightarrow>
               (let processed_text = map py_join docs;
                    df1 = set_col df ''processed_text'' (map Str processed_text)
                in (case tfidf_error L processed_text of
                      Some e \<Rightarrow> Inl e
                    | None \<Rightarrow>
                        (case get_col df1 ''bank'' of
                           Inl e \<Rightarrow> Inl e
                         | Inr bank \<Rightarrow> Inr df1)))))"

text \<open>Python's \<^verbatim>\<open>max(xs, key=...)\<close> on a non-empty list: the first element whose key no
  later element exceeds (the running maximum is replaced only by a strictly greater
  one).\<close>

fun py_max_from :: "('a \<Rightarrow> real) \<Rightarrow> 'a \<Rightarrow> 'a list \<Rightarrow> 'a" where
  "py_max_from key best [] = best"
| "py_max_from key best (x # xs) = py_max_from key (if key x > key best then x else best) xs"

text \<open>The body of the assignment loop of \<^verbatim>\<open>perform_lda_topic_modeling\<close>.\<close>

definition dominant_topic :: "(int \<times> real) list \<Rightarrow> int" where
  "dominant_topic topic_dist =
     (case topic_dist of
        [] \<Rightarrow> - 1
      | x # xs \<Rightarrow> fst (py_max_from snd x xs))"

text \<open>\<^verbatim>\<open>perform_lda_topic_modeling(df, n_topics, n_words)\<close>, as far as the frame goes: the
  topic keyword lists it also returns are printed and written to the keywords file.\<close>

definition perform_lda_topic_modeling :: "nlp_lib \<Rightarrow> dataframe \<Rightarrow> nat \<Rightarrow> error + dataframe" where
  "perform_lda_topic_modeling L df n_topics =
     (case get_col df ''tokens_with_phrases'' of
        Inl e \<Rightarrow> Inl e
      | Inr col \<Rightarrow>
          (case token_lists col of
             Inl e \<Rightarrow> Inl e
           | Inr documents \<Rightarrow>
               (let corpus = map (doc2bow L documents) documents
                in (case LdaModel L corpus documents n_topics of
                      None \<Rightarrow> Inl LibraryError
                    | Some get_document_topics \<Rightarrow>
                        (let topic_assignments =
                               map (\<lambda>doc_bow. dominant_topic (get_document_topics doc_bow)) corpus
                         in Inr (set_col df ''lda_topic''
                                   (map (\<lambda>k. Num (real_of_int k)) topic_assignments)))))))"

text \<open>\<^verbatim>\<open>perform_nmf_topic_modeling(df, ...)\<close>, as far as the frame goes.\<close>

definition perform_nmf_topic_modeling :: "nlp_lib \<Rightarrow> dataframe \<Rightarrow> error + dataframe" where
  "perform_nmf_topic_modeling L df =
     (case get_col df ''tokens_with_phrases'' of
        Inl e \<Rightarrow> Inl e
      | Inr col \<Rightarrow>
          (case token_lists col of
             Inl e \<Rightarrow> Inl e
           | Inr docs \<Rightarrow>
               (let processed_text = map py_join docs;
                    df1 = set_col df ''processed_text'' (map Str processed_text)
                in (case nmf_error L processed_text of
                      Some e \<Rightarrow> Inl e
                    | None \<Rightarrow> Inr df1))))"

text \<open>\<^verbatim>\<open>save_lda_assignments(df)\<close>: the frame written to data/lda\_topics.csv.\<close>

definition save_lda_assignments :: "dataframe \<Rightarrow> error + dataframe" where
  "save_lda_assignments df = select_cols df [''review'', ''bank'', ''rating'', ''lda_topic'']"

text \<open>\<^verbatim>\<open>main()\<close> from the loaded frame to the frame of topic assignments it writes.\<close>

definition topic_modeling_main :: "nlp_lib \<Rightarrow> dataframe \<Rightarrow> error + dataframe" where
  "topic_modeling_main L df =
     (case preprocess_text L df of Inl e \<Rightarrow> Inl e | Inr df1 \<Rightarrow>
      case create_bigrams_trigrams L df1 of Inl e \<Rightarrow> Inl e | Inr df2 \<Rightarrow>
      case extract_tfidf_keywords L df2 of Inl e \<Rightarrow> Inl e | Inr df3 \<Rightarrow>
      case perform_lda_topic_modeling L df3 5 of Inl e \<Rightarrow> Inl e | Inr df4 \<Rightarrow>
      case perform_nmf_topic_modeling L df4 of Inl e \<Rightarrow> Inl e | Inr df5 \<Rightarrow>
      save_lda_assignments df5)"

text \<open>What the preprocessing asks of the tokenizer: on text made of lowercase letters and
  white space only, its tokens are made of lowercase letters.\<close>

definition lowercase_tokenizer :: "nlp_lib \<Rightarrow> bool" where
  "lowercase_tokenizer L =
     (\<forall>s. (\<forall>c \<in> set s. is_lower_az c \<or> py_isspace c)
          \<longrightarrow> (\<forall>t \<in> set (word_tokenize L s). \<forall>c \<in> set t. is_lower_az c))"

text \<open>What the assignment asks of the topic model: a model trained for \<open>n\<close> topics names
  the topics \<open>0\<close> to \<open>n - 1\<close> in the distributions it returns.\<close>

definition topic_ids_in_range :: "nlp_lib \<Rightarrow> nat \<Rightarrow> bool" where
  "topic_ids_in_range L n =
     (\<forall>corpus documents get_document_topics bow.
        LdaModel L corpus documents n = Some get_document_topics
          \<longrightarrow> (\<forall>kp \<in> set (get_document_topics bow). 0 \<le> fst kp \<and> fst kp < int n))"

subsection \<open>Sample libraries\<close>

text \<open>\<^verbatim>\<open>str.split()\<close>: the maximal runs of non-space characters. On text that has only
  lowercase letters and spaces and no contraction, NLTK's tokenizer gives the same
  tokens.\<close>

fun py_split_from :: "string \<Rightarrow> string \<Rightarrow> string list" where
  "py_split_from w [] = (if w = [] then [] else [w])"
| "py_split_from w (c # cs) =
     (if py_isspace c then (if w = [] then py_split_from [] cs else w # py_split_from [] cs)
      else py_split_from (w @ [c]) cs)"

definition py_split :: "string \<Rightarrow> string list" where
  "py_split s = py_split_from [] s"

text \<open>
  A sample of the libraries: the WordNet lemmatizer on the nouns \<^verbatim>\<open>banks\<close>, \<^verbatim>\<open>transfers\<close>
  and \<^verbatim>\<open>crashes\<close> (it maps a plural noun to its singular), a few NLTK stopwords, no
  phrase merged, and a topic model that gives no topic for an empty bag of words, puts a
  document with an even number of distinct tokens mostly on topic 3, and any other on
  topics 1 and 4 equally.
\<close>

definition sample_nlp_lib :: nlp_lib where
  "sample_nlp_lib =
     \<lparr> stopwords_english = [''the'', ''is'', ''and'', ''not'', ''very'', ''this''],
       word_tokenize = py_split,
       lemmatize = (\<lambda>w. if w = ''banks'' then ''bank''
                         else if w = ''transfers'' then ''transfer''
                         else if w = ''crashes'' then ''crash'' else w),
       Phrases = (\<lambda>sentences x. x),
       tfidf_error = (\<lambda>texts. None),
       doc2bow = (\<lambda>documents doc. map (\<lambda>w. (length w, 1)) (remdups doc)),
       LdaModel = (\<lambda>corpus documents n. Some (\<lambda>bow.
          if bow = [] then []
          else if even (length bow) then [(0, 0.1), (3, 0.8), (4, 0.1)]
          else [(1, 0.5), (4, 0.5)])),
       nmf_error = (\<lambda>texts. None),
       nlp_repr = (\<lambda>v. ''nan'') \<rparr>"

definition sample_sentiment_df :: dataframe where
  "sample_sentiment_df =
     [(''review'', [Str ''The transfers FAIL, see http://t.co/x'', Str ''OK'', NaN,
                    Str ''Crashes and freezes'']),
      (''rating'', [Num 1, Num 4, Num 5, Num 2]),
      (''bank'', [Str ''Dashen Bank'', Str ''Dashen Bank'', Str ''Bank of Abyssinia'',
                  Str ''Bank of Abyssinia'']),
      (''vader_compound'', [Num (- 0.5), Num 0.3, Num 0, Num 0])]"

definition sample_phrases_df :: dataframe where
  "sample_phrases_df =
     [(''review'', [Str ''Transfers fail, see'', Str ''Crashes and freezes'', Str ''a b c'']),
      (''tokens_with_phrases'',
         [Toks [''transfer'', ''fail'', ''see''], Toks [''crash'', ''freezes''], Toks []])]"

section \<open>Scraping (scripts/scrape\_reviews.py)\<close>

text \<open>
  One call of \<^verbatim>\<open>reviews(app_id, ..., count=n, continuation_token=t)\<close> of
  google-play-scraper, as a parameter. Its arguments are the number of calls made before
  (the state of the network and of the store at that moment), the continuation token
  passed (\<open>None\<close> for Python's \<^verbatim>\<open>None\<close>) and the count asked for. It gives \<open>None\<close> when the
  call raises, and otherwise the batch with the token returned, where the token \<open>None\<close>
  stands for any token that Python takes as false.
\<close>

type_synonym ('r, 't) reviews_api = "nat \<Rightarrow> 't option \<Rightarrow> int \<Rightarrow> ('r list \<times> 't option) option"

text \<open>
  The \<^verbatim>\<open>while\<close> loop of \<^verbatim>\<open>scrape_app_reviews\<close>. The state is \<^verbatim>\<open>all_reviews\<close>, the
  \<^verbatim>\<open>continuation_token\<close> and, for the statements below, the log of the calls made: the
  count asked for and what came back.
\<close>

function scrape_loop ::
  "('r, 't) reviews_api \<Rightarrow> int \<Rightarrow> 'r list \<Rightarrow> 't option
     \<Rightarrow> (int \<times> ('r list \<times> 't option) option) list
     \<Rightarrow> 'r list \<times> (int \<times> ('r list \<times> 't option) option) list" where
  "scrape_loop reviews count all_reviews continuation_token calls =
     (if int (length all_reviews) < count then
        (let n = min 200 (count - int (length all_reviews))
         in (case reviews (length calls) continuation_token n of
               None \<Rightarrow> (all_reviews, calls @ [(n, None)])
             | Some (result, token) \<Rightarrow>
                 if result = [] then (all_reviews, calls @ [(n, Some (result, token))])
                 else if token = None
                 then (all_reviews @ result, calls @ [(n, Some (result, token))])
                 else scrape_loop reviews count (all_reviews @ result) token
                        (calls @ [(n, Some (result, token))])))
      else (all_reviews, calls))"
  by pat_completeness auto
termination
  by (relation "measure (\<lambda>(reviews, count, all_reviews, continuation_token, calls).
        nat (count - int (length all_reviews)))") auto

declare scrape_loop.simps [simp del]

text \<open>
  \<^verbatim>\<open>scrape_app_reviews(app_id, bank_name, short_name, count)\<close>: the loop from the empty
  list, then the frame. \<open>to_row\<close> builds the row of one review (its \<^verbatim>\<open>content\<close>,
  \<^verbatim>\<open>score\<close> and formatted \<^verbatim>\<open>at\<close> with the bank name and the source) and is \<open>None\<close>
  where that raises; the outer handler then returns an empty frame, as it does when
  nothing was collected.
\<close>

definition scrape_app_reviews ::
  "('r, 't) reviews_api \<Rightarrow> ('r \<Rightarrow> 'row option) \<Rightarrow> int \<Rightarrow> 'row list" where
  "scrape_app_reviews reviews to_row count =
     (let all_reviews = fst (scrape_loop reviews count [] None [])
      in if all_reviews \<noteq> []
         then (case those (map to_row all_reviews) of None \<Rightarrow> [] | Some rows \<Rightarrow> rows)
         else [])"

text \<open>An API that returns no more reviews than it was asked for, for the counts the loop
  asks for.\<close>

definition honours_count :: "('r, 't) reviews_api \<Rightarrow> bool" where
  "honours_count reviews =
     (\<forall>i token n result token'.
        1 \<le> n \<and> n \<le> 200 \<and> reviews i token n = Some (result, token')
          \<longrightarrow> int (length result) \<le> n)"

text \<open>Why the loop stopped, read from the last call: it raised, its batch was empty, or it
  returned no token.\<close>

definition last_call_ends ::
  "(int \<times> ('r list \<times> 't option) option) list \<Rightarrow> bool" where
  "last_call_ends calls =
     (calls \<noteq> [] \<and>
      (case snd (last calls) of
         None \<Rightarrow> True
       | Some (result, token) \<Rightarrow> result = [] \<or> token = None))"

text \<open>Sample stores: one that serves the reviews 0, 1, 2, ... in batches of the size asked
  for, up to 450 of them, with the number served so far as the token; and one that
  always serves three reviews, whatever was asked for.\<close>

definition sample_store :: "(nat, nat) reviews_api" where
  "sample_store i token n =
     (let start = (case token of None \<Rightarrow> 0 | Some k \<Rightarrow> k);
          stop = min 450 (start + nat n)
      in Some ([start..<stop], if stop < 450 then Some stop else None))"

definition generous_store :: "(nat, nat) reviews_api" where
  "generous_store i token n = Some ([7, 8, 9], Some 1)"

section \<open>Cleaning (scripts/clean\_reviews.py)\<close>

text \<open>
  Raw review text is modelled over the code points 0 to 255 as well. A character beyond
  them is treated by the cleaning like those from 127 to 255: it is removed by the last
  substitution of \<^verbatim>\<open>clean_review_text\<close>, unless it is white space, which the
  substitution before turns into a space.
\<close>

text \<open>\<^verbatim>\<open>df.duplicated(subset=..., keep='first')\<close> on the keys of the rows: true for a row
  whose key stands in an earlier row. A missing value equals a missing value here.\<close>

fun duplicated :: "'a list \<Rightarrow> 'a list \<Rightarrow> bool list" where
  "duplicated seen [] = []"
| "duplicated seen (k # ks) = (k \<in> set seen) # duplicated (k # seen) ks"

text \<open>\<^verbatim>\<open>remove_duplicates(df)\<close>, as far as the frame goes (the number removed goes to the
  report).\<close>

definition remove_duplicates :: "dataframe \<Rightarrow> error + dataframe" where
  "remove_duplicates df =
     (case get_col df ''review_text'' of Inl e \<Rightarrow> Inl e | Inr review_text \<Rightarrow>
      case get_col df ''bank_name'' of Inl e \<Rightarrow> Inl e | Inr bank_name \<Rightarrow>
        Inr (select_rows (map Not (duplicated [] (zip review_text bank_name))) df))"

text \<open>\<^verbatim>\<open>df.dropna(subset=[c])\<close>.\<close>

definition dropna :: "dataframe \<Rightarrow> string \<Rightarrow> error + dataframe" where
  "dropna df c =
     (case get_col df c of
        Inl e \<Rightarrow> Inl e
      | Inr vs \<Rightarrow> Inr (select_rows (map (\<lambda>v. v \<noteq> NaN) vs) df))"

text \<open>The numbers of a column without its missing values; a cell that is neither makes
  the numeric operation raise.\<close>

fun numbers :: "cell list \<Rightarrow> error + real list" where
  "numbers [] = Inr []"
| "numbers (Num x # vs) = (case numbers vs of Inl e \<Rightarrow> Inl e | Inr xs \<Rightarrow> Inr (x # xs))"
| "numbers (NaN # vs) = numbers vs"
| "numbers (v # vs) = Inl TypeError"

text \<open>\<^verbatim>\<open>Series.median()\<close> of the numbers present: missing when there is none.\<close>

definition median :: "real list \<Rightarrow> cell" where
  "median xs =
     (let s = sort xs; n = length s
      in if n = 0 then NaN
         else if odd n then Num (s ! (n div 2))
         else Num ((s ! (n div 2 - 1) + s ! (n div 2)) / 2))"

definition fillna :: "cell \<Rightarrow> cell list \<Rightarrow> cell list" where
  "fillna fill vs = map (\<lambda>v. if v = NaN then fill else v) vs"

text \<open>\<^verbatim>\<open>handle_missing_values(df)\<close>, as far as the frame goes (the report of missing values
  is printed).\<close>

definition handle_missing_values :: "dataframe \<Rightarrow> error + dataframe" where
  "handle_missing_values df =
     (case dropna df ''review_text'' of Inl e \<Rightarrow> Inl e | Inr df1 \<Rightarrow>
      case get_col df1 ''rating'' of Inl e \<Rightarrow> Inl e | Inr rating \<Rightarrow>
      case (if NaN \<in> set rating
            then (case numbers rating of
                    Inl e \<Rightarrow> Inl e
                  | Inr xs \<Rightarrow> Inr (set_col df1 ''rating'' (fillna (median xs) rating)))
            else Inr df1) of Inl e \<Rightarrow> Inl e | Inr df2 \<Rightarrow>
      dropna df2 ''date'')"

text \<open>
  The inner \<^verbatim>\<open>parse_date\<close> of \<^verbatim>\<open>normalize_dates\<close>. \<open>to_ymd\<close> is
  \<^verbatim>\<open>pd.to_datetime(s).strftime('%Y-%m-%d')\<close> for a string, \<open>None\<close> where that raises. A
  value that is neither missing nor a string has no \<^verbatim>\<open>strftime\<close>; the handler turns
  that into \<^verbatim>\<open>None\<close> as well.
\<close>

definition parse_date :: "(string \<Rightarrow> string option) \<Rightarrow> cell \<Rightarrow> cell" where
  "parse_date to_ymd date_str =
     (case date_str of
        NaN \<Rightarrow> NaN
      | Str s \<Rightarrow> (case to_ymd s of None \<Rightarrow> NaN | Some d \<Rightarrow> Str d)
      | _ \<Rightarrow> NaN)"

definition normalize_dates :: "(string \<Rightarrow> string option) \<Rightarrow> dataframe \<Rightarrow> error + dataframe" where
  "normalize_dates to_ymd df =
     (case get_col df ''date'' of
        Inl e \<Rightarrow> Inl e
      | Inr date \<Rightarrow> dropna (set_col df ''date'' (map (parse_date to_ymd) date)) ''date'')"

text \<open>\<^verbatim>\<open>text.strip()\<close>.\<close>

definition py_strip :: "string \<Rightarrow> string" where
  "py_strip s = rev (dropWhile py_isspace (rev (dropWhile py_isspace s)))"

text \<open>\<^verbatim>\<open>re.sub(r'\s+', ' ', text)\<close>: every maximal run of white space becomes one space.\<close>

function sub_spaces :: "string \<Rightarrow> string" where
  "sub_spaces [] = []"
| "sub_spaces (c # cs) =
     (if py_isspace c then CHR '' '' # sub_spaces (dropWhile py_isspace cs)
      else c # sub_spaces cs)"
  by pat_completeness auto
termination
proof (relation "measure length")
  fix c :: char and cs :: string
  show "(dropWhile py_isspace cs, c # cs) \<in> measure length"
    using length_dropWhile_le [of py_isspace cs] by simp
qed simp_all

text \<open>\<^verbatim>\<open>re.sub(r'[^\x20-\x7E\n]', '', text)\<close>.\<close>

definition sub_non_printable :: "string \<Rightarrow> string" where
  "sub_non_printable s =
     filter (\<lambda>c. (32 \<le> (of_char c :: nat) \<and> (of_char c :: nat) \<le> 126) \<or> of_char c = (10 :: nat)) s"

text \<open>The inner \<^verbatim>\<open>clean_review_text\<close> of \<^verbatim>\<open>clean_text\<close>.\<close>

definition clean_review_text :: "(cell \<Rightarrow> string) \<Rightarrow> cell \<Rightarrow> string" where
  "clean_review_text repr text =
     (if text = NaN then ''''
      else sub_non_printable (sub_spaces (py_strip (py_str repr text))))"

text \<open>\<^verbatim>\<open>clean_text(df)\<close> of the cleaning script, as far as the frame goes. \<open>was_object\<close>
  says whether \<^verbatim>\<open>review_text\<close> was a column of objects when the file was read: the
  filter \<^verbatim>\<open>df['review_text'].str.len() > 0\<close> raises \<^verbatim>\<open>AttributeError\<close> when no row is
  left and the column was numeric (as it is when every review text of the file is
  missing).\<close>

definition clean_reviews_text ::
  "(cell \<Rightarrow> string) \<Rightarrow> bool \<Rightarrow> dataframe \<Rightarrow> error + dataframe" where
  "clean_reviews_text repr was_object df =
     (case get_col df ''review_text'' of
        Inl e \<Rightarrow> Inl e
      | Inr review_text \<Rightarrow>
          (let cleaned = map (clean_review_text repr) review_text;
               df1 = set_col df ''review_text'' (map Str cleaned)
           in if str_accessor was_object (map Str cleaned)
              then Inr (select_rows (map (\<lambda>s. length s > 0) cleaned) df1)
              else Inl AttributeError))"

text \<open>\<^verbatim>\<open>standardize_schema(df)\<close>: the columns renamed, then the five labels of the final
  schema selected. Renaming leaves a column already called \<^verbatim>\<open>review\<close> or \<^verbatim>\<open>bank\<close> as it
  is, beside the renamed one, and the selection then takes both.\<close>

definition column_mapping :: "string \<Rightarrow> string" where
  "column_mapping c =
     (if c = ''review_text'' then ''review''
      else if c = ''bank_name'' then ''bank'' else c)"

definition standardize_schema :: "dataframe \<Rightarrow> error + dataframe" where
  "standardize_schema df =
     select_labels (map (\<lambda>(c, vs). (column_mapping c, vs)) df)
       [''review'', ''rating'', ''date'', ''bank'', ''source'']"

text \<open>The comparison \<^verbatim>\<open>(df['rating'] < 1) | (df['rating'] > 5)\<close>: false for a missing
  rating, an exception for a rating that is not a number.\<close>

fun invalid_ratings :: "cell list \<Rightarrow> error + nat" where
  "invalid_ratings [] = Inr 0"
| "invalid_ratings (Num x # vs) =
     (case invalid_ratings vs of
        Inl e \<Rightarrow> Inl e
      | Inr n \<Rightarrow> Inr (if x < 1 \<or> x > 5 then Suc n else n))"
| "invalid_ratings (NaN # vs) = invalid_ratings vs"
| "invalid_ratings (v # vs) = Inl TypeError"

text \<open>The rows of some columns, each row as the list of its cells.\<close>

fun row_keys :: "'a list list \<Rightarrow> 'a list list" where
  "row_keys [] = []"
| "row_keys [vs] = map (\<lambda>v. [v]) vs"
| "row_keys (vs # cols) = map (\<lambda>(v, row). v # row) (zip vs (row_keys cols))"

text \<open>\<^verbatim>\<open>validate_data(df)\<close>: whether the list of issues stays empty.
  \<^verbatim>\<open>df.duplicated(subset=['review', 'bank'])\<close> compares the rows over every column that
  carries one of the two labels. The last check, \<^verbatim>\<open>df['review'].str.len() == 0\<close>, raises
  \<^verbatim>\<open>AttributeError\<close> when two columns carry the label \<^verbatim>\<open>review\<close> (\<^verbatim>\<open>df['review']\<close> is then a
  frame, which has no \<^verbatim>\<open>.str\<close>) and on a numeric review column (\<open>was_object\<close> says which
  kind a column without rows is); \<^verbatim>\<open>.str.len()\<close> is the length of a string and of a list,
  and missing for any other cell of a column of objects.\<close>

definition validate_data :: "bool \<Rightarrow> dataframe \<Rightarrow> error + bool" where
  "validate_data was_object df =
     (case get_col df ''review'' of Inl e \<Rightarrow> Inl e | Inr review \<Rightarrow>
      case get_col df ''bank'' of Inl e \<Rightarrow> Inl e | Inr bank \<Rightarrow>
      case get_col df ''rating'' of Inl e \<Rightarrow> Inl e | Inr rating \<Rightarrow>
      case invalid_ratings rating of Inl e \<Rightarrow> Inl e | Inr invalid \<Rightarrow>
        (let key_cols = filter (\<lambda>cv. fst cv = ''review'' \<or> fst cv = ''bank'') df;
             duplicates = length (filter (\<lambda>d. d) (duplicated [] (row_keys (map snd key_cols))));
             missing = sum_list (map (\<lambda>(c, vs). length (filter (\<lambda>v. v = NaN) vs)) df);
             empty_reviews = length (filter (\<lambda>v. v = Str '''' \<or> v = Toks []) review)
         in if length (filter (\<lambda>cv. fst cv = ''review'') df) = 1
               \<and> str_accessor was_object review
            then Inr (\<not> duplicates > 0 \<and> \<not> invalid > 0 \<and> \<not> missing > 0 \<and> \<not> empty_reviews > 0)
            else Inl AttributeError))"

text \<open>Whether \<^verbatim>\<open>read_csv\<close> has made \<^verbatim>\<open>review_text\<close> a column of objects.\<close>

definition review_text_dtype :: "dataframe \<Rightarrow> bool" where
  "review_text_dtype df =
     (case get_col df ''review_text'' of
        Inl e \<Rightarrow> False
      | Inr review_text \<Rightarrow> object_dtype review_text)"

text \<open>\<^verbatim>\<open>main()\<close> from the loaded raw frame to the frame written to
  data/bank\_reviews\_clean.csv. The result of \<^verbatim>\<open>validate_data\<close> is bound to \<^verbatim>\<open>is_valid\<close>
  and not used: the frame is written whatever it is. Once \<^verbatim>\<open>clean_text\<close> has returned,
  \<^verbatim>\<open>.str\<close> has worked on the review column, so the column holds objects from there on
  (renaming and selecting keep that), and that is what \<^verbatim>\<open>validate_data\<close> is given.\<close>

definition clean_reviews_main ::
  "(string \<Rightarrow> string option) \<Rightarrow> (cell \<Rightarrow> string) \<Rightarrow> dataframe \<Rightarrow> error + dataframe" where
  "clean_reviews_main to_ymd repr df =
     (case remove_duplicates df of Inl e \<Rightarrow> Inl e | Inr df1 \<Rightarrow>
      case handle_missing_values df1 of Inl e \<Rightarrow> Inl e | Inr df2 \<Rightarrow>
      case normalize_dates to_ymd df2 of Inl e \<Rightarrow> Inl e | Inr df3 \<Rightarrow>
      case clean_reviews_text repr (review_text_dtype df) df3 of Inl e \<Rightarrow> Inl e | Inr df4 \<Rightarrow>
      case standardize_schema df4 of Inl e \<Rightarrow> Inl e | Inr df5 \<Rightarrow>
      case validate_data True df5 of Inl e \<Rightarrow> Inl e | Inr is_valid \<Rightarrow>
      Inr df5)"

text \<open>What the specification asks of the cleaned frame.\<close>

definition cleaned_invariant :: "dataframe \<Rightarrow> bool" where
  "cleaned_invariant df =
     (case (get_col df ''review'', get_col df ''bank'', get_col df ''rating'') of
        (Inr review, Inr bank, Inr rating) \<Rightarrow>
          distinct (zip review bank)
          \<and> list_all (\<lambda>v. v \<noteq> Str '''') review
          \<and> list_all (\<lambda>(c, vs). list_all (\<lambda>v. v \<noteq> NaN) vs) df
          \<and> list_all (\<lambda>v. case v of Num x \<Rightarrow> 1 \<le> x \<and> x \<le> 5 | _ \<Rightarrow> False) rating
      | _ \<Rightarrow> False)"

text \<open>A sample raw frame with the columns the scraper writes, and a date parser that
  accepts dates already written year-month-day.\<close>

definition sample_to_ymd :: "string \<Rightarrow> string option" where
  "sample_to_ymd s = (if length s = 10 then Some s else None)"

definition sample_raw_df :: dataframe where
  "sample_raw_df =
     [(''review_text'', [Str ''Good app'', Str '' Good  app '', Str ''Slow'', Str ''Good app'',
                         NaN]),
      (''rating'', [Num 5, Num 4, Num 0, Num 5, Num 3]),
      (''date'', [Str ''2024-01-05'', Str ''2024-01-06'', Str ''2024-02-01'', Str ''2024-01-05'',
                  Str ''2024-03-01'']),
      (''bank_name'', [Str ''Dashen Bank'', Str ''Dashen Bank'', NaN, Str ''Dashen Bank'',
                       Str ''Dashen Bank'']),
      (''source'', [Str ''google_play'', NaN, Str ''google_play'',
                    Str ''google_play'', Str ''google_play''])]"

text \<open>A raw frame in which no review has a rating: the median of no rating is missing, so
  filling with it fills nothing.\<close>

definition sample_unrated_df :: dataframe where
  "sample_unrated_df =
     [(''review_text'', [Str ''Nice'', Str ''Slow'']),
      (''rating'', [NaN, NaN]),
      (''date'', [Str ''2024-01-05'', Str ''2024-01-06'']),
      (''bank_name'', [Str ''Dashen Bank'', Str ''Dashen Bank'']),
      (''source'', [Str ''google_play'', Str ''google_play''])]"

section \<open>Loading into PostgreSQL (scripts/insert\_into\_postgres.py)\<close>

text \<open>
  The rows of the cleaned file as \<^verbatim>\<open>df.iterrows()\<close> yields them. \<^verbatim>\<open>load_csv_data\<close> has
  checked that the five columns are there.
\<close>

record review_row =
  row_review :: cell
  row_rating :: cell
  row_date :: cell
  row_bank :: cell
  row_source :: cell

text \<open>An exception of the script: a \<^verbatim>\<open>psycopg2.Error\<close> with its message, or any other.\<close>

datatype exn = Psycopg2Error string | PyError error

text \<open>The tuple of one \<^verbatim>\<open>INSERT INTO reviews\<close>: bank id, review text, rating, review date,
  sentiment label, sentiment score, source.\<close>

type_synonym 'd review_tuple = "int \<times> cell \<times> int \<times> 'd \<times> cell \<times> cell \<times> cell"

text \<open>
  The database server and the other libraries, as parameters. The contents of the
  database are a value of \<open>'db\<close>, a calendar date a value of \<open>'d\<close>.
  \<^item> \<open>execute_insert_bank\<close>: the \<^verbatim>\<open>INSERT INTO banks ... ON CONFLICT ... RETURNING
    bank_id\<close> on the contents the open transaction sees: the message of the
    \<^verbatim>\<open>psycopg2.Error\<close> it raises, or the new contents with the bank id fetched;
  \<^item> \<open>execute_insert_review\<close>: one \<^verbatim>\<open>INSERT INTO reviews\<close> of \<^verbatim>\<open>execute_batch\<close>;
  \<^item> \<open>commit_error\<close>: the error \<^verbatim>\<open>conn.commit()\<close> raises on these contents, if any (the
    transaction is then not committed);
  \<^item> \<open>rollback_error\<close>: the error \<^verbatim>\<open>conn.rollback()\<close> raises when the transaction sees
    these contents, if any (it raises on a connection that is lost or closed; the
    transaction is then not rolled back by the call);
  \<^item> \<open>to_date\<close>: \<^verbatim>\<open>pd.to_datetime(v).date()\<close>, \<open>None\<close> where that raises;
  \<^item> \<open>today\<close>: \<^verbatim>\<open>datetime.now().date()\<close>;
  \<^item> \<open>int_of_str\<close>: \<^verbatim>\<open>int(s)\<close> of a string, \<open>None\<close> where that raises.
\<close>

record ('db, 'd) postgres =
  execute_insert_bank :: "'db \<Rightarrow> cell \<Rightarrow> string + ('db \<times> int)"
  execute_insert_review :: "'db \<Rightarrow> 'd review_tuple \<Rightarrow> string + 'db"
  commit_error :: "'db \<Rightarrow> string option"
  rollback_error :: "'db \<Rightarrow> string option"
  to_date :: "cell \<Rightarrow> 'd option"
  today :: 'd
  int_of_str :: "string \<Rightarrow> int option"

text \<open>
  The connection: the committed contents of the database, the contents the open
  transaction of this connection sees, and how often the connection has committed and
  rolled back.
\<close>

record 'db connection =
  committed :: 'db
  pending :: 'db
  commits :: nat
  rollbacks :: nat

definition rollback :: "('db, 'd) postgres \<Rightarrow> 'db connection \<Rightarrow> string + 'db connection" where
  "rollback P conn =
     (case rollback_error P (pending conn) of
        Some e \<Rightarrow> Inl e
      | None \<Rightarrow> Inr (conn\<lparr>pending := committed conn, rollbacks := Suc (rollbacks conn)\<rparr>))"

definition commit :: "('db, 'd) postgres \<Rightarrow> 'db connection \<Rightarrow> string + 'db connection" where
  "commit P conn =
     (case commit_error P (pending conn) of
        Some e \<Rightarrow> Inl e
      | None \<Rightarrow> Inr (conn\<lparr>committed := pending conn, commits := Suc (commits conn)\<rparr>))"

text \<open>
  The handler of both methods, \<^verbatim>\<open>except psycopg2.Error as e: self.conn.rollback();
  print(...); raise\<close>, entered with the error of message \<open>e\<close>: the exception that leaves
  the method and the connection afterwards. When \<^verbatim>\<open>rollback()\<close> raises, its exception
  (a \<^verbatim>\<open>psycopg2.Error\<close> as well) leaves the handler at once, in place of the one caught.
\<close>

definition except_psycopg2_error ::
  "('db, 'd) postgres \<Rightarrow> 'db connection \<Rightarrow> string \<Rightarrow> (exn + 'a) \<times> 'db connection" where
  "except_psycopg2_error P conn e =
     (case rollback P conn of
        Inl e' \<Rightarrow> (Inl (Psycopg2Error e'), conn)
      | Inr conn' \<Rightarrow> (Inl (Psycopg2Error e), conn'))"

text \<open>\<^verbatim>\<open>Series.unique()\<close>: the distinct values in the order of their first occurrence.\<close>

definition unique :: "'a list \<Rightarrow> 'a list" where
  "unique xs = rev (remdups (rev xs))"

text \<open>The \<^verbatim>\<open>for bank_name in unique_banks\<close> loop of \<^verbatim>\<open>insert_banks\<close>, on the contents the
  transaction sees, up to the first statement that raises: then the result is the message
  of the error with the contents the transaction had come to.\<close>

fun insert_banks_loop ::
  "('db, 'd) postgres \<Rightarrow> 'db \<Rightarrow> cell list \<Rightarrow> (cell \<times> int) list
     \<Rightarrow> (string \<times> 'db) + ('db \<times> (cell \<times> int) list)" where
  "insert_banks_loop P db [] bank_mapping = Inr (db, bank_mapping)"
| "insert_banks_loop P db (bank_name # rest) bank_mapping =
     (case execute_insert_bank P db bank_name of
        Inl e \<Rightarrow> Inl (e, db)
      | Inr (db', bank_id) \<Rightarrow>
          insert_banks_loop P db' rest (AList.update bank_name bank_id bank_mapping))"

text \<open>\<^verbatim>\<open>insert_banks(df)\<close>: the result (the mapping, or the exception that leaves the method)
  and the connection afterwards.\<close>

definition insert_banks ::
  "('db, 'd) postgres \<Rightarrow> 'db connection \<Rightarrow> review_row list
     \<Rightarrow> (exn + (cell \<times> int) list) \<times> 'db connection" where
  "insert_banks P conn df =
     (case insert_banks_loop P (pending conn) (unique (map row_bank df)) [] of
        Inl (e, db') \<Rightarrow> except_psycopg2_error P (conn\<lparr>pending := db'\<rparr>) e
      | Inr (db', bank_mapping) \<Rightarrow>
          (case commit P (conn\<lparr>pending := db'\<rparr>) of
             Inl e \<Rightarrow> except_psycopg2_error P (conn\<lparr>pending := db'\<rparr>) e
           | Inr conn' \<Rightarrow> (Inr bank_mapping, conn')))"

text \<open>\<^verbatim>\<open>int(v)\<close>: a number is cut towards zero, a missing value raises \<^verbatim>\<open>ValueError\<close>.\<close>

definition py_int :: "('db, 'd) postgres \<Rightarrow> cell \<Rightarrow> error + int" where
  "py_int P v =
     (case v of
        Num x \<Rightarrow> Inr (if 0 \<le> x then \<lfloor>x\<rfloor> else \<lceil>x\<rceil>)
      | NaN \<Rightarrow> Inl ValueError
      | Str s \<Rightarrow> (case int_of_str P s of None \<Rightarrow> Inl ValueError | Some n \<Rightarrow> Inr n)
      | Toks ts \<Rightarrow> Inl TypeError)"

text \<open>The loop of \<^verbatim>\<open>insert_reviews\<close> that prepares \<^verbatim>\<open>review_data\<close>.\<close>

fun prepare_review_data ::
  "('db, 'd) postgres \<Rightarrow> (cell \<times> int) list \<Rightarrow> review_row list \<Rightarrow> error + 'd review_tuple list" where
  "prepare_review_data P bank_mapping [] = Inr []"
| "prepare_review_data P bank_mapping (row # rows) =
     (case map_of bank_mapping (row_bank row) of
        None \<Rightarrow> prepare_review_data P bank_mapping rows
      | Some bank_id \<Rightarrow>
          (let review_date = (case to_date P (row_date row) of None \<Rightarrow> today P | Some d \<Rightarrow> d)
           in (case py_int P (row_rating row) of
                 Inl e \<Rightarrow> Inl e
               | Inr rating \<Rightarrow>
                   (case prepare_review_data P bank_mapping rows of
                      Inl e \<Rightarrow> Inl e
                    | Inr review_data \<Rightarrow>
                        Inr ((bank_id, row_review row, rating, review_date, NaN, NaN,
                              row_source row) # review_data)))))"

text \<open>\<^verbatim>\<open>extras.execute_batch(cursor, insert_query, review_data)\<close>: the statements in order,
  up to the first that raises: then the result is the message of the error with the
  contents the transaction had come to.\<close>

fun execute_batch ::
  "('db, 'd) postgres \<Rightarrow> 'db \<Rightarrow> 'd review_tuple list \<Rightarrow> (string \<times> 'db) + 'db" where
  "execute_batch P db [] = Inr db"
| "execute_batch P db (t # ts) =
     (case execute_insert_review P db t of
        Inl e \<Rightarrow> Inl (e, db)
      | Inr db' \<Rightarrow> execute_batch P db' ts)"

text \<open>\<^verbatim>\<open>insert_reviews(df, bank_mapping)\<close>: the result (the number of reviews inserted, or
  the exception that leaves the method) and the connection afterwards. Only a
  \<^verbatim>\<open>psycopg2.Error\<close> is caught.\<close>

definition insert_reviews ::
  "('db, 'd) postgres \<Rightarrow> 'db connection \<Rightarrow> review_row list \<Rightarrow> (cell \<times> int) list
     \<Rightarrow> (exn + nat) \<times> 'db connection" where
  "insert_reviews P conn df bank_mapping =
     (case prepare_review_data P bank_mapping df of
        Inl e \<Rightarrow> (Inl (PyError e), conn)
      | Inr review_data \<Rightarrow>
          (case execute_batch P (pending conn) review_data of
             Inl (e, db') \<Rightarrow> except_psycopg2_error P (conn\<lparr>pending := db'\<rparr>) e
           | Inr db' \<Rightarrow>
               (case commit P (conn\<lparr>pending := db'\<rparr>) of
                  Inl e \<Rightarrow> except_psycopg2_error P (conn\<lparr>pending := db'\<rparr>) e
                | Inr conn' \<Rightarrow> (Inr (length review_data), conn'))))"

text \<open>
  A sample database: its contents are the bank names and the review tuples stored, a bank
  gets its position in the table as id, a review is refused when its rating is not from
  1 to 5 (a check constraint), and neither a commit nor a rollback fails. Dates are
  strings; a date is parsed when it has ten characters.
\<close>

definition sample_postgres :: "(cell list \<times> string review_tuple list, string) postgres" where
  "sample_postgres =
     \<lparr> execute_insert_bank = (\<lambda>db bank_name.
         if bank_name = NaN then Inl ''null value in column bank_name''
         else if bank_name \<in> set (fst db)
         then Inr (db, int (length (takeWhile (\<lambda>b. b \<noteq> bank_name) (fst db))) + 1)
         else Inr ((fst db @ [bank_name], snd db), int (length (fst db)) + 1)),
       execute_insert_review = (\<lambda>db t.
         if 1 \<le> fst (snd (snd t)) \<and> fst (snd (snd t)) \<le> 5
         then Inr (fst db, snd db @ [t]) else Inl ''check constraint on rating''),
       commit_error = (\<lambda>db. None),
       rollback_error = (\<lambda>db. None),
       to_date = (\<lambda>v. case v of Str s \<Rightarrow> (if length s = 10 then Some s else None) | _ \<Rightarrow> None),
       today = ''2026-01-01'',
       int_of_str = (\<lambda>s. None) \<rparr>"

definition sample_connection :: "(cell list \<times> string review_tuple list) connection" where
  "sample_connection = \<lparr> committed = ([], []), pending = ([], []), commits = 0, rollbacks = 0 \<rparr>"

definition sample_rows :: "review_row list" where
  "sample_rows =
     [\<lparr> row_review = Str ''Good app'', row_rating = Num 5, row_date = Str ''2024-01-05'',
        row_bank = Str ''Dashen Bank'', row_source = Str ''google_play'' \<rparr>,
      \<lparr> row_review = Str ''Slow'', row_rating = Num 2, row_date = Str ''yesterday'',
        row_bank = Str ''Bank of Abyssinia'', row_source = Str ''google_play'' \<rparr>,
      \<lparr> row_review = Str ''Fine'', row_rating = Num 4, row_date = Str ''2024-03-01'',
        row_bank = Str ''Awash Bank'', row_source = Str ''google_play'' \<rparr>]"

definition sample_bank_mapping :: "(cell \<times> int) list" where
  "sample_bank_mapping = [(Str ''Dashen Bank'', 1), (Str ''Bank of Abyssinia'', 2)]"

text \<open>The sample database when another session holds the rows: every commit fails.\<close>

definition contended_postgres :: "(cell list \<times> string review_tuple list, string) postgres" where
  "contended_postgres =
     sample_postgres\<lparr>commit_error := (\<lambda>db. Some ''could not serialize access'')\<rparr>"

text \<open>The sample database when the server goes away before the third bank is inserted:
  the statement raises, and so does the rollback on the connection now closed.\<close>

definition lost_postgres :: "(cell list \<times> string review_tuple list, string) postgres" where
  "lost_postgres =
     sample_postgres\<lparr>
       execute_insert_bank := (\<lambda>db bank_name.
         if length (fst db) \<ge> 2 then Inl ''server closed the connection unexpectedly''
         else execute_insert_bank sample_postgres db bank_name),
       execute_insert_review := (\<lambda>db t.
         if length (snd db) \<ge> 1 then Inl ''server closed the connection unexpectedly''
         else execute_insert_review sample_postgres db t),
       rollback_error := (\<lambda>db. Some ''connection already closed'')\<rparr>"

text \<open>Sample rows the sample database refuses: the last has no bank, and its rating is
  not from 1 to 5.\<close>

definition sample_bad_rows :: "review_row list" where
  "sample_bad_rows =
     sample_rows @
     [\<lparr> row_review = Str ''x'', row_rating = Num 9, row_date = NaN,
        row_bank = NaN, row_source = NaN \<rparr>]"

definition sample_bad_mapping :: "(cell \<times> int) list" where
  "sample_bad_mapping = sample_bank_mapping @ [(NaN, 3)]"

section \<open>Theorems\<close>

subsection \<open>Data frames\<close>

lemma set_col_fresh: "k \<notin> set (columns df) \<Longrightarrow> set_col df k v = df @ [(k, v)]"
  unfolding set_col_def columns_def by (induction df) auto

lemma drop_col_fresh:
  "k \<notin> set (columns df) \<Longrightarrow> drop_col (df @ [(k, v)] @ ex) k = df @ drop_col ex k"
  unfolding drop_col_def columns_def by (induction df) auto

lemma get_col_append: "get_col df c = Inr vs \<Longrightarrow> get_col (df @ ex) c = Inr vs"
  by (auto simp: get_col_def map_add_Some_iff split: option.splits)

lemma get_col_fresh: "c \<notin> set (columns df) \<Longrightarrow> get_col (df @ ex) c = get_col ex c"
  unfolding get_col_def columns_def by (induction df) auto

lemma get_col_set_col:
  "get_col (set_col df c vs) c' = (if c' = c then Inr vs else get_col df c')"
  by (simp add: get_col_def set_col_def update_conv')

lemma get_col_select_rows:
  "get_col (select_rows keep df) c =
     (case get_col df c of Inl e \<Rightarrow> Inl e | Inr vs \<Rightarrow> Inr (select keep vs))"
  by (simp add: get_col_def select_rows_def map_of_map split: option.splits)

lemma select_Nil [simp]: "select [] vs = []" "select keep [] = []"
  by (simp_all add: select_def)

lemma select_Cons [simp]:
  "select (k # keep) (v # vs) = (if k then v # select keep vs else select keep vs)"
  by (simp add: select_def)

lemma select_map_filter: "select (map P xs) (map f xs) = map f (filter P xs)"
  by (induction xs) simp_all

lemma select_self: "select (map P xs) xs = filter P xs"
  using select_map_filter [of P xs "\<lambda>x. x"] by simp

lemma length_select_le: "length (select keep vs) \<le> length vs"
proof (induction keep arbitrary: vs)
  case Nil
  then show ?case by simp
next
  case (Cons k keep)
  show ?case
  proof (cases vs)
    case Nil
    then show ?thesis by simp
  next
    case (Cons v vs')
    with Cons.IH [of vs'] show ?thesis by simp
  qed
qed

lemma select_zip: "select keep (zip xs ys) = zip (select keep xs) (select keep ys)"
proof (induction keep arbitrary: xs ys)
  case Nil
  then show ?case by simp
next
  case (Cons k keep)
  show ?case
  proof (cases xs)
    case Nil
    then show ?thesis by simp
  next
    case xs: (Cons x xs')
    show ?thesis
    proof (cases ys)
      case Nil
      then show ?thesis by simp
    next
      case (Cons y ys')
      with xs Cons.IH [of xs' ys'] show ?thesis by simp
    qed
  qed
qed

lemma select_set: "set (select keep vs) \<subseteq> set vs"
  unfolding select_def by (auto dest: set_zip_rightD)

lemma select_zip_filter:
  "select (map P xs) (zip xs ys) = filter (\<lambda>xy. P (fst xy)) (zip xs ys)"
proof (induction xs arbitrary: ys)
  case Nil
  then show ?case by simp
next
  case (Cons x xs)
  show ?case
  proof (cases ys)
    case Nil
    then show ?thesis by simp
  next
    case (Cons y ys')
    with Cons.IH [of ys'] show ?thesis by simp
  qed
qed

subsection \<open>Sentiment analysis\<close>

lemma apply_vader_fresh:
  assumes "''vader_compound'' \<notin> set (columns df)" "get_col df ''review'' = Inr review"
  shows "apply_vader_sentiment L df =
    Inr (df @ [(''vader_compound'', map (\<lambda>t. Num (get_vader_scores L t)) review)])"
  using assms by (simp add: apply_vader_sentiment_def set_col_fresh)

lemma apply_textblob_fresh:
  assumes "''textblob_polarity'' \<notin> set (columns df)"
    "''textblob_subjectivity'' \<notin> set (columns df)"
    "get_col df ''review'' = Inr review"
  shows "apply_textblob_sentiment L df =
    Inr (df @ [(''textblob_polarity'', map (\<lambda>t. Num (fst (get_textblob_scores L t))) review),
               (''textblob_subjectivity'', map (\<lambda>t. Num (snd (get_textblob_scores L t))) review)])"
proof -
  have "''textblob_subjectivity'' \<notin> set (columns (df @ [(''textblob_polarity'', x)]))" for x
    using assms(2) by (simp add: columns_def)
  then show ?thesis
    using assms by (simp add: apply_textblob_sentiment_def set_col_fresh Let_def comp_def)
qed

lemma apply_afinn_fresh:
  assumes "''afinn_score'' \<notin> set (columns df)" "get_col df ''review'' = Inr review"
  shows "apply_afinn_sentiment L df =
    Inr (df @ [(''afinn_score'', map (\<lambda>t. Num (get_afinn_score L t)) review)])"
  using assms by (simp add: apply_afinn_sentiment_def set_col_fresh)

lemma compute_aggregated_insights_fresh:
  assumes "''month'' \<notin> set (columns df)" "compute_aggregated_insights L df = Inr out"
  shows "\<exists>month. out = df @ [(''month'', month)]"
  using assms
  by (auto simp: compute_aggregated_insights_def set_col_fresh split: sum.splits option.splits)

lemma generate_summary_statistics_fresh:
  assumes "''sentiment_category'' \<notin> set (columns df)"
    "get_col df ''vader_compound'' = Inr vader"
    "generate_summary_statistics L df = Inr out"
  shows "out = df @ [(''sentiment_category'', map pd_cut vader)]"
  using assms
  by (auto simp: generate_summary_statistics_def set_col_fresh split: sum.splits option.splits)

text \<open>The saved frame, for an input frame that has none of the columns the stage adds.\<close>

lemma sentiment_main_result:
  assumes fresh: "set (columns df) \<inter> (insert ''month'' (set sentiment_columns)) = {}"
    and ok: "sentiment_main L df = Inr out"
  shows "\<exists>review. get_col df ''review'' = Inr review \<and>
     out = df @
       [(''vader_compound'', map (\<lambda>t. Num (get_vader_scores L t)) review),
        (''textblob_polarity'', map (\<lambda>t. Num (fst (get_textblob_scores L t))) review),
        (''textblob_subjectivity'', map (\<lambda>t. Num (snd (get_textblob_scores L t))) review),
        (''afinn_score'', map (\<lambda>t. Num (get_afinn_score L t)) review),
        (''sentiment_category'', map (\<lambda>t. pd_cut (Num (get_vader_scores L t))) review)]"
proof -
  have f: "''vader_compound'' \<notin> set (columns df)" "''textblob_polarity'' \<notin> set (columns df)"
    "''textblob_subjectivity'' \<notin> set (columns df)" "''afinn_score'' \<notin> set (columns df)"
    "''sentiment_category'' \<notin> set (columns df)" "''month'' \<notin> set (columns df)"
    using fresh by (auto simp: sentiment_columns_def)
  from ok obtain df1 df2 df3 df4 df5 where
    s1: "apply_vader_sentiment L df = Inr df1" and
    s2: "apply_textblob_sentiment L df1 = Inr df2" and
    s3: "apply_afinn_sentiment L df2 = Inr df3" and
    s4: "compute_aggregated_insights L df3 = Inr df4" and
    s5: "generate_summary_statistics L df4 = Inr df5" and
    s6: "out = save_results df5"
    by (auto simp: sentiment_main_def split: sum.splits)
  from s1 obtain review where r: "get_col df ''review'' = Inr review"
    by (auto simp: apply_vader_sentiment_def split: sum.splits)
  define ex1 where "ex1 = [(''vader_compound'', map (\<lambda>t. Num (get_vader_scores L t)) review)]"
  define ex2 where "ex2 = ex1 @
     [(''textblob_polarity'', map (\<lambda>t. Num (fst (get_textblob_scores L t))) review),
      (''textblob_subjectivity'', map (\<lambda>t. Num (snd (get_textblob_scores L t))) review)]"
  define ex3 where "ex3 = ex2 @ [(''afinn_score'', map (\<lambda>t. Num (get_afinn_score L t)) review)]"
  have d1: "df1 = df @ ex1"
    using s1 apply_vader_fresh [OF f(1) r, of L] by (simp add: ex1_def)
  have c1: "columns df1 = columns df @ [''vader_compound'']"
    by (simp add: d1 ex1_def columns_def)
  have "apply_textblob_sentiment L df1 = Inr (df1 @
     [(''textblob_polarity'', map (\<lambda>t. Num (fst (get_textblob_scores L t))) review),
      (''textblob_subjectivity'', map (\<lambda>t. Num (snd (get_textblob_scores L t))) review)])"
    by (rule apply_textblob_fresh) (simp_all add: c1 f, simp add: d1 get_col_append [OF r])
  with s2 have d2: "df2 = df @ ex2"
    by (simp add: d1 ex2_def)
  have c2: "columns df2 =
      columns df @ [''vader_compound'', ''textblob_polarity'', ''textblob_subjectivity'']"
    by (simp add: d2 ex2_def ex1_def columns_def)
  have "apply_afinn_sentiment L df2 =
     Inr (df2 @ [(''afinn_score'', map (\<lambda>t. Num (get_afinn_score L t)) review)])"
    by (rule apply_afinn_fresh) (simp_all add: c2 f, simp add: d2 get_col_append [OF r])
  with s3 have d3: "df3 = df @ ex3"
    by (simp add: d2 ex3_def)
  have c3: "columns df3 = columns df @ [''vader_compound'', ''textblob_polarity'',
      ''textblob_subjectivity'', ''afinn_score'']"
    by (simp add: d3 ex3_def ex2_def ex1_def columns_def)
  have "''month'' \<notin> set (columns df3)"
    by (simp add: c3 f)
  from compute_aggregated_insights_fresh [OF this s4] obtain month where
    d4: "df4 = df3 @ [(''month'', month)]"
    by blast
  have c4: "columns df4 = columns df3 @ [''month'']"
    by (simp add: d4 columns_def)
  have v4: "get_col df4 ''vader_compound'' = Inr (map (\<lambda>t. Num (get_vader_scores L t)) review)"
    unfolding d4 d3 ex3_def ex2_def ex1_def using f(1)
    by (simp add: get_col_fresh) (simp add: get_col_def)
  have "''sentiment_category'' \<notin> set (columns df4)"
    by (simp add: c4 c3 f)
  from generate_summary_statistics_fresh [OF this v4 s5] have
    d5: "df5 = df3 @ [(''month'', month)] @
       [(''sentiment_category'', map pd_cut (map (\<lambda>t. Num (get_vader_scores L t)) review))]"
    by (simp add: d4)
  have "''month'' \<in> set (columns df5)"
    by (simp add: d5 columns_def)
  moreover have "drop_col df5 ''month'' = df3 @
      drop_col [(''sentiment_category'',
                 map pd_cut (map (\<lambda>t. Num (get_vader_scores L t)) review))] ''month''"
    unfolding d5 by (rule drop_col_fresh) (simp add: c3 f)
  ultimately have "save_results df5 = df3 @
      [(''sentiment_category'', map pd_cut (map (\<lambda>t. Num (get_vader_scores L t)) review))]"
    by (simp add: save_results_def drop_col_def)
  then show ?thesis using r s6 by (simp add: d3 ex3_def ex2_def ex1_def comp_def)
qed

lemma sample_sentiment_run:
  "sentiment_main sample_sentiment_lib sample_clean_df =
     Inr (sample_clean_df @
       [(''vader_compound'', [Num 0.6249, Num 0, Num 0]),
        (''textblob_polarity'', [Num 0.8, Num 0, Num 0]),
        (''textblob_subjectivity'', [Num 0.75, Num 0, Num 0]),
        (''afinn_score'', [Num 3, Num 0, Num 0]),
        (''sentiment_category'', [Str ''Positive'', Str ''Neutral'', Str ''Neutral''])])"
  by (simp add: sentiment_main_def apply_vader_sentiment_def apply_textblob_sentiment_def
      apply_afinn_sentiment_def compute_aggregated_insights_def generate_summary_statistics_def
      save_results_def get_col_def set_col_def drop_col_def columns_def sample_clean_df_def
      sample_sentiment_lib_def get_vader_scores_def get_textblob_scores_def get_afinn_score_def
      py_str_def pd_cut_def)

subsection \<open>Topic modeling\<close>

lemma space_is_space: "py_isspace (CHR '' '')"
  by (simp add: py_isspace_def)

lemma sub_non_letters_chars: "c \<in> set (sub_non_letters s) \<Longrightarrow> is_lower_az c \<or> py_isspace c"
  by (auto simp: sub_non_letters_def space_is_space split: if_splits)

lemma token_lists_Toks: "token_lists (map Toks ts) = Inr ts"
  by (induction ts) simp_all

lemma py_max_from_greatest:
  "py_max_from key best xs \<in> set (best # xs)
   \<and> (\<forall>x \<in> set (best # xs). key x \<le> key (py_max_from key best xs))"
proof (induction xs arbitrary: best)
  case Nil
  then show ?case by simp
next
  case (Cons x xs)
  from Cons.IH [of "if key x > key best then x else best"]
  show ?case by (auto split: if_splits)
qed

lemma dominant_topic_cases:
  "(topic_dist = [] \<longrightarrow> dominant_topic topic_dist = - 1)
   \<and> (topic_dist \<noteq> [] \<longrightarrow> (\<exists>p. (dominant_topic topic_dist, p) \<in> set topic_dist \<and> (\<forall>kq \<in> set topic_dist. snd kq \<le> p)))"
proof (cases topic_dist)
  case Nil
  then show ?thesis by (simp add: dominant_topic_def)
next
  case (Cons x xs)
  from py_max_from_greatest [of snd x xs]
  have "py_max_from snd x xs \<in> set topic_dist"
    and "\<forall>kq \<in> set topic_dist. snd kq \<le> snd (py_max_from snd x xs)"
    by (simp_all add: Cons)
  then have "(dominant_topic topic_dist, snd (py_max_from snd x xs)) \<in> set topic_dist
      \<and> (\<forall>kq \<in> set topic_dist. snd kq \<le> snd (py_max_from snd x xs))"
    by (simp add: dominant_topic_def Cons)
  then show ?thesis using Cons by blast
qed

text \<open>What each step of \<^verbatim>\<open>main\<close> does to the columns of the frame.\<close>

lemma preprocess_text_cols:
  assumes "preprocess_text L df = Inr out"
  shows "\<exists>review. get_col df ''review'' = Inr review
    \<and> get_col out ''tokens'' = Inr (map Toks (filter (\<lambda>t. t \<noteq> []) (map (clean_text L) review)))
    \<and> (\<forall>c. c \<noteq> ''tokens'' \<longrightarrow> get_col out c =
          (case get_col df c of
             Inl e \<Rightarrow> Inl e
           | Inr vs \<Rightarrow> Inr (select (map (\<lambda>t. clean_text L t \<noteq> []) review) vs)))"
proof -
  from assms obtain review where r: "get_col df ''review'' = Inr review"
    and out: "out = select_rows (map (\<lambda>t. length t > 0) (map (clean_text L) review))
        (set_col df ''tokens'' (map Toks (map (clean_text L) review)))"
    by (auto simp: preprocess_text_def Let_def split: sum.splits)
  have "get_col out ''tokens'' =
      Inr (select (map (\<lambda>t. t \<noteq> []) (map (clean_text L) review))
             (map Toks (map (clean_text L) review)))"
    by (simp add: out get_col_select_rows get_col_set_col)
  then have "get_col out ''tokens'' =
      Inr (map Toks (filter (\<lambda>t. t \<noteq> []) (map (clean_text L) review)))"
    by (simp only: select_map_filter)
  moreover have "get_col out c =
          (case get_col df c of
             Inl e \<Rightarrow> Inl e
           | Inr vs \<Rightarrow> Inr (select (map (\<lambda>t. clean_text L t \<noteq> []) review) vs))"
    if "c \<noteq> ''tokens''" for c
    using that by (simp add: out get_col_select_rows get_col_set_col comp_def)
  ultimately show ?thesis using r by blast
qed

lemma create_bigrams_trigrams_cols:
  assumes "create_bigrams_trigrams L df = Inr out"
  shows "\<exists>col sentences phrases. get_col df ''tokens'' = Inr col \<and> token_lists col = Inr sentences
    \<and> length phrases = length sentences
    \<and> get_col out ''tokens_with_phrases'' = Inr (map Toks phrases)
    \<and> (\<forall>c. c \<noteq> ''tokens_with_phrases'' \<longrightarrow> get_col out c = get_col df c)"
proof -
  from assms obtain col sentences where c: "get_col df ''tokens'' = Inr col"
    and s: "token_lists col = Inr sentences"
    and out: "out = set_col df ''tokens_with_phrases''
       (map (\<lambda>x. Toks (Phrases L (map (Phrases L sentences) sentences) (Phrases L sentences x)))
          sentences)"
    by (auto simp: create_bigrams_trigrams_def Let_def split: sum.splits)
  define phrases where
    "phrases = map (\<lambda>x. Phrases L (map (Phrases L sentences) sentences) (Phrases L sentences x))
       sentences"
  have "get_col out ''tokens_with_phrases'' = Inr (map Toks phrases)"
    by (simp add: out get_col_set_col phrases_def comp_def)
  moreover have "length phrases = length sentences"
    by (simp add: phrases_def)
  moreover have "\<forall>c. c \<noteq> ''tokens_with_phrases'' \<longrightarrow> get_col out c = get_col df c"
    by (simp add: out get_col_set_col)
  ultimately show ?thesis using c s by blast
qed

lemma extract_tfidf_keywords_cols:
  assumes "extract_tfidf_keywords L df = Inr out"
  shows "\<forall>c. c \<noteq> ''processed_text'' \<longrightarrow> get_col out c = get_col df c"
  using assms
  by (auto simp: extract_tfidf_keywords_def Let_def get_col_set_col
      split: sum.splits option.splits)

lemma perform_nmf_topic_modeling_cols:
  assumes "perform_nmf_topic_modeling L df = Inr out"
  shows "\<forall>c. c \<noteq> ''processed_text'' \<longrightarrow> get_col out c = get_col df c"
  using assms
  by (auto simp: perform_nmf_topic_modeling_def Let_def get_col_set_col
      split: sum.splits option.splits)

lemma perform_lda_topic_modeling_cols:
  assumes "perform_lda_topic_modeling L df n = Inr out"
  shows "\<exists>col documents get_document_topics.
      get_col df ''tokens_with_phrases'' = Inr col \<and> token_lists col = Inr documents
    \<and> LdaModel L (map (doc2bow L documents) documents) documents n = Some get_document_topics
    \<and> get_col out ''lda_topic'' =
        Inr (map (\<lambda>doc. Num (real_of_int
               (dominant_topic (get_document_topics (doc2bow L documents doc))))) documents)
    \<and> (\<forall>c. c \<noteq> ''lda_topic'' \<longrightarrow> get_col out c = get_col df c)"
proof -
  from assms obtain col documents get_document_topics where
    c: "get_col df ''tokens_with_phrases'' = Inr col" and
    d: "token_lists col = Inr documents" and
    m: "LdaModel L (map (doc2bow L documents) documents) documents n = Some get_document_topics" and
    out: "out = set_col df ''lda_topic''
       (map (\<lambda>k. Num (real_of_int k))
          (map (\<lambda>doc_bow. dominant_topic (get_document_topics doc_bow))
             (map (doc2bow L documents) documents)))"
    by (auto simp: perform_lda_topic_modeling_def Let_def split: sum.splits option.splits)
  have "get_col out ''lda_topic'' =
        Inr (map (\<lambda>doc. Num (real_of_int
               (dominant_topic (get_document_topics (doc2bow L documents doc))))) documents)"
    by (simp add: out get_col_set_col comp_def)
  moreover have "\<forall>c. c \<noteq> ''lda_topic'' \<longrightarrow> get_col out c = get_col df c"
    by (simp add: out get_col_set_col)
  ultimately show ?thesis using c d m by blast
qed

lemma save_lda_assignments_cols:
  assumes "save_lda_assignments df = Inr out"
  shows "\<exists>review bank rating lda_topic.
      get_col df ''review'' = Inr review \<and> get_col df ''bank'' = Inr bank
    \<and> get_col df ''rating'' = Inr rating \<and> get_col df ''lda_topic'' = Inr lda_topic
    \<and> out = [(''review'', review), (''bank'', bank), (''rating'', rating),
             (''lda_topic'', lda_topic)]"
  using assms by (auto simp: save_lda_assignments_def split: sum.splits)

text \<open>The frame of topic assignments, in terms of the loaded frame.\<close>

lemma topic_modeling_main_result:
  assumes "topic_modeling_main L df = Inr out"
  shows "\<exists>review bank rating lda_topic.
      get_col df ''review'' = Inr review \<and> get_col df ''bank'' = Inr bank
    \<and> get_col df ''rating'' = Inr rating
    \<and> length lda_topic = length (filter (\<lambda>t. clean_text L t \<noteq> []) review)
    \<and> out = [(''review'', select (map (\<lambda>t. clean_text L t \<noteq> []) review) review),
             (''bank'', select (map (\<lambda>t. clean_text L t \<noteq> []) review) bank),
             (''rating'', select (map (\<lambda>t. clean_text L t \<noteq> []) review) rating),
             (''lda_topic'', lda_topic)]"
proof -
  from assms obtain df1 df2 df3 df4 df5 where
    s1: "preprocess_text L df = Inr df1" and
    s2: "create_bigrams_trigrams L df1 = Inr df2" and
    s3: "extract_tfidf_keywords L df2 = Inr df3" and
    s4: "perform_lda_topic_modeling L df3 5 = Inr df4" and
    s5: "perform_nmf_topic_modeling L df4 = Inr df5" and
    s6: "save_lda_assignments df5 = Inr out"
    by (auto simp: topic_modeling_main_def split: sum.splits)
  define keep where "keep review = map (\<lambda>t. clean_text L t \<noteq> []) review" for review
  from preprocess_text_cols [OF s1] obtain review where
    r: "get_col df ''review'' = Inr review" and
    t1: "get_col df1 ''tokens'' = Inr (map Toks (filter (\<lambda>t. t \<noteq> []) (map (clean_text L) review)))" and
    o1: "\<And>c. c \<noteq> ''tokens'' \<Longrightarrow> get_col df1 c =
          (case get_col df c of Inl e \<Rightarrow> Inl e | Inr vs \<Rightarrow> Inr (select (keep review) vs))"
    unfolding keep_def by blast
  from create_bigrams_trigrams_cols [OF s2] t1 obtain phrases where
    l2: "length phrases = length (filter (\<lambda>t. t \<noteq> []) (map (clean_text L) review))" and
    t2: "get_col df2 ''tokens_with_phrases'' = Inr (map Toks phrases)" and
    o2: "\<And>c. c \<noteq> ''tokens_with_phrases'' \<Longrightarrow> get_col df2 c = get_col df1 c"
    by (auto simp: token_lists_Toks)
  from extract_tfidf_keywords_cols [OF s3] have
    o3: "\<And>c. c \<noteq> ''processed_text'' \<Longrightarrow> get_col df3 c = get_col df2 c"
    by blast
  have t3: "get_col df3 ''tokens_with_phrases'' = Inr (map Toks phrases)"
    using o3 [of "''tokens_with_phrases''"] t2 by simp
  from perform_lda_topic_modeling_cols [OF s4] t3 obtain get_document_topics where
    t4': "get_col df4 ''lda_topic'' =
        Inr (map (\<lambda>doc. Num (real_of_int
               (dominant_topic (get_document_topics (doc2bow L phrases doc))))) phrases)" and
    o4': "\<forall>c. c \<noteq> ''lda_topic'' \<longrightarrow> get_col df4 c = get_col df3 c"
    by (auto simp: token_lists_Toks)
  define lda_topic where "lda_topic = map (\<lambda>doc. Num (real_of_int
               (dominant_topic (get_document_topics (doc2bow L phrases doc))))) phrases"
  have l4: "length lda_topic = length phrases"
    by (simp add: lda_topic_def)
  have t4: "get_col df4 ''lda_topic'' = Inr lda_topic"
    using t4' by (simp add: lda_topic_def)
  have o4: "\<And>c. c \<noteq> ''lda_topic'' \<Longrightarrow> get_col df4 c = get_col df3 c"
    using o4' by blast
  from perform_nmf_topic_modeling_cols [OF s5] have
    o5: "\<And>c. c \<noteq> ''processed_text'' \<Longrightarrow> get_col df5 c = get_col df4 c"
    by blast
  have through: "get_col df5 c =
      (case get_col df c of Inl e \<Rightarrow> Inl e | Inr vs \<Rightarrow> Inr (select (keep review) vs))"
    if "c = ''review'' \<or> c = ''bank'' \<or> c = ''rating''" for c
    using that o5 [of c] o4 [of c] o3 [of c] o2 [of c] o1 [of c] by auto
  have t5: "get_col df5 ''lda_topic'' = Inr lda_topic"
    using o5 [of "''lda_topic''"] t4 by simp
  from save_lda_assignments_cols [OF s6] obtain v1 v2 v3 v4 where
    g: "get_col df5 ''review'' = Inr v1" "get_col df5 ''bank'' = Inr v2"
       "get_col df5 ''rating'' = Inr v3" "get_col df5 ''lda_topic'' = Inr v4" and
    out: "out = [(''review'', v1), (''bank'', v2), (''rating'', v3), (''lda_topic'', v4)]"
    by blast
  from g(1) through [of "''review''"] r have v1: "v1 = select (keep review) review"
    by simp
  from g(2) through [of "''bank''"] obtain bank where
    b: "get_col df ''bank'' = Inr bank" and v2: "v2 = select (keep review) bank"
    by (auto split: sum.splits)
  from g(3) through [of "''rating''"] obtain rating where
    rt: "get_col df ''rating'' = Inr rating" and v3: "v3 = select (keep review) rating"
    by (auto split: sum.splits)
  from g(4) t5 have v4: "v4 = lda_topic"
    by simp
  have "length (filter (\<lambda>t. t \<noteq> []) (map (clean_text L) review)) =
      length (filter (\<lambda>t. clean_text L t \<noteq> []) review)"
    by (simp add: filter_map comp_def)
  with l4 l2 have "length lda_topic = length (filter (\<lambda>t. clean_text L t \<noteq> []) review)"
    by simp
  with r b rt out v1 v2 v3 v4 show ?thesis
    unfolding keep_def by blast
qed

lemma py_split_from_chars:
  "t \<in> set (py_split_from w s) \<Longrightarrow> c \<in> set t \<Longrightarrow> c \<in> set w \<or> (c \<in> set s \<and> \<not> py_isspace c)"
  by (induction w s rule: py_split_from.induct) (auto split: if_splits)

lemma sample_lowercase_tokenizer: "lowercase_tokenizer sample_nlp_lib"
  unfolding lowercase_tokenizer_def
proof (intro allI impI ballI)
  fix s t c
  assume s: "\<forall>c \<in> set s. is_lower_az c \<or> py_isspace c"
    and t: "t \<in> set (word_tokenize sample_nlp_lib s)" and c: "c \<in> set t"
  from t have "t \<in> set (py_split_from [] s)"
    by (simp add: sample_nlp_lib_def py_split_def)
  from py_split_from_chars [OF this c] have "c \<in> set s \<and> \<not> py_isspace c"
    by simp
  with s show "is_lower_az c" by blast
qed

lemma sample_topic_ids_in_range: "topic_ids_in_range sample_nlp_lib 5"
  by (auto simp: topic_ids_in_range_def sample_nlp_lib_def split: if_splits)

lemma sample_clean_text:
  "clean_text sample_nlp_lib (Str ''The transfers FAIL, see http://t.co/x'') =
     [''transfer'', ''fail'', ''see'']"
  by code_simp

lemma sample_preprocess_text:
  "preprocess_text sample_nlp_lib sample_sentiment_df =
     Inr [(''review'', [Str ''The transfers FAIL, see http://t.co/x'', Str ''Crashes and freezes'']),
          (''rating'', [Num 1, Num 2]),
          (''bank'', [Str ''Dashen Bank'', Str ''Bank of Abyssinia'']),
          (''vader_compound'', [Num (- 0.5), Num 0]),
          (''tokens'', [Toks [''transfer'', ''fail'', ''see''], Toks [''crash'', ''freezes'']])]"
  by code_simp

lemma sample_topic_modeling_main:
  "topic_modeling_main sample_nlp_lib sample_sentiment_df =
     Inr [(''review'', [Str ''The transfers FAIL, see http://t.co/x'', Str ''Crashes and freezes'']),
          (''bank'', [Str ''Dashen Bank'', Str ''Bank of Abyssinia'']),
          (''rating'', [Num 1, Num 2]),
          (''lda_topic'', [Num 1, Num 3])]"
  by code_simp

lemma sample_perform_lda:
  "perform_lda_topic_modeling sample_nlp_lib sample_phrases_df 5 =
     Inr (sample_phrases_df @ [(''lda_topic'', [Num 1, Num 3, Num (- 1)])])"
  by code_simp

subsection \<open>Scraping\<close>

text \<open>The four ways one turn of the loop goes.\<close>

lemma scrape_loop_done:
  "\<not> int (length all_reviews) < count \<Longrightarrow>
     scrape_loop reviews count all_reviews token calls = (all_reviews, calls)"
  by (simp add: scrape_loop.simps [of reviews count all_reviews token calls])

lemma scrape_loop_raises:
  "int (length all_reviews) < count \<Longrightarrow>
   reviews (length calls) token (min 200 (count - int (length all_reviews))) = None \<Longrightarrow>
     scrape_loop reviews count all_reviews token calls =
       (all_reviews, calls @ [(min 200 (count - int (length all_reviews)), None)])"
  by (simp add: scrape_loop.simps [of reviews count all_reviews token calls])

lemma scrape_loop_stops:
  "int (length all_reviews) < count \<Longrightarrow>
   reviews (length calls) token (min 200 (count - int (length all_reviews))) =
     Some (result, token') \<Longrightarrow>
   result = [] \<or> token' = None \<Longrightarrow>
     scrape_loop reviews count all_reviews token calls =
       (all_reviews @ result,
        calls @ [(min 200 (count - int (length all_reviews)), Some (result, token'))])"
  by (auto simp: scrape_loop.simps [of reviews count all_reviews token calls] Let_def)

lemma scrape_loop_continues:
  "int (length all_reviews) < count \<Longrightarrow>
   reviews (length calls) token (min 200 (count - int (length all_reviews))) =
     Some (result, token') \<Longrightarrow>
   result \<noteq> [] \<Longrightarrow> token' \<noteq> None \<Longrightarrow>
     scrape_loop reviews count all_reviews token calls =
       scrape_loop reviews count (all_reviews @ result) token'
         (calls @ [(min 200 (count - int (length all_reviews)), Some (result, token'))])"
  by (auto simp: scrape_loop.simps [of reviews count all_reviews token calls] Let_def)

text \<open>Induction over the turns of the loop: a property of the state holds if it holds
  whenever it holds after every turn that continues.\<close>

lemma scrape_loop_turns:
  fixes reviews :: "('r, 't) reviews_api"
  assumes "\<And>(all_reviews :: 'r list) token calls.
      (\<And>(result :: 'r list) token'. int (length all_reviews) < count \<Longrightarrow>
          reviews (length calls) token (min 200 (count - int (length all_reviews))) =
            Some (result, token') \<Longrightarrow>
          result \<noteq> [] \<Longrightarrow> token' \<noteq> None \<Longrightarrow>
          P (all_reviews @ result) token'
            (calls @ [(min 200 (count - int (length all_reviews)), Some (result, token'))]))
      \<Longrightarrow> P all_reviews token calls"
  shows "P all_reviews token calls"
proof (induction "nat (count - int (length all_reviews))" arbitrary: all_reviews token calls
    rule: less_induct)
  case less
  have step: "P (all_reviews @ result) token' calls'"
    if "int (length all_reviews) < count" "result \<noteq> []"
    for result :: "'r list" and token' calls'
  proof (rule less)
    from that show "nat (count - int (length (all_reviews @ result)))
        < nat (count - int (length all_reviews))"
      by (cases result) auto
  qed
  show ?case
    by (rule assms, rule step, assumption+)
qed

lemma scrape_loop_cases:
  obtains
    (finished) "\<not> int (length all_reviews) < count"
  | (raises) "int (length all_reviews) < count"
      "reviews (length calls) token (min 200 (count - int (length all_reviews))) = None"
  | (stops) result token' where "int (length all_reviews) < count"
      "reviews (length calls) token (min 200 (count - int (length all_reviews))) =
         Some (result, token')"
      "result = [] \<or> token' = None"
  | (continues) result token' where "int (length all_reviews) < count"
      "reviews (length calls) token (min 200 (count - int (length all_reviews))) =
         Some (result, token')"
      "result \<noteq> []" "token' \<noteq> None"
proof (cases "int (length all_reviews) < count")
  case False
  then show ?thesis by (rule finished)
next
  case True
  show ?thesis
  proof (cases "reviews (length calls) token (min 200 (count - int (length all_reviews)))")
    case None
    with True show ?thesis by (rule raises)
  next
    case (Some rt)
    then obtain result token' where
      rt: "reviews (length calls) token (min 200 (count - int (length all_reviews))) =
         Some (result, token')"
      by (cases rt) simp
    show ?thesis
    proof (cases "result = [] \<or> token' = None")
      case True
      with \<open>int (length all_reviews) < count\<close> rt show ?thesis by (rule stops)
    next
      case False
      with \<open>int (length all_reviews) < count\<close> rt show ?thesis by (intro continues) auto
    qed
  qed
qed

lemma scrape_loop_requests:
  "\<forall>e \<in> set (snd (scrape_loop reviews count all_reviews token calls)).
     e \<in> set calls \<or> (1 \<le> fst e \<and> fst e \<le> 200)"
proof (induction all_reviews token calls rule: scrape_loop_turns [where count = count, where reviews = reviews])
  case (1 all_reviews token calls)
  show ?case
  proof (cases rule: scrape_loop_cases [where all_reviews = all_reviews and count = count and reviews = reviews and calls = calls and token = token])
    case finished
    then show ?thesis by (simp add: scrape_loop_done)
  next
    case raises
    then show ?thesis by (auto simp: scrape_loop_raises)
  next
    case (stops result token')
    then show ?thesis by (auto simp: scrape_loop_stops)
  next
    case (continues result token')
    from "1" [OF continues] continues(1) show ?thesis
      by (auto simp: scrape_loop_continues [where reviews = reviews, OF continues])
  qed
qed

lemma scrape_loop_calls:
  "length (snd (scrape_loop reviews count all_reviews token calls))
     \<le> length calls + nat (count - int (length all_reviews))"
proof (induction all_reviews token calls rule: scrape_loop_turns [where count = count, where reviews = reviews])
  case (1 all_reviews token calls)
  show ?case
  proof (cases rule: scrape_loop_cases [where all_reviews = all_reviews and count = count and reviews = reviews and calls = calls and token = token])
    case finished
    then show ?thesis by (simp add: scrape_loop_done)
  next
    case raises
    then show ?thesis by (auto simp: scrape_loop_raises)
  next
    case (stops result token')
    then show ?thesis by (auto simp: scrape_loop_stops)
  next
    case (continues result token')
    from continues(1,3) have "nat (count - int (length (all_reviews @ result))) + 1
        \<le> nat (count - int (length all_reviews))"
      by (cases result) auto
    with "1" [OF continues] show ?thesis
      by (simp add: scrape_loop_continues [where reviews = reviews, OF continues])
  qed
qed

lemma scrape_loop_exit:
  "count \<le> int (length (fst (scrape_loop reviews count all_reviews token calls)))
   \<or> last_call_ends (snd (scrape_loop reviews count all_reviews token calls))"
proof (induction all_reviews token calls rule: scrape_loop_turns [where count = count, where reviews = reviews])
  case (1 all_reviews token calls)
  show ?case
  proof (cases rule: scrape_loop_cases [where all_reviews = all_reviews and count = count and reviews = reviews and calls = calls and token = token])
    case finished
    then show ?thesis by (simp add: scrape_loop_done)
  next
    case raises
    then show ?thesis by (simp add: scrape_loop_raises last_call_ends_def)
  next
    case (stops result token')
    then show ?thesis by (auto simp: scrape_loop_stops last_call_ends_def)
  next
    case (continues result token')
    from "1" [OF continues] show ?thesis
      by (simp add: scrape_loop_continues [where reviews = reviews, OF continues])
  qed
qed

lemma scrape_loop_total:
  assumes "honours_count reviews" "int (length all_reviews) \<le> max 0 count"
  shows "int (length (fst (scrape_loop reviews count all_reviews token calls))) \<le> max 0 count"
  using assms(2)
proof (induction all_reviews token calls rule: scrape_loop_turns [where count = count, where reviews = reviews])
  case (1 all_reviews token calls)
  show ?case
  proof (cases rule: scrape_loop_cases [where all_reviews = all_reviews and count = count and reviews = reviews and calls = calls and token = token])
    case finished
    with "1.prems" show ?thesis by (simp add: scrape_loop_done)
  next
    case raises
    with "1.prems" show ?thesis by (simp add: scrape_loop_raises)
  next
    case (stops result token')
    from stops(1) have "1 \<le> min 200 (count - int (length all_reviews))"
      by simp
    with assms(1) stops(2) have "int (length result) \<le> min 200 (count - int (length all_reviews))"
      unfolding honours_count_def by (metis min.cobounded1)
    with stops show ?thesis by (simp add: scrape_loop_stops)
  next
    case (continues result token')
    from continues(1) have "1 \<le> min 200 (count - int (length all_reviews))"
      by simp
    with assms(1) continues(2) have "int (length result) \<le> min 200 (count - int (length all_reviews))"
      unfolding honours_count_def by (metis min.cobounded1)
    then have "int (length (all_reviews @ result)) \<le> max 0 count"
      by simp
    from "1.IH" [OF continues this] show ?thesis
      by (simp add: scrape_loop_continues [where reviews = reviews, OF continues])
  qed
qed

lemma those_length: "those xs = Some ys \<Longrightarrow> length ys = length xs"
  by (induction xs arbitrary: ys) (auto split: option.splits)

lemma scrape_app_reviews_length:
  "length (scrape_app_reviews reviews to_row count)
     \<le> length (fst (scrape_loop reviews count [] None []))"
  by (auto simp: scrape_app_reviews_def Let_def dest: those_length split: option.splits)

lemma sample_store_honours_count: "honours_count sample_store"
  by (auto simp: honours_count_def sample_store_def Let_def split: option.splits)

lemma sample_store_400:
  "scrape_loop sample_store 400 [] None [] =
     ([0..<200] @ [200..<400],
      [(200, Some ([0..<200], Some 200)), (200, Some ([200..<400], Some 400))])"
  by (simp add: scrape_loop.simps sample_store_def Let_def del: upt_rec_numeral)

lemma sample_store_500:
  "scrape_loop sample_store 500 [] None [] =
     ([0..<200] @ [200..<400] @ [400..<450],
      [(200, Some ([0..<200], Some 200)), (200, Some ([200..<400], Some 400)),
       (100, Some ([400..<450], None))])"
  by (simp add: scrape_loop.simps sample_store_def Let_def del: upt_rec_numeral)

subsection \<open>Cleaning\<close>

lemma columns_select_rows: "columns (select_rows keep df) = columns df"
  by (induction df) (auto simp: columns_def select_rows_def)

lemma columns_set_col: "get_col df c = Inr vs \<Longrightarrow> columns (set_col df c ws) = columns df"
proof -
  assume "get_col df c = Inr vs"
  then have "c \<in> fst ` set df"
    by (auto simp: get_col_def split: option.splits dest!: map_of_SomeD intro: rev_image_eqI)
  then show ?thesis
    unfolding columns_def set_col_def by (induction df) auto
qed

lemma duplicated_distinct:
  "True \<notin> set (duplicated seen ks) \<longleftrightarrow> distinct ks \<and> set ks \<inter> set seen = {}"
  by (induction ks arbitrary: seen) auto

lemma no_duplicates_distinct:
  "length (filter (\<lambda>d. d) (duplicated [] ks)) = 0 \<longleftrightarrow> distinct ks"
proof -
  have "length (filter (\<lambda>d. d) (duplicated [] ks)) = 0 \<longleftrightarrow> True \<notin> set (duplicated [] ks)"
    by (auto simp: filter_empty_conv)
  then show ?thesis by (simp add: duplicated_distinct)
qed

lemma invalid_ratings_zero:
  "invalid_ratings vs = Inr n \<Longrightarrow>
     n = 0 \<longleftrightarrow> (\<forall>v \<in> set vs. v = NaN \<or> (\<exists>x. v = Num x \<and> 1 \<le> x \<and> x \<le> 5))"
  by (induction vs arbitrary: n rule: invalid_ratings.induct)
     (auto split: sum.splits if_splits)

lemma get_col_mem: "get_col df c = Inr vs \<Longrightarrow> (c, vs) \<in> set df"
  by (auto simp: get_col_def split: option.splits dest: map_of_SomeD)

lemma row_keys_pair: "row_keys [xs, ys] = map (\<lambda>(x, y). [x, y]) (zip xs ys)"
  by (simp add: zip_map2 case_prod_unfold)

lemma distinct_row_keys_pair: "distinct (row_keys [xs, ys]) \<longleftrightarrow> distinct (zip xs ys)"
proof -
  have "inj_on (\<lambda>(x, y). [x, y]) (set (zip xs ys))"
    by (auto simp: inj_on_def)
  then show ?thesis
    unfolding row_keys_pair by (simp add: distinct_map)
qed

text \<open>On a frame of the final schema whose reviews are strings, \<^verbatim>\<open>validate_data\<close>
  decides the invariant the specification asks for.\<close>

lemma validate_data_invariant:
  assumes "validate_data was_object df = Inr ok"
    and df: "df = [(''review'', review), (''rating'', rating), (''date'', date),
                   (''bank'', bank), (''source'', source)]"
    and strings: "\<forall>v \<in> set review. \<exists>s. v = Str s"
  shows "ok = cleaned_invariant df"
proof -
  have g: "get_col df ''review'' = Inr review" "get_col df ''bank'' = Inr bank"
       "get_col df ''rating'' = Inr rating"
    by (simp_all add: df get_col_def)
  with assms(1) obtain invalid where
    i: "invalid_ratings rating = Inr invalid" and
    ok: "ok = (length (filter (\<lambda>d. d) (duplicated []
           (row_keys (map snd (filter (\<lambda>cv. fst cv = ''review'' \<or> fst cv = ''bank'') df))))) = 0
         \<and> invalid = 0
         \<and> sum_list (map (\<lambda>(c, vs). length (filter (\<lambda>v. v = NaN) vs)) df) = 0
         \<and> length (filter (\<lambda>v. v = Str [] \<or> v = Toks []) review) = 0)"
    by (auto simp: validate_data_def Let_def split: sum.splits if_splits)
  have missing: "sum_list (map (\<lambda>(c, vs). length (filter (\<lambda>v. v = NaN) vs)) df) = 0
      \<longleftrightarrow> list_all (\<lambda>(c, vs). list_all (\<lambda>v. v \<noteq> NaN) vs) df"
    by (induction df) (auto simp: filter_empty_conv list_all_iff)
  have empty: "length (filter (\<lambda>v. v = Str [] \<or> v = Toks []) review) = 0
      \<longleftrightarrow> list_all (\<lambda>v. v \<noteq> Str []) review"
    using strings by (auto simp: filter_empty_conv list_all_iff)
  have rating: "invalid = 0 \<and> list_all (\<lambda>(c, vs). list_all (\<lambda>v. v \<noteq> NaN) vs) df
      \<longleftrightarrow> list_all (\<lambda>v. case v of Num x \<Rightarrow> 1 \<le> x \<and> x \<le> 5 | _ \<Rightarrow> False) rating
          \<and> list_all (\<lambda>(c, vs). list_all (\<lambda>v. v \<noteq> NaN) vs) df"
  proof (cases "list_all (\<lambda>(c, vs). list_all (\<lambda>v. v \<noteq> NaN) vs) df")
    case False
    then show ?thesis by simp
  next
    case True
    with get_col_mem [OF g(3)] have "\<forall>v \<in> set rating. v \<noteq> NaN"
      by (auto simp: list_all_iff)
    with invalid_ratings_zero [OF i] True show ?thesis
      by (auto simp: list_all_iff split: cell.splits)
  qed
  have "map snd (filter (\<lambda>cv. fst cv = ''review'' \<or> fst cv = ''bank'') df) = [review, bank]"
    by (simp add: df)
  then have dup: "length (filter (\<lambda>d. d) (duplicated []
        (row_keys (map snd (filter (\<lambda>cv. fst cv = ''review'' \<or> fst cv = ''bank'') df))))) = 0
      \<longleftrightarrow> distinct (zip review bank)"
    by (simp only: no_duplicates_distinct distinct_row_keys_pair)
  have "cleaned_invariant df \<longleftrightarrow>
      distinct (zip review bank)
      \<and> list_all (\<lambda>v. v \<noteq> Str []) review
      \<and> list_all (\<lambda>(c, vs). list_all (\<lambda>v. v \<noteq> NaN) vs) df
      \<and> list_all (\<lambda>v. case v of Num x \<Rightarrow> 1 \<le> x \<and> x \<le> 5 | _ \<Rightarrow> False) rating"
    by (simp add: cleaned_invariant_def g)
  moreover have "ok \<longleftrightarrow>
      distinct (zip review bank) \<and> invalid = 0
      \<and> list_all (\<lambda>(c, vs). list_all (\<lambda>v. v \<noteq> NaN) vs) df
      \<and> list_all (\<lambda>v. v \<noteq> Str []) review"
    unfolding ok by (simp only: dup missing empty)
  ultimately show ?thesis
    using rating by blast
qed

lemma column_mapping_lookup:
  assumes "\<forall>c' \<in> set (columns df). column_mapping c' = c \<longrightarrow> c' = c0"
    and "column_mapping c0 = c"
  shows "get_col (map (\<lambda>(c, vs). (column_mapping c, vs)) df) c =
     (case get_col df c0 of Inl e \<Rightarrow> Inl (KeyError c) | Inr vs \<Rightarrow> Inr vs)"
  using assms unfolding get_col_def columns_def
  by (induction df) (auto split: option.splits)

lemma filter_label_distinct:
  "distinct (map fst df) \<Longrightarrow>
     filter (\<lambda>cv. fst cv = c) df = (case map_of df c of None \<Rightarrow> [] | Some vs \<Rightarrow> [(c, vs)])"
proof (induction df)
  case Nil
  then show ?case by simp
next
  case (Cons cv df)
  show ?case
  proof (cases "fst cv = c")
    case True
    with Cons.prems have "c \<notin> fst ` set df"
      by auto
    then have "map_of df c = None"
      by (simp add: map_of_eq_None_iff)
    with Cons True show ?thesis
      by (cases cv) simp
  next
    case False
    with Cons show ?thesis
      by (cases cv) auto
  qed
qed

text \<open>On a frame without a repeated label the two selections of columns agree.\<close>

lemma select_labels_distinct:
  "distinct (columns df) \<Longrightarrow> select_labels df cs = select_cols df cs"
  by (induction cs)
     (simp_all add: columns_def filter_label_distinct get_col_def split: option.splits sum.splits)

lemma column_mapping_distinct:
  assumes "distinct (columns df)" "''review'' \<notin> set (columns df)" "''bank'' \<notin> set (columns df)"
  shows "distinct (columns (map (\<lambda>(c, vs). (column_mapping c, vs)) df))"
proof -
  have "columns (map (\<lambda>(c, vs). (column_mapping c, vs)) df) = map column_mapping (columns df)"
    by (simp add: columns_def case_prod_unfold comp_def)
  moreover have "inj_on column_mapping (set (columns df))"
    using assms(2,3) by (auto simp: inj_on_def column_mapping_def split: if_splits)
  ultimately show ?thesis
    using assms(1) by (simp add: distinct_map)
qed

lemma standardize_schema_cols:
  assumes "standardize_schema df = Inr out" and "distinct (columns df)"
    and "''review'' \<notin> set (columns df)" and "''bank'' \<notin> set (columns df)"
  shows "\<exists>review rating date bank source.
      out = [(''review'', review), (''rating'', rating), (''date'', date), (''bank'', bank),
             (''source'', source)]
      \<and> get_col df ''review_text'' = Inr review
      \<and> get_col df ''rating'' = Inr rating
      \<and> get_col df ''date'' = Inr date"
proof -
  define renamed where "renamed = map (\<lambda>(c, vs). (column_mapping c, vs)) df"
  have "distinct (columns renamed)"
    unfolding renamed_def using assms(2-4) by (rule column_mapping_distinct)
  then have "select_cols renamed [''review'', ''rating'', ''date'', ''bank'', ''source''] =
      select_labels renamed [''review'', ''rating'', ''date'', ''bank'', ''source'']"
    by (rule select_labels_distinct [symmetric])
  also have "\<dots> = Inr out"
    using assms(1) unfolding standardize_schema_def renamed_def .
  finally obtain v1 v2 v3 v4 v5 where
    g: "get_col renamed ''review'' = Inr v1" "get_col renamed ''rating'' = Inr v2"
       "get_col renamed ''date'' = Inr v3" and
    out: "out = [(''review'', v1), (''rating'', v2), (''date'', v3), (''bank'', v4),
                 (''source'', v5)]"
    by (auto split: sum.splits)
  have "get_col renamed ''review'' =
      (case get_col df ''review_text'' of Inl e \<Rightarrow> Inl (KeyError ''review'') | Inr vs \<Rightarrow> Inr vs)"
    unfolding renamed_def using assms(3)
    by (intro column_mapping_lookup) (auto simp: column_mapping_def split: if_splits)
  with g(1) have r: "get_col df ''review_text'' = Inr v1"
    by (auto split: sum.splits)
  have "get_col renamed ''rating'' =
      (case get_col df ''rating'' of Inl e \<Rightarrow> Inl (KeyError ''rating'') | Inr vs \<Rightarrow> Inr vs)"
    unfolding renamed_def
    by (intro column_mapping_lookup) (auto simp: column_mapping_def split: if_splits)
  with g(2) have s: "get_col df ''rating'' = Inr v2"
    by (auto split: sum.splits)
  have "get_col renamed ''date'' =
      (case get_col df ''date'' of Inl e \<Rightarrow> Inl (KeyError ''date'') | Inr vs \<Rightarrow> Inr vs)"
    unfolding renamed_def
    by (intro column_mapping_lookup) (auto simp: column_mapping_def split: if_splits)
  with g(3) have d: "get_col df ''date'' = Inr v3"
    by (auto split: sum.splits)
  show ?thesis
    using r s d out by blast
qed

text \<open>A step that only selects rows keeps every column, with cells it had before.\<close>

lemma dropna_rows:
  assumes "dropna df c = Inr out" and "get_col df c' = Inr vs"
  shows "\<exists>vs'. get_col out c' = Inr vs' \<and> set vs' \<subseteq> set vs"
  using assms
  by (auto simp: dropna_def get_col_select_rows split: sum.splits
      dest: subsetD [OF select_set])

lemma dropna_cols:
  assumes "dropna df c = Inr out"
  shows "columns out = columns df
    \<and> (\<exists>vs. get_col df c = Inr vs \<and> get_col out c = Inr (filter (\<lambda>v. v \<noteq> NaN) vs))"
  using assms
  by (auto simp: dropna_def columns_select_rows get_col_select_rows select_self
      split: sum.splits)

lemma remove_duplicates_columns:
  "remove_duplicates df = Inr out \<Longrightarrow> columns out = columns df"
  by (auto simp: remove_duplicates_def columns_select_rows split: sum.splits)

lemma handle_missing_values_columns:
  assumes "handle_missing_values df = Inr out"
  shows "columns out = columns df"
proof -
  from assms obtain df1 df2 where
    s: "dropna df ''review_text'' = Inr df1" "dropna df2 ''date'' = Inr out" and
    c: "columns df2 = columns df1"
    by (auto simp: handle_missing_values_def columns_set_col split: sum.splits if_splits)
  with dropna_cols [OF s(1)] dropna_cols [OF s(2)] show ?thesis by simp
qed

lemma numbers_Nil: "numbers vs = Inr [] \<Longrightarrow> \<forall>v \<in> set vs. v = NaN"
  by (induction vs rule: numbers.induct) (auto split: sum.splits)

lemma median_present: "xs \<noteq> [] \<Longrightarrow> median xs \<noteq> NaN"
proof -
  assume "xs \<noteq> []"
  then have "sort xs \<noteq> []"
    by (metis length_sort length_0_conv)
  then show ?thesis
    by (simp add: median_def Let_def)
qed

text \<open>After \<^verbatim>\<open>handle_missing_values\<close> no rating is missing, unless every rating is.\<close>

lemma handle_missing_values_rating:
  assumes "handle_missing_values df = Inr out"
  shows "\<exists>rating. get_col out ''rating'' = Inr rating
    \<and> ((\<forall>v \<in> set rating. v \<noteq> NaN) \<or> (\<forall>v \<in> set rating. v = NaN))"
proof -
  from assms obtain df1 rating1 df2 where
    s: "dropna df ''review_text'' = Inr df1" "get_col df1 ''rating'' = Inr rating1"
       "dropna df2 ''date'' = Inr out" and
    f: "(if NaN \<in> set rating1
         then (case numbers rating1 of
                 Inl e \<Rightarrow> Inl e
               | Inr xs \<Rightarrow> Inr (set_col df1 ''rating'' (fillna (median xs) rating1)))
         else Inr df1) = Inr df2"
    by (auto simp: handle_missing_values_def split: sum.splits)
  have "\<exists>rating2. get_col df2 ''rating'' = Inr rating2
      \<and> ((\<forall>v \<in> set rating2. v \<noteq> NaN) \<or> (\<forall>v \<in> set rating2. v = NaN))"
  proof (cases "NaN \<in> set rating1")
    case False
    with f s(2) show ?thesis by auto
  next
    case True
    with f obtain xs where
      n: "numbers rating1 = Inr xs" and
      df2: "df2 = set_col df1 ''rating'' (fillna (median xs) rating1)"
      by (auto split: sum.splits)
    have g: "get_col df2 ''rating'' = Inr (fillna (median xs) rating1)"
      by (simp add: df2 get_col_set_col)
    show ?thesis
    proof (cases "xs = []")
      case True
      with n numbers_Nil have "\<forall>v \<in> set rating1. v = NaN"
        by blast
      then have "\<forall>v \<in> set (fillna (median xs) rating1). v = NaN"
        using True by (auto simp: fillna_def median_def)
      with g show ?thesis by blast
    next
      case False
      then have "median xs \<noteq> NaN"
        by (rule median_present)
      then have "\<forall>v \<in> set (fillna (median xs) rating1). v \<noteq> NaN"
        by (auto simp: fillna_def)
      with g show ?thesis by blast
    qed
  qed
  then obtain rating2 where
    r: "get_col df2 ''rating'' = Inr rating2"
       "(\<forall>v \<in> set rating2. v \<noteq> NaN) \<or> (\<forall>v \<in> set rating2. v = NaN)"
    by blast
  from dropna_rows [OF s(3) r(1)] obtain rating where
    "get_col out ''rating'' = Inr rating" "set rating \<subseteq> set rating2"
    by blast
  with r(2) show ?thesis by blast
qed

lemma normalize_dates_rows:
  assumes "normalize_dates to_ymd df = Inr out" and "get_col df c = Inr vs" and "c \<noteq> ''date''"
  shows "\<exists>vs'. get_col out c = Inr vs' \<and> set vs' \<subseteq> set vs"
proof -
  from assms(1) obtain date where
    s: "dropna (set_col df ''date'' (map (parse_date to_ymd) date)) ''date'' = Inr out"
    by (auto simp: normalize_dates_def split: sum.splits)
  from assms(2,3) have "get_col (set_col df ''date'' (map (parse_date to_ymd) date)) c = Inr vs"
    by (simp add: get_col_set_col)
  from dropna_rows [OF s this] show ?thesis .
qed

lemma normalize_dates_cols:
  assumes "normalize_dates to_ymd df = Inr out"
  shows "columns out = columns df
    \<and> (\<exists>date. get_col out ''date'' = Inr date \<and> NaN \<notin> set date)"
proof -
  from assms obtain date where
    d: "get_col df ''date'' = Inr date" and
    s: "dropna (set_col df ''date'' (map (parse_date to_ymd) date)) ''date'' = Inr out"
    by (auto simp: normalize_dates_def split: sum.splits)
  from dropna_cols [OF s] columns_set_col [OF d] show ?thesis
    by auto
qed

lemma clean_reviews_text_cols:
  assumes "clean_reviews_text repr was_object df = Inr out"
  shows "columns out = columns df
    \<and> (\<exists>review. get_col out ''review_text'' = Inr review
          \<and> (\<forall>v \<in> set review. \<exists>s. v = Str s \<and> s \<noteq> []))
    \<and> (\<forall>c vs. c \<noteq> ''review_text'' \<longrightarrow> get_col df c = Inr vs \<longrightarrow>
          (\<exists>vs'. get_col out c = Inr vs' \<and> set vs' \<subseteq> set vs))"
proof -
  from assms obtain review_text where
    r: "get_col df ''review_text'' = Inr review_text" and
    out: "out = select_rows (map (\<lambda>s. length s > 0) (map (clean_review_text repr) review_text))
       (set_col df ''review_text'' (map Str (map (clean_review_text repr) review_text)))"
    by (auto simp: clean_reviews_text_def Let_def split: sum.splits if_splits)
  have "columns out = columns df"
    by (simp add: out columns_select_rows columns_set_col [OF r])
  moreover have "select (map (\<lambda>s. length s > 0) (map (clean_review_text repr) review_text))
        (map Str (map (clean_review_text repr) review_text)) =
      map Str (filter (\<lambda>s. length s > 0) (map (clean_review_text repr) review_text))"
    by (rule select_map_filter)
  then have "get_col out ''review_text'' =
      Inr (map Str (filter (\<lambda>s. length s > 0) (map (clean_review_text repr) review_text)))"
    by (simp add: out get_col_select_rows get_col_set_col filter_map)
  moreover have "\<exists>vs'. get_col out c = Inr vs' \<and> set vs' \<subseteq> set vs"
    if "c \<noteq> ''review_text''" "get_col df c = Inr vs" for c vs
    using that select_set by (simp add: out get_col_select_rows get_col_set_col)
  ultimately show ?thesis by auto
qed

subsection \<open>Loading into PostgreSQL\<close>

lemma except_psycopg2_error_rolled_back:
  "rollback_error P (pending conn) = None \<Longrightarrow>
     except_psycopg2_error P conn e =
       (Inl (Psycopg2Error e), conn\<lparr>pending := committed conn, rollbacks := Suc (rollbacks conn)\<rparr>)"
  by (simp add: except_psycopg2_error_def rollback_def)

lemma except_psycopg2_error_lost:
  "rollback_error P (pending conn) = Some e' \<Longrightarrow>
     except_psycopg2_error P conn e = (Inl (Psycopg2Error e'), conn)"
  by (simp add: except_psycopg2_error_def rollback_def)

lemma except_psycopg2_error_raises:
  "fst (except_psycopg2_error P conn e) \<noteq> Inr x"
  "\<exists>e'. fst (except_psycopg2_error P conn e) = Inl (Psycopg2Error e')"
  "committed (snd (except_psycopg2_error P conn e)) = committed conn"
  "commits (snd (except_psycopg2_error P conn e)) = commits conn"
  by (simp_all add: except_psycopg2_error_def rollback_def split: option.splits)

lemma commit_fields:
  assumes "commit P conn = Inr conn'"
  shows "committed conn' = pending conn" "pending conn' = pending conn"
    "commits conn' = Suc (commits conn)" "rollbacks conn' = rollbacks conn"
  using assms by (auto simp: commit_def split: option.splits)

text \<open>The tuple the loop of \<^verbatim>\<open>insert_reviews\<close> prepares for a row.\<close>

lemma prepare_review_data_rows:
  "prepare_review_data P bank_mapping df = Inr review_data \<Longrightarrow>
     list_all2
       (\<lambda>row t. \<exists>bank_id rating.
           map_of bank_mapping (row_bank row) = Some bank_id
         \<and> py_int P (row_rating row) = Inr rating
         \<and> t = (bank_id, row_review row, rating,
                (case to_date P (row_date row) of None \<Rightarrow> today P | Some d \<Rightarrow> d),
                NaN, NaN, row_source row))
       (filter (\<lambda>row. map_of bank_mapping (row_bank row) \<noteq> None) df) review_data"
proof (induction df arbitrary: review_data)
  case Nil
  then show ?case by simp
next
  case (Cons row rows)
  show ?case
  proof (cases "map_of bank_mapping (row_bank row)")
    case None
    with Cons show ?thesis by simp
  next
    case (Some bank_id)
    with Cons.prems obtain rating rest where
      r: "py_int P (row_rating row) = Inr rating" and
      p: "prepare_review_data P bank_mapping rows = Inr rest" and
      d: "review_data = (bank_id, row_review row, rating,
                (case to_date P (row_date row) of None \<Rightarrow> today P | Some d \<Rightarrow> d),
                NaN, NaN, row_source row) # rest"
      by (auto simp: Let_def split: sum.splits)
    from Cons.IH [OF p] Some r d show ?thesis by simp
  qed
qed

lemma prepare_review_data_error:
  "prepare_review_data P bank_mapping df = Inl e \<Longrightarrow>
     \<exists>row \<in> set df. map_of bank_mapping (row_bank row) \<noteq> None
        \<and> py_int P (row_rating row) = Inl e"
  by (induction df) (auto simp: Let_def split: option.splits sum.splits)

subsection \<open>The master pipeline\<close>

text \<open>
  C3. In every run of the master pipeline the modules attempted are an initial segment of
  sentiment analysis, topic modeling, visualizations, report generation, in that order
  (all four when every module returns); topic modeling is attempted only if sentiment
  analysis returned without raising; when sentiment analysis or topic modeling was
  attempted and raised an exception, the process exits with status 1; and when the
  visualizations module was attempted and raised an exception, report generation is still
  attempted.
\<close>

theorem run_task2_main_order:
  "prefix (snd (run_task2_main prerequisites mains)) task2_modules
   \<and> (prerequisites \<and> (\<forall>m \<in> set task2_modules. mains m = Returns)
        \<longrightarrow> run_task2_main prerequisites mains = (Completed, task2_modules))
   \<and> (''topic_modeling'' \<in> set (snd (run_task2_main prerequisites mains))
        \<longrightarrow> mains ''sentiment_analysis'' = Returns)
   \<and> ((''sentiment_analysis'' \<in> set (snd (run_task2_main prerequisites mains))
          \<and> mains ''sentiment_analysis'' = Raises_Exception)
        \<or> (''topic_modeling'' \<in> set (snd (run_task2_main prerequisites mains))
          \<and> mains ''topic_modeling'' = Raises_Exception)
        \<longrightarrow> fst (run_task2_main prerequisites mains) = Exit 1)
   \<and> (''visualizations'' \<in> set (snd (run_task2_main prerequisites mains))
        \<and> mains ''visualizations'' = Raises_Exception
        \<longrightarrow> ''generate_report'' \<in> set (snd (run_task2_main prerequisites mains)))"
  by (cases "mains ''sentiment_analysis''"; cases "mains ''topic_modeling''";
      cases "mains ''visualizations''"; cases "mains ''generate_report''")
     (simp_all add: run_task2_main_def run_module_def task2_modules_def)

theorem run_task2_main_order_witness:
  "run_task2_main True (\<lambda>m. if m = ''visualizations'' then Raises_Exception else Returns)
     = (Completed, task2_modules)
   \<and> ''generate_report'' \<in> set task2_modules
   \<and> run_task2_main True (\<lambda>m. if m = ''topic_modeling'' then Raises_Exception else Returns)
       = (Exit 1, [''sentiment_analysis'', ''topic_modeling''])
   \<and> run_task2_main True (\<lambda>m. if m = ''sentiment_analysis'' then Raises_Exception else Returns)
       = (Exit 1, [''sentiment_analysis''])
   \<and> run_task2_main True (\<lambda>m. Returns) = (Completed, task2_modules)"
proof -
  from run_task2_main_order [of True "\<lambda>m. if m = ''visualizations'' then Raises_Exception else Returns"]
  have "''generate_report'' \<in> set (snd (run_task2_main True
      (\<lambda>m. if m = ''visualizations'' then Raises_Exception else Returns)))"
    by (simp add: run_task2_main_def run_module_def)
  moreover have "run_task2_main True (\<lambda>m. if m = ''visualizations'' then Raises_Exception else Returns)
     = (Completed, task2_modules)"
    by (simp add: run_task2_main_def run_module_def task2_modules_def)
  moreover from run_task2_main_order [of True "\<lambda>m. if m = ''topic_modeling'' then Raises_Exception else Returns"]
  have "fst (run_task2_main True (\<lambda>m. if m = ''topic_modeling'' then Raises_Exception else Returns))
      = Exit 1"
    by (simp add: run_task2_main_def run_module_def)
  moreover have "snd (run_task2_main True (\<lambda>m. if m = ''topic_modeling'' then Raises_Exception else Returns))
      = [''sentiment_analysis'', ''topic_modeling'']"
    by (simp add: run_task2_main_def run_module_def)
  moreover from run_task2_main_order [of True "\<lambda>m. if m = ''sentiment_analysis'' then Raises_Exception else Returns"]
  have "fst (run_task2_main True (\<lambda>m. if m = ''sentiment_analysis'' then Raises_Exception else Returns))
      = Exit 1"
    by (simp add: run_task2_main_def run_module_def)
  moreover have "snd (run_task2_main True (\<lambda>m. if m = ''sentiment_analysis'' then Raises_Exception else Returns))
      = [''sentiment_analysis'']"
    by (simp add: run_task2_main_def run_module_def)
  moreover from run_task2_main_order [of True "\<lambda>m. Returns"]
  have "run_task2_main True (\<lambda>m. Returns) = (Completed, task2_modules)"
    by simp
  ultimately show ?thesis
    by (simp add: prod_eq_iff)
qed

subsection \<open>Sentiment analysis: scores\<close>

text \<open>
  C4. For a review that is null or the empty string each of the three methods returns
  exactly 0 (VADER compound 0, TextBlob polarity 0 and subjectivity 0, Afinn 0) without
  calling the library; and when the stage saves its frame (the input having none of the
  columns the stage adds), every row carries the scores of all three methods computed
  from that row's review: the columns \<^verbatim>\<open>vader_compound\<close>, \<^verbatim>\<open>textblob_polarity\<close>,
  \<^verbatim>\<open>textblob_subjectivity\<close> and \<^verbatim>\<open>afinn_score\<close> of the saved frame are the review column
  mapped through \<open>get_vader_scores\<close>, \<open>get_textblob_scores\<close> and \<open>get_afinn_score\<close>.
\<close>

theorem sentiment_three_methods:
  "(text = NaN \<or> text = Str '''' \<longrightarrow>
      get_vader_scores L text = 0 \<and> get_textblob_scores L text = (0, 0)
      \<and> get_afinn_score L text = 0)
   \<and> (set (columns df) \<inter> (insert ''month'' (set sentiment_columns)) = {}
      \<and> sentiment_main L df = Inr out \<longrightarrow>
      (\<exists>review. get_col df ''review'' = Inr review
         \<and> get_col out ''vader_compound'' = Inr (map (\<lambda>t. Num (get_vader_scores L t)) review)
         \<and> get_col out ''textblob_polarity'' =
             Inr (map (\<lambda>t. Num (fst (get_textblob_scores L t))) review)
         \<and> get_col out ''textblob_subjectivity'' =
             Inr (map (\<lambda>t. Num (snd (get_textblob_scores L t))) review)
         \<and> get_col out ''afinn_score'' = Inr (map (\<lambda>t. Num (get_afinn_score L t)) review)))"
proof (intro conjI impI)
  assume "text = NaN \<or> text = Str ''''"
  then show "get_vader_scores L text = 0" "get_textblob_scores L text = (0, 0)"
    "get_afinn_score L text = 0"
    by (auto simp: get_vader_scores_def get_textblob_scores_def get_afinn_score_def)
next
  assume a: "set (columns df) \<inter> (insert ''month'' (set sentiment_columns)) = {}
      \<and> sentiment_main L df = Inr out"
  then have f: "''vader_compound'' \<notin> set (columns df)" "''textblob_polarity'' \<notin> set (columns df)"
    "''textblob_subjectivity'' \<notin> set (columns df)" "''afinn_score'' \<notin> set (columns df)"
    by (auto simp: sentiment_columns_def)
  from a sentiment_main_result [of df L out] obtain review where
    r: "get_col df ''review'' = Inr review" and
    out: "out = df @
       [(''vader_compound'', map (\<lambda>t. Num (get_vader_scores L t)) review),
        (''textblob_polarity'', map (\<lambda>t. Num (fst (get_textblob_scores L t))) review),
        (''textblob_subjectivity'', map (\<lambda>t. Num (snd (get_textblob_scores L t))) review),
        (''afinn_score'', map (\<lambda>t. Num (get_afinn_score L t)) review),
        (''sentiment_category'', map (\<lambda>t. pd_cut (Num (get_vader_scores L t))) review)]"
    by blast
  have "get_col out ''vader_compound'' = Inr (map (\<lambda>t. Num (get_vader_scores L t)) review)"
    unfolding out using f(1) by (simp add: get_col_fresh) (simp add: get_col_def)
  moreover have "get_col out ''textblob_polarity'' =
      Inr (map (\<lambda>t. Num (fst (get_textblob_scores L t))) review)"
    unfolding out using f(2) by (simp add: get_col_fresh) (simp add: get_col_def)
  moreover have "get_col out ''textblob_subjectivity'' =
      Inr (map (\<lambda>t. Num (snd (get_textblob_scores L t))) review)"
    unfolding out using f(3) by (simp add: get_col_fresh) (simp add: get_col_def)
  moreover have "get_col out ''afinn_score'' = Inr (map (\<lambda>t. Num (get_afinn_score L t)) review)"
    unfolding out using f(4) by (simp add: get_col_fresh) (simp add: get_col_def)
  ultimately show "\<exists>review. get_col df ''review'' = Inr review
         \<and> get_col out ''vader_compound'' = Inr (map (\<lambda>t. Num (get_vader_scores L t)) review)
         \<and> get_col out ''textblob_polarity'' =
             Inr (map (\<lambda>t. Num (fst (get_textblob_scores L t))) review)
         \<and> get_col out ''textblob_subjectivity'' =
             Inr (map (\<lambda>t. Num (snd (get_textblob_scores L t))) review)
         \<and> get_col out ''afinn_score'' = Inr (map (\<lambda>t. Num (get_afinn_score L t)) review)"
    using r by blast
qed

theorem sentiment_three_methods_witness:
  "get_vader_scores sample_sentiment_lib (Str '''') = 0
   \<and> get_textblob_scores sample_sentiment_lib NaN = (0, 0)
   \<and> get_afinn_score sample_sentiment_lib (Str '''') = 0
   \<and> set (columns sample_clean_df) \<inter> (insert ''month'' (set sentiment_columns)) = {}
   \<and> (\<exists>out. sentiment_main sample_sentiment_lib sample_clean_df = Inr out
        \<and> get_col out ''vader_compound'' = Inr [Num 0.6249, Num 0, Num 0]
        \<and> get_col out ''afinn_score'' = Inr [Num 3, Num 0, Num 0])"
proof -
  have fresh: "set (columns sample_clean_df) \<inter> (insert ''month'' (set sentiment_columns)) = {}"
    by (simp add: columns_def sample_clean_df_def sentiment_columns_def)
  have r: "get_col sample_clean_df ''review'' = Inr [Str ''great'', Str '''', NaN]"
    by (simp add: get_col_def sample_clean_df_def)
  have v: "map (\<lambda>t. Num (get_vader_scores sample_sentiment_lib t)) [Str ''great'', Str '''', NaN]
      = [Num 0.6249, Num 0, Num 0]"
    by (simp add: get_vader_scores_def sample_sentiment_lib_def py_str_def)
  have a: "map (\<lambda>t. Num (get_afinn_score sample_sentiment_lib t)) [Str ''great'', Str '''', NaN]
      = [Num 3, Num 0, Num 0]"
    by (simp add: get_afinn_score_def sample_sentiment_lib_def py_str_def)
  from sentiment_three_methods [of "Str ''''" sample_sentiment_lib sample_clean_df]
  have e: "get_vader_scores sample_sentiment_lib (Str '''') = 0"
    "get_afinn_score sample_sentiment_lib (Str '''') = 0"
    by simp_all
  from sentiment_three_methods [of NaN sample_sentiment_lib sample_clean_df]
  have n: "get_textblob_scores sample_sentiment_lib NaN = (0, 0)"
    by simp
  from sentiment_three_methods [of NaN sample_sentiment_lib sample_clean_df] fresh
    sample_sentiment_run r
  have "get_col (sample_clean_df @
       [(''vader_compound'', [Num 0.6249, Num 0, Num 0]),
        (''textblob_polarity'', [Num 0.8, Num 0, Num 0]),
        (''textblob_subjectivity'', [Num 0.75, Num 0, Num 0]),
        (''afinn_score'', [Num 3, Num 0, Num 0]),
        (''sentiment_category'', [Str ''Positive'', Str ''Neutral'', Str ''Neutral''])])
        ''vader_compound'' = Inr [Num 0.6249, Num 0, Num 0]
     \<and> get_col (sample_clean_df @
       [(''vader_compound'', [Num 0.6249, Num 0, Num 0]),
        (''textblob_polarity'', [Num 0.8, Num 0, Num 0]),
        (''textblob_subjectivity'', [Num 0.75, Num 0, Num 0]),
        (''afinn_score'', [Num 3, Num 0, Num 0]),
        (''sentiment_category'', [Str ''Positive'', Str ''Neutral'', Str ''Neutral''])])
        ''afinn_score'' = Inr [Num 3, Num 0, Num 0]"
    using v a by simp
  with e n fresh sample_sentiment_run show ?thesis by simp
qed

subsection \<open>Sentiment analysis: what the stage leaves alone\<close>

text \<open>
  C8. When the sentiment stage saves its frame, for an input frame that has none of the
  columns \<^verbatim>\<open>month\<close>, \<^verbatim>\<open>vader_compound\<close>, \<^verbatim>\<open>textblob_polarity\<close>,
  \<^verbatim>\<open>textblob_subjectivity\<close>, \<^verbatim>\<open>afinn_score\<close>, \<^verbatim>\<open>sentiment_category\<close> (as the cleaned
  file, with its columns review, rating, date, bank, source): the saved frame begins with
  the input's columns, each with exactly the input's cells in the input's order (no row
  removed or moved, no value changed); the columns after them are exactly the five
  added ones, in the order \<^verbatim>\<open>vader_compound\<close>, \<^verbatim>\<open>textblob_polarity\<close>,
  \<^verbatim>\<open>textblob_subjectivity\<close>, \<^verbatim>\<open>afinn_score\<close>, \<^verbatim>\<open>sentiment_category\<close>, each with as many
  cells as the review column has rows; and there is no \<^verbatim>\<open>month\<close> column.
\<close>

theorem sentiment_main_frame:
  assumes "set (columns df) \<inter> (insert ''month'' (set sentiment_columns)) = {}"
    and "sentiment_main L df = Inr out"
  shows "take (length df) out = df
    \<and> columns out = columns df @ sentiment_columns
    \<and> ''month'' \<notin> set (columns out)
    \<and> (\<exists>review. get_col df ''review'' = Inr review
         \<and> (\<forall>cv \<in> set (drop (length df) out). length (snd cv) = length review))"
proof -
  from sentiment_main_result [OF assms] obtain review where
    r: "get_col df ''review'' = Inr review" and
    out: "out = df @
       [(''vader_compound'', map (\<lambda>t. Num (get_vader_scores L t)) review),
        (''textblob_polarity'', map (\<lambda>t. Num (fst (get_textblob_scores L t))) review),
        (''textblob_subjectivity'', map (\<lambda>t. Num (snd (get_textblob_scores L t))) review),
        (''afinn_score'', map (\<lambda>t. Num (get_afinn_score L t)) review),
        (''sentiment_category'', map (\<lambda>t. pd_cut (Num (get_vader_scores L t))) review)]"
    by blast
  have "take (length df) out = df"
    by (simp add: out)
  moreover have "columns out = columns df @ sentiment_columns"
    by (simp add: out columns_def sentiment_columns_def)
  moreover have "''month'' \<notin> set (columns out)"
    using assms(1) by (simp add: out columns_def sentiment_columns_def)
  moreover have "\<forall>cv \<in> set (drop (length df) out). length (snd cv) = length review"
    by (simp add: out)
  ultimately show ?thesis using r by blast
qed

theorem sentiment_main_frame_witness:
  "set (columns sample_clean_df) \<inter> (insert ''month'' (set sentiment_columns)) = {}
   \<and> (\<exists>out. sentiment_main sample_sentiment_lib sample_clean_df = Inr out
        \<and> take 5 out = sample_clean_df
        \<and> columns out = [''review'', ''rating'', ''date'', ''bank'', ''source'',
             ''vader_compound'', ''textblob_polarity'', ''textblob_subjectivity'',
             ''afinn_score'', ''sentiment_category''])"
proof -
  have fresh: "set (columns sample_clean_df) \<inter> (insert ''month'' (set sentiment_columns)) = {}"
    by (simp add: columns_def sample_clean_df_def sentiment_columns_def)
  have l: "length sample_clean_df = 5" "columns sample_clean_df =
      [''review'', ''rating'', ''date'', ''bank'', ''source'']"
    by (simp_all add: sample_clean_df_def columns_def)
  from sentiment_main_frame [OF fresh sample_sentiment_run]
  show ?thesis using fresh sample_sentiment_run l
    by (simp add: sentiment_columns_def)
qed

subsection \<open>Topic modeling: preprocessing\<close>

text \<open>
  C1, as the code has it. Stopwords and short words are filtered before lemmatization,
  so (for a tokenizer that gives lowercase tokens on lowercase text) every token returned
  for a review is the lemma of a word that consists only of the letters a to z, has at
  least 3 characters and is not in the NLTK-plus-custom stopword set; a null review gives
  the empty list; and in the frame \<^verbatim>\<open>preprocess_text\<close> returns, which is the one every
  later step of \<^verbatim>\<open>main\<close> works on, the \<^verbatim>\<open>tokens\<close> column holds exactly the non-empty
  token lists of the reviews, in order, and every other column holds the cells of the rows
  whose token list is not empty.
\<close>

theorem clean_text_tokens:
  "(lowercase_tokenizer L \<longrightarrow>
      (\<forall>t \<in> set (clean_text L text).
         \<exists>word. t = lemmatize L word \<and> (\<forall>c \<in> set word. is_lower_az c)
           \<and> 3 \<le> length word \<and> word \<notin> stop_words L))
   \<and> clean_text L NaN = []
   \<and> (preprocess_text L df = Inr out \<longrightarrow>
        (\<exists>review. get_col df ''review'' = Inr review
           \<and> get_col out ''tokens'' =
               Inr (map Toks (filter (\<lambda>t. t \<noteq> []) (map (clean_text L) review)))
           \<and> (\<forall>c. c \<noteq> ''tokens'' \<longrightarrow> get_col out c =
                 (case get_col df c of
                    Inl e \<Rightarrow> Inl e
                  | Inr vs \<Rightarrow> Inr (select (map (\<lambda>t. clean_text L t \<noteq> []) review) vs)))))"
proof (intro conjI impI ballI)
  fix t
  assume tok: "lowercase_tokenizer L" and t: "t \<in> set (clean_text L text)"
  define text4 where
    "text4 = sub_non_letters (sub_emails (sub_urls (py_lower (py_str (nlp_repr L) text))))"
  from t have "text \<noteq> NaN"
    by (auto simp: clean_text_def)
  with t obtain word where w: "t = lemmatize L word" "word \<in> set (word_tokenize L text4)"
    "word \<notin> stop_words L" "3 \<le> length word"
    by (auto simp: clean_text_def Let_def text4_def)
  have "\<forall>c \<in> set text4. is_lower_az c \<or> py_isspace c"
    unfolding text4_def using sub_non_letters_chars by blast
  with tok w(2) have "\<forall>c \<in> set word. is_lower_az c"
    unfolding lowercase_tokenizer_def by blast
  with w show "\<exists>word. t = lemmatize L word \<and> (\<forall>c \<in> set word. is_lower_az c)
           \<and> 3 \<le> length word \<and> word \<notin> stop_words L"
    by blast
next
  show "clean_text L NaN = []"
    by (simp add: clean_text_def)
next
  assume "preprocess_text L df = Inr out"
  from preprocess_text_cols [OF this]
  show "\<exists>review. get_col df ''review'' = Inr review
           \<and> get_col out ''tokens'' =
               Inr (map Toks (filter (\<lambda>t. t \<noteq> []) (map (clean_text L) review)))
           \<and> (\<forall>c. c \<noteq> ''tokens'' \<longrightarrow> get_col out c =
                 (case get_col df c of
                    Inl e \<Rightarrow> Inl e
                  | Inr vs \<Rightarrow> Inr (select (map (\<lambda>t. clean_text L t \<noteq> []) review) vs)))" .
qed

theorem clean_text_tokens_witness:
  "lowercase_tokenizer sample_nlp_lib
   \<and> clean_text sample_nlp_lib (Str ''The transfers FAIL, see http://t.co/x'') =
       [''transfer'', ''fail'', ''see'']
   \<and> (\<exists>word. ''transfer'' = lemmatize sample_nlp_lib word \<and> 3 \<le> length word
         \<and> word \<notin> stop_words sample_nlp_lib)
   \<and> (\<exists>out. preprocess_text sample_nlp_lib sample_sentiment_df = Inr out
         \<and> get_col out ''tokens'' =
             Inr [Toks [''transfer'', ''fail'', ''see''], Toks [''crash'', ''freezes'']]
         \<and> get_col out ''rating'' = Inr [Num 1, Num 2])"
proof -
  note inst = clean_text_tokens [of sample_nlp_lib
      "Str ''The transfers FAIL, see http://t.co/x''" sample_sentiment_df]
  from inst sample_lowercase_tokenizer sample_clean_text
  have "\<exists>word. ''transfer'' = lemmatize sample_nlp_lib word
      \<and> (\<forall>c \<in> set word. is_lower_az c) \<and> 3 \<le> length word
      \<and> word \<notin> stop_words sample_nlp_lib"
    by simp
  then have w: "\<exists>word. ''transfer'' = lemmatize sample_nlp_lib word \<and> 3 \<le> length word
      \<and> word \<notin> stop_words sample_nlp_lib"
    by blast
  from inst sample_preprocess_text
  have "get_col [(''review'', [Str ''The transfers FAIL, see http://t.co/x'',
                                Str ''Crashes and freezes'']),
          (''rating'', [Num 1, Num 2]),
          (''bank'', [Str ''Dashen Bank'', Str ''Bank of Abyssinia'']),
          (''vader_compound'', [Num (- 0.5), Num 0]),
          (''tokens'', [Toks [''transfer'', ''fail'', ''see''], Toks [''crash'', ''freezes'']])]
        ''tokens'' = Inr [Toks [''transfer'', ''fail'', ''see''], Toks [''crash'', ''freezes'']]"
    by (simp add: get_col_def)
  moreover have "get_col [(''review'', [Str ''The transfers FAIL, see http://t.co/x'',
                                Str ''Crashes and freezes'']),
          (''rating'', [Num 1, Num 2]),
          (''bank'', [Str ''Dashen Bank'', Str ''Bank of Abyssinia'']),
          (''vader_compound'', [Num (- 0.5), Num 0]),
          (''tokens'', [Toks [''transfer'', ''fail'', ''see''], Toks [''crash'', ''freezes'']])]
        ''rating'' = Inr [Num 1, Num 2]"
    by (simp add: get_col_def)
  ultimately show ?thesis
    using w sample_lowercase_tokenizer sample_clean_text sample_preprocess_text by simp
qed

text \<open>
  The claim as the specification states it, that no returned token is a stopword, fails:
  the review \<^verbatim>\<open>banks\<close> passes the stopword filter as the word \<^verbatim>\<open>banks\<close> and is then
  lemmatized to \<^verbatim>\<open>bank\<close>, a custom stopword.
\<close>

theorem clean_text_stopword_counterexample:
  "clean_text sample_nlp_lib (Str ''banks'') = [''bank'']
   \<and> ''bank'' \<in> stop_words sample_nlp_lib"
  by (simp add: clean_text_def sample_nlp_lib_def py_str_def py_lower_def py_lower_char_def
      nonspace_follows_def email_run_def py_isspace_def sub_non_letters_def is_lower_az_def
      py_split_def stop_words_def custom_stopwords_def)

subsection \<open>Topic modeling: topic assignment\<close>

text \<open>
  C2. When LDA topic modeling with 5 topics returns, the \<^verbatim>\<open>lda_topic\<close> column holds, for
  every document in order, the dominant topic of the distribution the model gives for the
  document's bag of words: \<open>-1\<close> when the distribution is empty, and otherwise a topic id
  that occurs in the distribution with a probability that no entry of the distribution
  exceeds. Hence, for a model that names its topics 0 to 4, every assigned value is one of
  \<open>-1, 0, 1, 2, 3, 4\<close>.
\<close>

theorem lda_topic_assignment:
  assumes "perform_lda_topic_modeling L df 5 = Inr out"
  shows "\<exists>col documents get_document_topics.
      get_col df ''tokens_with_phrases'' = Inr col \<and> token_lists col = Inr documents
    \<and> LdaModel L (map (doc2bow L documents) documents) documents 5 = Some get_document_topics
    \<and> get_col out ''lda_topic'' =
        Inr (map (\<lambda>doc. Num (real_of_int
               (dominant_topic (get_document_topics (doc2bow L documents doc))))) documents)
    \<and> (\<forall>doc \<in> set documents.
          (get_document_topics (doc2bow L documents doc) = [] \<longrightarrow>
             dominant_topic (get_document_topics (doc2bow L documents doc)) = - 1)
        \<and> (get_document_topics (doc2bow L documents doc) \<noteq> [] \<longrightarrow>
             (\<exists>p. (dominant_topic (get_document_topics (doc2bow L documents doc)), p)
                    \<in> set (get_document_topics (doc2bow L documents doc))
                \<and> (\<forall>kq \<in> set (get_document_topics (doc2bow L documents doc)). snd kq \<le> p)))
        \<and> (topic_ids_in_range L 5 \<longrightarrow>
             dominant_topic (get_document_topics (doc2bow L documents doc))
               \<in> {- 1, 0, 1, 2, 3, 4}))"
proof -
  from perform_lda_topic_modeling_cols [OF assms]
  obtain col documents get_document_topics where
    c: "get_col df ''tokens_with_phrases'' = Inr col" "token_lists col = Inr documents" and
    m: "LdaModel L (map (doc2bow L documents) documents) documents 5 = Some get_document_topics" and
    o: "get_col out ''lda_topic'' =
        Inr (map (\<lambda>doc. Num (real_of_int
               (dominant_topic (get_document_topics (doc2bow L documents doc))))) documents)"
    by blast
  have range: "dominant_topic (get_document_topics bow) \<in> {- 1, 0, 1, 2, 3, 4}"
    if ids: "topic_ids_in_range L 5" for bow
  proof (cases "get_document_topics bow = []")
    case True
    then show ?thesis by (simp add: dominant_topic_def)
  next
    case False
    with dominant_topic_cases [of "get_document_topics bow"] obtain p where
      "(dominant_topic (get_document_topics bow), p) \<in> set (get_document_topics bow)"
      by blast
    with ids m have "0 \<le> dominant_topic (get_document_topics bow)
        \<and> dominant_topic (get_document_topics bow) < 5"
      unfolding topic_ids_in_range_def by fastforce
    then show ?thesis by auto
  qed
  have "\<forall>doc \<in> set documents.
          (get_document_topics (doc2bow L documents doc) = [] \<longrightarrow>
             dominant_topic (get_document_topics (doc2bow L documents doc)) = - 1)
        \<and> (get_document_topics (doc2bow L documents doc) \<noteq> [] \<longrightarrow>
             (\<exists>p. (dominant_topic (get_document_topics (doc2bow L documents doc)), p)
                    \<in> set (get_document_topics (doc2bow L documents doc))
                \<and> (\<forall>kq \<in> set (get_document_topics (doc2bow L documents doc)). snd kq \<le> p)))
        \<and> (topic_ids_in_range L 5 \<longrightarrow>
             dominant_topic (get_document_topics (doc2bow L documents doc))
               \<in> {- 1, 0, 1, 2, 3, 4})"
    using dominant_topic_cases range by blast
  with c m o show ?thesis by blast
qed

theorem lda_topic_assignment_witness:
  "topic_ids_in_range sample_nlp_lib 5
   \<and> (\<exists>out. perform_lda_topic_modeling sample_nlp_lib sample_phrases_df 5 = Inr out
        \<and> get_col out ''lda_topic'' = Inr [Num 1, Num 3, Num (- 1)])
   \<and> dominant_topic [(0, 0.1), (3, 0.8), (4, 0.1)] = 3
   \<and> dominant_topic [(1, 0.5), (4, 0.5)] = 1
   \<and> dominant_topic [] = - 1"
proof -
  from lda_topic_assignment [OF sample_perform_lda]
  have "\<exists>vs. get_col (sample_phrases_df @ [(''lda_topic'', [Num 1, Num 3, Num (- 1)])])
      ''lda_topic'' = Inr vs"
    by blast
  then have "get_col (sample_phrases_df @ [(''lda_topic'', [Num 1, Num 3, Num (- 1)])])
      ''lda_topic'' = Inr [Num 1, Num 3, Num (- 1)]"
    by (simp add: get_col_def sample_phrases_df_def)
  moreover have "dominant_topic [(0, 0.1), (3, 0.8), (4, 0.1)] = 3"
    "dominant_topic [(1, 0.5), (4, 0.5)] = 1" "dominant_topic [] = - 1"
    by (simp_all add: dominant_topic_def)
  ultimately show ?thesis
    using sample_topic_ids_in_range sample_perform_lda by simp
qed

subsection \<open>Topic modeling: the rows written\<close>

text \<open>
  C10. When the topic-modeling stage writes its frame of topic assignments, the frame has
  exactly the columns \<^verbatim>\<open>review\<close>, \<^verbatim>\<open>bank\<close>, \<^verbatim>\<open>rating\<close>, \<^verbatim>\<open>lda_topic\<close>; its rows are, in
  order, the rows of the loaded sentiment results whose review has at least one surviving
  token, with their review, bank and rating, every other row being dropped without an
  error; so it has as many rows as there are such reviews, which is at most, and can be
  less than, the number of loaded rows.
\<close>

theorem topic_modeling_main_rows:
  assumes "topic_modeling_main L df = Inr out"
  shows "\<exists>review bank rating review' bank' rating' lda_topic.
      get_col df ''review'' = Inr review \<and> get_col df ''bank'' = Inr bank
    \<and> get_col df ''rating'' = Inr rating
    \<and> out = [(''review'', review'), (''bank'', bank'), (''rating'', rating'),
             (''lda_topic'', lda_topic)]
    \<and> review' = filter (\<lambda>t. clean_text L t \<noteq> []) review
    \<and> zip review' (zip bank' rating') =
        filter (\<lambda>row. clean_text L (fst row) \<noteq> []) (zip review (zip bank rating))
    \<and> length lda_topic = length review'
    \<and> length review' \<le> length review"
proof -
  from topic_modeling_main_result [OF assms] obtain review bank rating lda_topic where
    g: "get_col df ''review'' = Inr review" "get_col df ''bank'' = Inr bank"
       "get_col df ''rating'' = Inr rating" and
    l: "length lda_topic = length (filter (\<lambda>t. clean_text L t \<noteq> []) review)" and
    out: "out = [(''review'', select (map (\<lambda>t. clean_text L t \<noteq> []) review) review),
             (''bank'', select (map (\<lambda>t. clean_text L t \<noteq> []) review) bank),
             (''rating'', select (map (\<lambda>t. clean_text L t \<noteq> []) review) rating),
             (''lda_topic'', lda_topic)]"
    by blast
  define keep where "keep = map (\<lambda>t. clean_text L t \<noteq> []) review"
  have r: "select keep review = filter (\<lambda>t. clean_text L t \<noteq> []) review"
    unfolding keep_def by (rule select_self)
  have "zip (select keep review) (zip (select keep bank) (select keep rating)) =
      select keep (zip review (zip bank rating))"
    by (simp add: select_zip)
  also have "\<dots> = filter (\<lambda>row. clean_text L (fst row) \<noteq> []) (zip review (zip bank rating))"
    unfolding keep_def by (rule select_zip_filter)
  finally have z: "zip (select keep review) (zip (select keep bank) (select keep rating)) =
      filter (\<lambda>row. clean_text L (fst row) \<noteq> []) (zip review (zip bank rating))" .
  have "length (select keep review) \<le> length review"
    by (rule length_select_le)
  with g l out r z show ?thesis
    unfolding keep_def by (intro exI conjI) (assumption | simp)+
qed

theorem topic_modeling_main_rows_witness:
  "topic_modeling_main sample_nlp_lib sample_sentiment_df =
     Inr [(''review'', [Str ''The transfers FAIL, see http://t.co/x'', Str ''Crashes and freezes'']),
          (''bank'', [Str ''Dashen Bank'', Str ''Bank of Abyssinia'']),
          (''rating'', [Num 1, Num 2]),
          (''lda_topic'', [Num 1, Num 3])]
   \<and> get_col sample_sentiment_df ''review'' =
       Inr [Str ''The transfers FAIL, see http://t.co/x'', Str ''OK'', NaN,
            Str ''Crashes and freezes'']
   \<and> clean_text sample_nlp_lib (Str ''OK'') = []"
proof -
  from topic_modeling_main_rows [OF sample_topic_modeling_main]
  have "\<exists>review. get_col sample_sentiment_df ''review'' = Inr review"
    by blast
  then have "get_col sample_sentiment_df ''review'' =
       Inr [Str ''The transfers FAIL, see http://t.co/x'', Str ''OK'', NaN,
            Str ''Crashes and freezes'']"
    by (simp add: get_col_def sample_sentiment_df_def)
  moreover have "clean_text sample_nlp_lib (Str ''OK'') = []"
    by (simp add: clean_text_def sample_nlp_lib_def py_str_def py_lower_def py_lower_char_def
      nonspace_follows_def email_run_def py_isspace_def sub_non_letters_def is_lower_az_def
      py_split_def stop_words_def custom_stopwords_def)
  ultimately show ?thesis using sample_topic_modeling_main by simp
qed

subsection \<open>Scraping: the pagination loop\<close>

text \<open>
  C6, as the code has it. For every API, whatever it answers, and every target count: the
  loop returns (it is a total function), after at most as many calls as the target count;
  every call asks for at least 1 and at most 200 reviews; when it returns, the collected
  total has reached the target, or the last call raised, returned an empty batch or
  returned no continuation token; and if the API never returns more reviews than the call
  asked for, the loop collects no more than the target, and the frame built from the
  collected reviews has no more rows than the target. The loop itself never cuts a batch
  down to what is still missing.
\<close>

theorem scrape_loop_pagination:
  "(\<forall>call \<in> set (snd (scrape_loop reviews count [] None [])). 1 \<le> fst call \<and> fst call \<le> 200)
   \<and> length (snd (scrape_loop reviews count [] None [])) \<le> nat count
   \<and> (count \<le> int (length (fst (scrape_loop reviews count [] None [])))
        \<or> last_call_ends (snd (scrape_loop reviews count [] None [])))
   \<and> (honours_count reviews \<longrightarrow>
        int (length (fst (scrape_loop reviews count [] None []))) \<le> max 0 count
        \<and> int (length (scrape_app_reviews reviews to_row count)) \<le> max 0 count)"
proof (intro conjI impI)
  show "\<forall>call \<in> set (snd (scrape_loop reviews count [] None [])). 1 \<le> fst call \<and> fst call \<le> 200"
    using scrape_loop_requests [of reviews count "[]" None "[]"] by simp
  show "length (snd (scrape_loop reviews count [] None [])) \<le> nat count"
    using scrape_loop_calls [of reviews count "[]" None "[]"] by simp
  show "count \<le> int (length (fst (scrape_loop reviews count [] None [])))
        \<or> last_call_ends (snd (scrape_loop reviews count [] None []))"
    by (rule scrape_loop_exit)
next
  assume h: "honours_count reviews"
  then show total: "int (length (fst (scrape_loop reviews count [] None []))) \<le> max 0 count"
    by (rule scrape_loop_total) simp
  from scrape_app_reviews_length [of reviews to_row count] total
  show "int (length (scrape_app_reviews reviews to_row count)) \<le> max 0 count"
    by linarith
qed

theorem scrape_loop_pagination_witness:
  "honours_count sample_store
   \<and> map fst (snd (scrape_loop sample_store 400 [] None [])) = [200, 200]
   \<and> length (fst (scrape_loop sample_store 400 [] None [])) = 400
   \<and> map fst (snd (scrape_loop sample_store 500 [] None [])) = [200, 200, 100]
   \<and> length (fst (scrape_loop sample_store 500 [] None [])) = 450
   \<and> last_call_ends (snd (scrape_loop sample_store 500 [] None []))"
proof -
  from scrape_loop_pagination [of sample_store 500 Some]
  have "500 \<le> int (length (fst (scrape_loop sample_store 500 [] None [])))
      \<or> last_call_ends (snd (scrape_loop sample_store 500 [] None []))"
    by blast
  then have "last_call_ends (snd (scrape_loop sample_store 500 [] None []))"
    by (simp add: sample_store_500)
  then show ?thesis
    using sample_store_honours_count by (simp add: sample_store_400 sample_store_500)
qed

text \<open>
  The claim as the specification states it, that the loop never collects more than the
  target for any API responses, fails: asked for 2 reviews, an API that answers with 3
  leaves 3 reviews collected for the target 2.
\<close>

theorem scrape_loop_overshoot_counterexample:
  "scrape_loop generous_store 2 [] None [] = ([7, 8, 9], [(2, Some ([7, 8, 9], Some 1))])
   \<and> int (length (fst (scrape_loop generous_store 2 [] None []))) > 2"
  by (simp add: scrape_loop.simps generous_store_def Let_def)

subsection \<open>Cleaning: the frame written\<close>

text \<open>
  C5, as the code has it. Take a raw frame in which no two columns have the same label and
  no column is already called \<^verbatim>\<open>review\<close> or \<^verbatim>\<open>bank\<close> (the file of the scraper has the
  columns \<^verbatim>\<open>review_text\<close>, \<^verbatim>\<open>rating\<close>, \<^verbatim>\<open>date\<close>, \<^verbatim>\<open>bank_name\<close>, \<^verbatim>\<open>source\<close>). When the
  cleaning script writes its frame, the frame has exactly the columns review, rating, date,
  bank, source; in every row the review is a non-empty string and the date is not missing;
  and no rating is missing unless every rating is (a missing rating is filled with the
  median of the ratings present, which is itself missing when there is none). The rest of
  what the specification asks of the written frame (no two rows with the same review and
  bank, no missing bank or source, every rating a number from 1 to 5) is what
  \<^verbatim>\<open>validate_data\<close> checks: it returns true exactly when the written frame satisfies all
  of it, and \<^verbatim>\<open>main\<close> writes the frame without looking at that result.
\<close>

theorem clean_reviews_main_rows:
  assumes "clean_reviews_main to_ymd repr raw = Inr out"
    and "distinct (columns raw)"
    and "''review'' \<notin> set (columns raw)" and "''bank'' \<notin> set (columns raw)"
  shows "columns out = [''review'', ''rating'', ''date'', ''bank'', ''source'']
    \<and> (\<exists>review rating date.
          get_col out ''review'' = Inr review \<and> get_col out ''rating'' = Inr rating
          \<and> get_col out ''date'' = Inr date
          \<and> (\<forall>v \<in> set review. \<exists>s. v = Str s \<and> s \<noteq> [])
          \<and> ((\<forall>v \<in> set rating. v \<noteq> NaN) \<or> (\<forall>v \<in> set rating. v = NaN))
          \<and> (\<forall>v \<in> set date. v \<noteq> NaN))
    \<and> validate_data True out = Inr (cleaned_invariant out)"
proof -
  from assms(1) obtain df1 df2 df3 df4 is_valid where
    s1: "remove_duplicates raw = Inr df1" and
    s2: "handle_missing_values df1 = Inr df2" and
    s3: "normalize_dates to_ymd df2 = Inr df3" and
    s4: "clean_reviews_text repr (review_text_dtype raw) df3 = Inr df4" and
    s5: "standardize_schema df4 = Inr out" and
    s6: "validate_data True out = Inr is_valid"
    by (auto simp: clean_reviews_main_def split: sum.splits)
  from handle_missing_values_rating [OF s2] obtain rating2 where
    g2: "get_col df2 ''rating'' = Inr rating2" and
    f2: "(\<forall>v \<in> set rating2. v \<noteq> NaN) \<or> (\<forall>v \<in> set rating2. v = NaN)"
    by blast
  from normalize_dates_cols [OF s3] obtain date3 where
    c3: "columns df3 = columns df2" and
    d3: "get_col df3 ''date'' = Inr date3" "NaN \<notin> set date3"
    by blast
  from normalize_dates_rows [OF s3 g2] obtain rating3 where
    g3: "get_col df3 ''rating'' = Inr rating3" "set rating3 \<subseteq> set rating2"
    by auto
  from clean_reviews_text_cols [OF s4] have
    c4: "columns df4 = columns df3" and
    r4: "\<exists>review. get_col df4 ''review_text'' = Inr review
          \<and> (\<forall>v \<in> set review. \<exists>s. v = Str s \<and> s \<noteq> [])" and
    k4: "\<And>c vs. c \<noteq> ''review_text'' \<Longrightarrow> get_col df3 c = Inr vs \<Longrightarrow>
          \<exists>vs'. get_col df4 c = Inr vs' \<and> set vs' \<subseteq> set vs"
    by blast+
  from r4 obtain review where
    r: "get_col df4 ''review_text'' = Inr review" "\<forall>v \<in> set review. \<exists>s. v = Str s \<and> s \<noteq> []"
    by blast
  from k4 [OF _ d3(1)] obtain date where
    d4: "get_col df4 ''date'' = Inr date" "set date \<subseteq> set date3"
    by auto
  from k4 [OF _ g3(1)] obtain rating where
    g4: "get_col df4 ''rating'' = Inr rating" "set rating \<subseteq> set rating3"
    by auto
  have cols: "columns df4 = columns raw"
    using c4 c3 handle_missing_values_columns [OF s2] remove_duplicates_columns [OF s1] by simp
  from standardize_schema_cols [OF s5] assms(2-4) r(1) g4(1) d4(1) obtain bank source where
    out: "out = [(''review'', review), (''rating'', rating), (''date'', date), (''bank'', bank),
                 (''source'', source)]"
    by (auto simp: cols)
  then have
    o: "columns out = [''review'', ''rating'', ''date'', ''bank'', ''source'']"
       "get_col out ''review'' = Inr review" "get_col out ''rating'' = Inr rating"
       "get_col out ''date'' = Inr date"
    by (simp_all add: columns_def get_col_def)
  from d4(2) d3(2) have date: "\<forall>v \<in> set date. v \<noteq> NaN"
    by blast
  from g4(2) g3(2) f2 have rating: "(\<forall>v \<in> set rating. v \<noteq> NaN) \<or> (\<forall>v \<in> set rating. v = NaN)"
    by blast
  from r(2) have "\<forall>v \<in> set review. \<exists>s. v = Str s"
    by blast
  from validate_data_invariant [OF s6 out this] s6
  have "validate_data True out = Inr (cleaned_invariant out)"
    by simp
  with o r(2) rating date show ?thesis
    by blast
qed

lemma clean_reviews_sample_run:
  "clean_reviews_main sample_to_ymd (\<lambda>v. ''nan'') sample_raw_df =
     Inr [(''review'', [Str ''Good app'', Str ''Good app'', Str ''Slow'']),
          (''rating'', [Num 5, Num 4, Num 0]),
          (''date'', [Str ''2024-01-05'', Str ''2024-01-06'', Str ''2024-02-01'']),
          (''bank'', [Str ''Dashen Bank'', Str ''Dashen Bank'', NaN]),
          (''source'', [Str ''google_play'', NaN, Str ''google_play''])]"
  by code_simp

lemma clean_reviews_unrated_run:
  "clean_reviews_main sample_to_ymd (\<lambda>v. ''nan'') sample_unrated_df =
     Inr [(''review'', [Str ''Nice'', Str ''Slow'']),
          (''rating'', [NaN, NaN]),
          (''date'', [Str ''2024-01-05'', Str ''2024-01-06'']),
          (''bank'', [Str ''Dashen Bank'', Str ''Dashen Bank'']),
          (''source'', [Str ''google_play'', Str ''google_play''])]"
  by code_simp

theorem clean_reviews_main_rows_witness:
  "distinct (columns sample_raw_df)
   \<and> ''review'' \<notin> set (columns sample_raw_df) \<and> ''bank'' \<notin> set (columns sample_raw_df)
   \<and> (\<exists>out. clean_reviews_main sample_to_ymd (\<lambda>v. ''nan'') sample_raw_df = Inr out
        \<and> columns out = [''review'', ''rating'', ''date'', ''bank'', ''source'']
        \<and> get_col out ''review'' = Inr [Str ''Good app'', Str ''Good app'', Str ''Slow'']
        \<and> get_col out ''rating'' = Inr [Num 5, Num 4, Num 0]
        \<and> get_col out ''date'' = Inr [Str ''2024-01-05'', Str ''2024-01-06'', Str ''2024-02-01'']
        \<and> validate_data True out = Inr False)"
proof -
  have fresh: "distinct (columns sample_raw_df)"
    "''review'' \<notin> set (columns sample_raw_df)" "''bank'' \<notin> set (columns sample_raw_df)"
    by (simp_all add: columns_def sample_raw_df_def)
  define out where "out =
        [(''review'', [Str ''Good app'', Str ''Good app'', Str ''Slow'']),
          (''rating'', [Num 5, Num 4, Num 0]),
          (''date'', [Str ''2024-01-05'', Str ''2024-01-06'', Str ''2024-02-01'']),
          (''bank'', [Str ''Dashen Bank'', Str ''Dashen Bank'', NaN]),
          (''source'', [Str ''google_play'', NaN, Str ''google_play''])]"
  have run: "clean_reviews_main sample_to_ymd (\<lambda>v. ''nan'') sample_raw_df = Inr out"
    unfolding out_def by (rule clean_reviews_sample_run)
  have "\<not> cleaned_invariant out"
    by (simp add: cleaned_invariant_def out_def get_col_def)
  with clean_reviews_main_rows [OF run fresh] have
    "columns out = [''review'', ''rating'', ''date'', ''bank'', ''source'']"
    "validate_data True out = Inr False"
    by simp_all
  moreover have "get_col out ''review'' = Inr [Str ''Good app'', Str ''Good app'', Str ''Slow'']"
    "get_col out ''rating'' = Inr [Num 5, Num 4, Num 0]"
    "get_col out ''date'' = Inr [Str ''2024-01-05'', Str ''2024-01-06'', Str ''2024-02-01'']"
    by (simp_all add: out_def get_col_def)
  ultimately show ?thesis using fresh run by blast
qed

text \<open>
  The claim as the specification states it fails on the two sample raw frames, which both
  have the columns of the scraper's file. In the first, the first two reviews differ only in
  white space, so the duplicate filter, which runs on the raw text, keeps both, and the text
  cleaning then makes them equal: the written frame has two rows with the same review and
  bank. Its second row has no source and its third row has the rating 0 and no bank, and
  no step of \<^verbatim>\<open>main\<close> looks at any of these. In the second frame no review has a rating,
  and the written frame has none either.
\<close>

theorem clean_reviews_main_counterexample:
  "clean_reviews_main sample_to_ymd (\<lambda>v. ''nan'') sample_raw_df =
     Inr [(''review'', [Str ''Good app'', Str ''Good app'', Str ''Slow'']),
          (''rating'', [Num 5, Num 4, Num 0]),
          (''date'', [Str ''2024-01-05'', Str ''2024-01-06'', Str ''2024-02-01'']),
          (''bank'', [Str ''Dashen Bank'', Str ''Dashen Bank'', NaN]),
          (''source'', [Str ''google_play'', NaN, Str ''google_play''])]
   \<and> \<not> distinct (zip [Str ''Good app'', Str ''Good app'', Str ''Slow'']
                      [Str ''Dashen Bank'', Str ''Dashen Bank'', NaN])
   \<and> \<not> cleaned_invariant
          [(''review'', [Str ''Good app'', Str ''Good app'', Str ''Slow'']),
           (''rating'', [Num 5, Num 4, Num 0]),
           (''date'', [Str ''2024-01-05'', Str ''2024-01-06'', Str ''2024-02-01'']),
           (''bank'', [Str ''Dashen Bank'', Str ''Dashen Bank'', NaN]),
           (''source'', [Str ''google_play'', NaN, Str ''google_play''])]
   \<and> clean_reviews_main sample_to_ymd (\<lambda>v. ''nan'') sample_unrated_df =
     Inr [(''review'', [Str ''Nice'', Str ''Slow'']),
          (''rating'', [NaN, NaN]),
          (''date'', [Str ''2024-01-05'', Str ''2024-01-06'']),
          (''bank'', [Str ''Dashen Bank'', Str ''Dashen Bank'']),
          (''source'', [Str ''google_play'', Str ''google_play''])]"
proof -
  have "\<not> cleaned_invariant
          [(''review'', [Str ''Good app'', Str ''Good app'', Str ''Slow'']),
           (''rating'', [Num 5, Num 4, Num 0]),
           (''date'', [Str ''2024-01-05'', Str ''2024-01-06'', Str ''2024-02-01'']),
           (''bank'', [Str ''Dashen Bank'', Str ''Dashen Bank'', NaN]),
           (''source'', [Str ''google_play'', NaN, Str ''google_play''])]"
    by (simp add: cleaned_invariant_def get_col_def)
  then show ?thesis
    using clean_reviews_sample_run clean_reviews_unrated_run by simp
qed

subsection \<open>Loading into PostgreSQL: rollback and commit\<close>

text \<open>
  C7, as the code has it. For bank insertion and for review insertion alike, an error that
  a statement or the commit raises is handled by calling \<^verbatim>\<open>rollback()\<close>. When the rollback
  succeeds, that same \<^verbatim>\<open>psycopg2.Error\<close> leaves the method, the connection has rolled back
  once, and the transaction sees the committed contents again. When the rollback itself
  raises, its exception leaves the method in place of the error caught, and the
  connection has not rolled back: the transaction stays as the failed statement or commit
  left it. When nothing raises, the method returns its result and the connection has
  committed exactly once, what the statements produced, and has not rolled back. An
  exception of the preparation loop of review insertion is not a database error and leaves
  the method with the connection untouched. Whatever exception leaves either method, the
  committed contents of the database are what they were before the call.
\<close>

theorem insert_rollback_or_commit:
  "(insert_banks_loop P (pending conn) (unique (map row_bank df)) [] = Inl (e, db)
      \<and> rollback_error P db = None \<longrightarrow>
      insert_banks P conn df =
        (Inl (Psycopg2Error e),
         conn\<lparr>pending := committed conn, rollbacks := Suc (rollbacks conn)\<rparr>))
   \<and> (insert_banks_loop P (pending conn) (unique (map row_bank df)) [] = Inr (db, mapping)
        \<and> commit_error P db = Some e \<and> rollback_error P db = None \<longrightarrow>
      insert_banks P conn df =
        (Inl (Psycopg2Error e),
         conn\<lparr>pending := committed conn, rollbacks := Suc (rollbacks conn)\<rparr>))
   \<and> ((insert_banks_loop P (pending conn) (unique (map row_bank df)) [] = Inl (e, db)
         \<or> insert_banks_loop P (pending conn) (unique (map row_bank df)) [] = Inr (db, mapping)
           \<and> commit_error P db = Some e)
        \<and> rollback_error P db = Some e' \<longrightarrow>
      insert_banks P conn df = (Inl (Psycopg2Error e'), conn\<lparr>pending := db\<rparr>))
   \<and> (insert_banks_loop P (pending conn) (unique (map row_bank df)) [] = Inr (db, mapping)
        \<and> commit_error P db = None \<longrightarrow>
      insert_banks P conn df =
        (Inr mapping, conn\<lparr>committed := db, pending := db, commits := Suc (commits conn)\<rparr>))
   \<and> (prepare_review_data P bank_mapping df = Inr review_data
        \<and> execute_batch P (pending conn) review_data = Inl (e, db)
        \<and> rollback_error P db = None \<longrightarrow>
      insert_reviews P conn df bank_mapping =
        (Inl (Psycopg2Error e),
         conn\<lparr>pending := committed conn, rollbacks := Suc (rollbacks conn)\<rparr>))
   \<and> (prepare_review_data P bank_mapping df = Inr review_data
        \<and> execute_batch P (pending conn) review_data = Inr db
        \<and> commit_error P db = Some e \<and> rollback_error P db = None \<longrightarrow>
      insert_reviews P conn df bank_mapping =
        (Inl (Psycopg2Error e),
         conn\<lparr>pending := committed conn, rollbacks := Suc (rollbacks conn)\<rparr>))
   \<and> (prepare_review_data P bank_mapping df = Inr review_data
        \<and> (execute_batch P (pending conn) review_data = Inl (e, db)
           \<or> execute_batch P (pending conn) review_data = Inr db \<and> commit_error P db = Some e)
        \<and> rollback_error P db = Some e' \<longrightarrow>
      insert_reviews P conn df bank_mapping = (Inl (Psycopg2Error e'), conn\<lparr>pending := db\<rparr>))
   \<and> (prepare_review_data P bank_mapping df = Inr review_data
        \<and> execute_batch P (pending conn) review_data = Inr db
        \<and> commit_error P db = None \<longrightarrow>
      insert_reviews P conn df bank_mapping =
        (Inr (length review_data),
         conn\<lparr>committed := db, pending := db, commits := Suc (commits conn)\<rparr>))
   \<and> (prepare_review_data P bank_mapping df = Inl err \<longrightarrow>
      insert_reviews P conn df bank_mapping = (Inl (PyError err), conn))
   \<and> (fst (insert_banks P conn df) = Inl x \<longrightarrow>
        committed (snd (insert_banks P conn df)) = committed conn
        \<and> commits (snd (insert_banks P conn df)) = commits conn)
   \<and> (fst (insert_reviews P conn df bank_mapping) = Inl x \<longrightarrow>
        committed (snd (insert_reviews P conn df bank_mapping)) = committed conn
        \<and> commits (snd (insert_reviews P conn df bank_mapping)) = commits conn)
   \<and> (fst (insert_banks P conn df) = Inr mapping \<longrightarrow>
        commits (snd (insert_banks P conn df)) = Suc (commits conn)
        \<and> rollbacks (snd (insert_banks P conn df)) = rollbacks conn
        \<and> committed (snd (insert_banks P conn df)) = pending (snd (insert_banks P conn df)))
   \<and> (fst (insert_reviews P conn df bank_mapping) = Inr n \<longrightarrow>
        commits (snd (insert_reviews P conn df bank_mapping)) = Suc (commits conn)
        \<and> rollbacks (snd (insert_reviews P conn df bank_mapping)) = rollbacks conn
        \<and> committed (snd (insert_reviews P conn df bank_mapping))
            = pending (snd (insert_reviews P conn df bank_mapping)))"
proof -
  let ?banks = "insert_banks_loop P (pending conn) (unique (map row_bank df)) []"
  let ?batch = "execute_batch P (pending conn) review_data"
  let ?rolled = "conn\<lparr>pending := committed conn, rollbacks := Suc (rollbacks conn)\<rparr>"
  have lost: "except_psycopg2_error P (conn\<lparr>pending := db\<rparr>) e
      = ((Inl (Psycopg2Error e'), conn\<lparr>pending := db\<rparr>) :: (exn + 'r) \<times> _)"
    if "rollback_error P db = Some e'" for e e' db
    using that by (simp add: except_psycopg2_error_lost)
  have rolled: "except_psycopg2_error P (conn\<lparr>pending := db\<rparr>) e
      = ((Inl (Psycopg2Error e), ?rolled) :: (exn + 'r) \<times> _)"
    if "rollback_error P db = None" for e db
    using that by (simp add: except_psycopg2_error_rolled_back)
  have b1: "?banks = Inl (e, db) \<and> rollback_error P db = None \<longrightarrow>
      insert_banks P conn df = (Inl (Psycopg2Error e), ?rolled)"
    by (simp add: insert_banks_def rolled)
  have b2: "?banks = Inr (db, mapping) \<and> commit_error P db = Some e
        \<and> rollback_error P db = None \<longrightarrow>
      insert_banks P conn df = (Inl (Psycopg2Error e), ?rolled)"
    by (simp add: insert_banks_def commit_def rolled)
  have b3: "(?banks = Inl (e, db) \<or> ?banks = Inr (db, mapping) \<and> commit_error P db = Some e)
        \<and> rollback_error P db = Some e' \<longrightarrow>
      insert_banks P conn df = (Inl (Psycopg2Error e'), conn\<lparr>pending := db\<rparr>)"
    by (auto simp: insert_banks_def commit_def lost)
  have b4: "?banks = Inr (db, mapping) \<and> commit_error P db = None \<longrightarrow>
      insert_banks P conn df =
        (Inr mapping, conn\<lparr>committed := db, pending := db, commits := Suc (commits conn)\<rparr>)"
    by (simp add: insert_banks_def commit_def)
  have r1: "prepare_review_data P bank_mapping df = Inr review_data
        \<and> ?batch = Inl (e, db) \<and> rollback_error P db = None \<longrightarrow>
      insert_reviews P conn df bank_mapping = (Inl (Psycopg2Error e), ?rolled)"
    by (simp add: insert_reviews_def rolled)
  have r2: "prepare_review_data P bank_mapping df = Inr review_data
        \<and> ?batch = Inr db \<and> commit_error P db = Some e \<and> rollback_error P db = None \<longrightarrow>
      insert_reviews P conn df bank_mapping = (Inl (Psycopg2Error e), ?rolled)"
    by (simp add: insert_reviews_def commit_def rolled)
  have r3: "prepare_review_data P bank_mapping df = Inr review_data
        \<and> (?batch = Inl (e, db) \<or> ?batch = Inr db \<and> commit_error P db = Some e)
        \<and> rollback_error P db = Some e' \<longrightarrow>
      insert_reviews P conn df bank_mapping = (Inl (Psycopg2Error e'), conn\<lparr>pending := db\<rparr>)"
    by (auto simp: insert_reviews_def commit_def lost)
  have r4: "prepare_review_data P bank_mapping df = Inr review_data
        \<and> ?batch = Inr db \<and> commit_error P db = None \<longrightarrow>
      insert_reviews P conn df bank_mapping =
        (Inr (length review_data),
         conn\<lparr>committed := db, pending := db, commits := Suc (commits conn)\<rparr>)"
    by (simp add: insert_reviews_def commit_def)
  have r5: "prepare_review_data P bank_mapping df = Inl err \<longrightarrow>
      insert_reviews P conn df bank_mapping = (Inl (PyError err), conn)"
    by (simp add: insert_reviews_def)
  have b5: "fst (insert_banks P conn df) = Inl x \<longrightarrow>
        committed (snd (insert_banks P conn df)) = committed conn
        \<and> commits (snd (insert_banks P conn df)) = commits conn"
    by (auto simp: insert_banks_def commit_def except_psycopg2_error_raises
        split: sum.splits prod.splits option.splits)
  have r6: "fst (insert_reviews P conn df bank_mapping) = Inl x \<longrightarrow>
        committed (snd (insert_reviews P conn df bank_mapping)) = committed conn
        \<and> commits (snd (insert_reviews P conn df bank_mapping)) = commits conn"
    by (auto simp: insert_reviews_def commit_def except_psycopg2_error_raises
        split: sum.splits prod.splits option.splits)
  have b6: "fst (insert_banks P conn df) = Inr mapping \<longrightarrow>
        commits (snd (insert_banks P conn df)) = Suc (commits conn)
        \<and> rollbacks (snd (insert_banks P conn df)) = rollbacks conn
        \<and> committed (snd (insert_banks P conn df)) = pending (snd (insert_banks P conn df))"
    by (auto simp: insert_banks_def commit_def except_psycopg2_error_raises
        split: sum.splits prod.splits option.splits)
  have r7: "fst (insert_reviews P conn df bank_mapping) = Inr n \<longrightarrow>
        commits (snd (insert_reviews P conn df bank_mapping)) = Suc (commits conn)
        \<and> rollbacks (snd (insert_reviews P conn df bank_mapping)) = rollbacks conn
        \<and> committed (snd (insert_reviews P conn df bank_mapping))
            = pending (snd (insert_reviews P conn df bank_mapping))"
    by (auto simp: insert_reviews_def commit_def except_psycopg2_error_raises
        split: sum.splits prod.splits option.splits)
  from b1 b2 b3 b4 r1 r2 r3 r4 r5 b5 r6 b6 r7 show ?thesis
    by (intro conjI)
qed

text \<open>
  On the sample databases. The three banks of the sample rows are committed in one commit,
  and so are the two reviews of mapped banks. A row without a bank makes the fourth
  \<^verbatim>\<open>INSERT INTO banks\<close> fail, and a rating of 9 makes the third \<^verbatim>\<open>INSERT INTO reviews\<close>
  fail: the error leaves the method, and what the statements before it had inserted in the
  same call is rolled back with it. Where every commit fails, the error of the commit
  leaves the method, and the inserted banks and reviews are rolled back.
\<close>

theorem insert_rollback_or_commit_witness:
  "insert_banks sample_postgres sample_connection sample_rows =
     (Inr [(Str ''Dashen Bank'', 1), (Str ''Bank of Abyssinia'', 2), (Str ''Awash Bank'', 3)],
      \<lparr> committed = ([Str ''Dashen Bank'', Str ''Bank of Abyssinia'', Str ''Awash Bank''], []),
        pending = ([Str ''Dashen Bank'', Str ''Bank of Abyssinia'', Str ''Awash Bank''], []),
        commits = 1, rollbacks = 0 \<rparr>)
   \<and> insert_banks_loop sample_postgres ([], []) (unique (map row_bank sample_bad_rows)) [] =
       Inl (''null value in column bank_name'',
            ([Str ''Dashen Bank'', Str ''Bank of Abyssinia'', Str ''Awash Bank''], []))
   \<and> insert_banks sample_postgres sample_connection sample_bad_rows =
     (Inl (Psycopg2Error ''null value in column bank_name''),
      \<lparr> committed = ([], []), pending = ([], []), commits = 0, rollbacks = 1 \<rparr>)
   \<and> insert_banks contended_postgres sample_connection sample_rows =
     (Inl (Psycopg2Error ''could not serialize access''),
      \<lparr> committed = ([], []), pending = ([], []), commits = 0, rollbacks = 1 \<rparr>)
   \<and> insert_reviews sample_postgres sample_connection sample_rows sample_bank_mapping =
     (Inr 2,
      \<lparr> committed = ([], [(1, Str ''Good app'', 5, ''2024-01-05'', NaN, NaN, Str ''google_play''),
                           (2, Str ''Slow'', 2, ''2026-01-01'', NaN, NaN, Str ''google_play'')]),
        pending = ([], [(1, Str ''Good app'', 5, ''2024-01-05'', NaN, NaN, Str ''google_play''),
                         (2, Str ''Slow'', 2, ''2026-01-01'', NaN, NaN, Str ''google_play'')]),
        commits = 1, rollbacks = 0 \<rparr>)
   \<and> execute_batch sample_postgres ([], [])
        [(1, Str ''Good app'', 5, ''2024-01-05'', NaN, NaN, Str ''google_play''),
         (2, Str ''Slow'', 2, ''2026-01-01'', NaN, NaN, Str ''google_play''),
         (3, Str ''x'', 9, ''2026-01-01'', NaN, NaN, NaN)] =
       Inl (''check constraint on rating'',
            ([], [(1, Str ''Good app'', 5, ''2024-01-05'', NaN, NaN, Str ''google_play''),
                  (2, Str ''Slow'', 2, ''2026-01-01'', NaN, NaN, Str ''google_play'')]))
   \<and> insert_reviews sample_postgres sample_connection sample_bad_rows sample_bad_mapping =
     (Inl (Psycopg2Error ''check constraint on rating''),
      \<lparr> committed = ([], []), pending = ([], []), commits = 0, rollbacks = 1 \<rparr>)
   \<and> insert_reviews contended_postgres sample_connection sample_rows sample_bank_mapping =
     (Inl (Psycopg2Error ''could not serialize access''),
      \<lparr> committed = ([], []), pending = ([], []), commits = 0, rollbacks = 1 \<rparr>)"
proof -
  let ?banks = "([Str ''Dashen Bank'', Str ''Bank of Abyssinia'', Str ''Awash Bank''], [])
      :: cell list \<times> string review_tuple list"
  let ?mapping = "[(Str ''Dashen Bank'', 1), (Str ''Bank of Abyssinia'', 2),
      (Str ''Awash Bank'', 3)] :: (cell \<times> int) list"
  let ?data = "[(1, Str ''Good app'', 5, ''2024-01-05'', NaN, NaN, Str ''google_play''),
      (2, Str ''Slow'', 2, ''2026-01-01'', NaN, NaN, Str ''google_play'')]
      :: string review_tuple list"
  let ?bad_data = "?data @ [(3, Str ''x'', 9, ''2026-01-01'', NaN, NaN, NaN)]"
  let ?reviews = "([], ?data) :: cell list \<times> string review_tuple list"
  let ?conn = sample_connection
  have loop: "insert_banks_loop sample_postgres (pending ?conn)
      (unique (map row_bank sample_rows)) [] = Inr (?banks, ?mapping)"
    by (simp add: sample_postgres_def sample_connection_def sample_rows_def unique_def)
  have bad_loop: "insert_banks_loop sample_postgres (pending ?conn)
      (unique (map row_bank sample_bad_rows)) [] = Inl (''null value in column bank_name'', ?banks)"
    by (simp add: sample_postgres_def sample_connection_def sample_bad_rows_def sample_rows_def
        unique_def)
  have contended_loop: "insert_banks_loop contended_postgres (pending ?conn)
      (unique (map row_bank sample_rows)) [] = Inr (?banks, ?mapping)"
    by (simp add: contended_postgres_def sample_postgres_def sample_connection_def
        sample_rows_def unique_def)
  have prep: "prepare_review_data sample_postgres sample_bank_mapping sample_rows = Inr ?data"
    by (simp add: sample_postgres_def sample_rows_def sample_bank_mapping_def py_int_def Let_def)
  have contended_prep:
    "prepare_review_data contended_postgres sample_bank_mapping sample_rows = Inr ?data"
    by (simp add: contended_postgres_def sample_postgres_def sample_rows_def
        sample_bank_mapping_def py_int_def Let_def)
  have bad_prep:
    "prepare_review_data sample_postgres sample_bad_mapping sample_bad_rows = Inr ?bad_data"
    by (simp add: sample_postgres_def sample_bad_rows_def sample_rows_def sample_bad_mapping_def
        sample_bank_mapping_def py_int_def Let_def)
  have batch: "execute_batch sample_postgres (pending ?conn) ?data = Inr ?reviews"
    by (simp add: sample_postgres_def sample_connection_def)
  have contended_batch: "execute_batch contended_postgres (pending ?conn) ?data = Inr ?reviews"
    by (simp add: contended_postgres_def sample_postgres_def sample_connection_def)
  have bad_batch: "execute_batch sample_postgres (pending ?conn) ?bad_data
      = Inl (''check constraint on rating'', ?reviews)"
    by (simp add: sample_postgres_def sample_connection_def)
  have ok: "rollback_error sample_postgres db = None" "commit_error sample_postgres db = None"
    "rollback_error contended_postgres db = None"
    "commit_error contended_postgres db = Some ''could not serialize access''" for db
    by (simp_all add: contended_postgres_def sample_postgres_def)
  have "insert_banks sample_postgres ?conn sample_rows =
      (Inr ?mapping, ?conn\<lparr>committed := ?banks, pending := ?banks,
                            commits := Suc (commits ?conn)\<rparr>)"
    by (rule insert_rollback_or_commit [where P = sample_postgres and conn = ?conn
          and df = sample_rows and db = ?banks and mapping = ?mapping,
          THEN conjunct2, THEN conjunct2, THEN conjunct2, THEN conjunct1, THEN mp])
       (rule conjI [OF loop ok(2)])
  then have 1: "insert_banks sample_postgres ?conn sample_rows =
      (Inr ?mapping, \<lparr> committed = ?banks, pending = ?banks, commits = 1, rollbacks = 0 \<rparr>)"
    by (simp add: sample_connection_def)
  have "insert_banks sample_postgres ?conn sample_bad_rows =
      (Inl (Psycopg2Error ''null value in column bank_name''),
       ?conn\<lparr>pending := committed ?conn, rollbacks := Suc (rollbacks ?conn)\<rparr>)"
    by (rule insert_rollback_or_commit [where P = sample_postgres and conn = ?conn
          and df = sample_bad_rows and db = ?banks and e = "''null value in column bank_name''",
          THEN conjunct1, THEN mp])
       (rule conjI [OF bad_loop ok(1)])
  then have 2: "insert_banks sample_postgres ?conn sample_bad_rows =
      (Inl (Psycopg2Error ''null value in column bank_name''),
       \<lparr> committed = ([], []), pending = ([], []), commits = 0, rollbacks = 1 \<rparr>)"
    by (simp add: sample_connection_def)
  have "insert_banks contended_postgres ?conn sample_rows =
      (Inl (Psycopg2Error ''could not serialize access''),
       ?conn\<lparr>pending := committed ?conn, rollbacks := Suc (rollbacks ?conn)\<rparr>)"
    by (rule insert_rollback_or_commit [where P = contended_postgres and conn = ?conn
          and df = sample_rows and db = ?banks and mapping = ?mapping
          and e = "''could not serialize access''",
          THEN conjunct2, THEN conjunct1, THEN mp])
       (rule conjI [OF contended_loop conjI [OF ok(4) ok(3)]])
  then have 3: "insert_banks contended_postgres ?conn sample_rows =
      (Inl (Psycopg2Error ''could not serialize access''),
       \<lparr> committed = ([], []), pending = ([], []), commits = 0, rollbacks = 1 \<rparr>)"
    by (simp add: sample_connection_def)
  have "insert_reviews sample_postgres ?conn sample_rows sample_bank_mapping =
      (Inr (length ?data), ?conn\<lparr>committed := ?reviews, pending := ?reviews,
                                  commits := Suc (commits ?conn)\<rparr>)"
    by (rule insert_rollback_or_commit [where P = sample_postgres and conn = ?conn
          and df = sample_rows and db = ?reviews and bank_mapping = sample_bank_mapping
          and review_data = ?data,
          THEN conjunct2, THEN conjunct2, THEN conjunct2, THEN conjunct2, THEN conjunct2,
          THEN conjunct2, THEN conjunct2, THEN conjunct1, THEN mp])
       (rule conjI [OF prep conjI [OF batch ok(2)]])
  then have 4: "insert_reviews sample_postgres ?conn sample_rows sample_bank_mapping =
      (Inr 2, \<lparr> committed = ?reviews, pending = ?reviews, commits = 1, rollbacks = 0 \<rparr>)"
    by (simp add: sample_connection_def)
  have "insert_reviews sample_postgres ?conn sample_bad_rows sample_bad_mapping =
      (Inl (Psycopg2Error ''check constraint on rating''),
       ?conn\<lparr>pending := committed ?conn, rollbacks := Suc (rollbacks ?conn)\<rparr>)"
    by (rule insert_rollback_or_commit [where P = sample_postgres and conn = ?conn
          and df = sample_bad_rows and db = ?reviews and bank_mapping = sample_bad_mapping
          and review_data = ?bad_data and e = "''check constraint on rating''",
          THEN conjunct2, THEN conjunct2, THEN conjunct2, THEN conjunct2, THEN conjunct1,
          THEN mp])
       (rule conjI [OF bad_prep conjI [OF bad_batch ok(1)]])
  then have 5: "insert_reviews sample_postgres ?conn sample_bad_rows sample_bad_mapping =
      (Inl (Psycopg2Error ''check constraint on rating''),
       \<lparr> committed = ([], []), pending = ([], []), commits = 0, rollbacks = 1 \<rparr>)"
    by (simp add: sample_connection_def)
  have "insert_reviews contended_postgres ?conn sample_rows sample_bank_mapping =
      (Inl (Psycopg2Error ''could not serialize access''),
       ?conn\<lparr>pending := committed ?conn, rollbacks := Suc (rollbacks ?conn)\<rparr>)"
    by (rule insert_rollback_or_commit [where P = contended_postgres and conn = ?conn
          and df = sample_rows and db = ?reviews and bank_mapping = sample_bank_mapping
          and review_data = ?data and e = "''could not serialize access''",
          THEN conjunct2, THEN conjunct2, THEN conjunct2, THEN conjunct2, THEN conjunct2,
          THEN conjunct1, THEN mp])
       (rule conjI [OF contended_prep conjI [OF contended_batch conjI [OF ok(4) ok(3)]]])
  then have 6: "insert_reviews contended_postgres ?conn sample_rows sample_bank_mapping =
      (Inl (Psycopg2Error ''could not serialize access''),
       \<lparr> committed = ([], []), pending = ([], []), commits = 0, rollbacks = 1 \<rparr>)"
    by (simp add: sample_connection_def)
  have 7:
    "insert_banks_loop sample_postgres ([], []) (unique (map row_bank sample_bad_rows)) [] =
       Inl (''null value in column bank_name'', ?banks)"
    by (simp add: sample_postgres_def sample_bad_rows_def sample_rows_def unique_def)
  have 8: "execute_batch sample_postgres ([], [])
        [(1, Str ''Good app'', 5, ''2024-01-05'', NaN, NaN, Str ''google_play''),
         (2, Str ''Slow'', 2, ''2026-01-01'', NaN, NaN, Str ''google_play''),
         (3, Str ''x'', 9, ''2026-01-01'', NaN, NaN, NaN)] =
       Inl (''check constraint on rating'', ?reviews)"
    by (simp add: sample_postgres_def)
  from 1 7 2 3 4 8 5 6 show ?thesis
    by (intro conjI)
qed

text \<open>
  The claim as the specification states it fails where the rollback raises. On the sample
  database whose server goes away, the third \<^verbatim>\<open>INSERT INTO banks\<close> raises (and so does the
  second \<^verbatim>\<open>INSERT INTO reviews\<close>), the rollback in the handler raises on the closed
  connection, and it is the exception of the rollback that leaves the method, not the
  error of the statement; the connection has not rolled back, and its transaction still
  holds what the statements before had inserted.
\<close>

theorem insert_rollback_counterexample:
  "insert_banks_loop lost_postgres (pending sample_connection)
       (unique (map row_bank sample_rows)) [] =
     Inl (''server closed the connection unexpectedly'',
          ([Str ''Dashen Bank'', Str ''Bank of Abyssinia''], []))
   \<and> insert_banks lost_postgres sample_connection sample_rows =
     (Inl (Psycopg2Error ''connection already closed''),
      \<lparr> committed = ([], []), pending = ([Str ''Dashen Bank'', Str ''Bank of Abyssinia''], []),
        commits = 0, rollbacks = 0 \<rparr>)
   \<and> insert_reviews lost_postgres sample_connection sample_rows sample_bank_mapping =
     (Inl (Psycopg2Error ''connection already closed''),
      \<lparr> committed = ([], []),
        pending = ([], [(1, Str ''Good app'', 5, ''2024-01-05'', NaN, NaN, Str ''google_play'')]),
        commits = 0, rollbacks = 0 \<rparr>)"
  by (simp add: insert_banks_def insert_reviews_def except_psycopg2_error_def rollback_def
      lost_postgres_def sample_postgres_def sample_connection_def sample_rows_def
      sample_bank_mapping_def unique_def py_int_def Let_def)

subsection \<open>Loading into PostgreSQL: skipped rows and substituted dates\<close>

text \<open>
  C9. When the preparation loop of review insertion finishes, the tuples it hands to the
  batch insertion are, in order, one for each row whose bank has an entry in the bank-id
  mapping, and none for any other row: such a row is passed over without an error. The
  tuple of a row carries the row's review, rating and source, the bank id of the mapping
  and the parsed date of the row, or the current date when the date does not parse. If the
  loop raises instead, it is the conversion of the rating of a row with a mapped bank
  that raised. Hence the number of reviews that review insertion reports as inserted is
  the number of rows with a mapped bank, which is at most the number of input rows; and
  the committed contents are then those the batch of exactly these tuples produced.
\<close>

theorem insert_reviews_skips_and_dates:
  "(prepare_review_data P bank_mapping df = Inr review_data \<longrightarrow>
      list_all2
        (\<lambda>row t. \<exists>bank_id rating.
            map_of bank_mapping (row_bank row) = Some bank_id
          \<and> py_int P (row_rating row) = Inr rating
          \<and> t = (bank_id, row_review row, rating,
                 (case to_date P (row_date row) of None \<Rightarrow> today P | Some d \<Rightarrow> d),
                 NaN, NaN, row_source row))
        (filter (\<lambda>row. map_of bank_mapping (row_bank row) \<noteq> None) df) review_data
      \<and> length review_data \<le> length df)
   \<and> (prepare_review_data P bank_mapping df = Inl err \<longrightarrow>
        (\<exists>row \<in> set df. map_of bank_mapping (row_bank row) \<noteq> None
           \<and> py_int P (row_rating row) = Inl err))
   \<and> (fst (insert_reviews P conn df bank_mapping) = Inr n \<longrightarrow>
        n = length (filter (\<lambda>row. map_of bank_mapping (row_bank row) \<noteq> None) df)
        \<and> n \<le> length df
        \<and> (\<exists>review_data. prepare_review_data P bank_mapping df = Inr review_data
             \<and> length review_data = n
             \<and> execute_batch P (pending conn) review_data
                 = Inr (committed (snd (insert_reviews P conn df bank_mapping)))))"
proof (intro conjI impI)
  assume p: "prepare_review_data P bank_mapping df = Inr review_data"
  from prepare_review_data_rows [OF p]
  show "list_all2
        (\<lambda>row t. \<exists>bank_id rating.
            map_of bank_mapping (row_bank row) = Some bank_id
          \<and> py_int P (row_rating row) = Inr rating
          \<and> t = (bank_id, row_review row, rating,
                 (case to_date P (row_date row) of None \<Rightarrow> today P | Some d \<Rightarrow> d),
                 NaN, NaN, row_source row))
        (filter (\<lambda>row. map_of bank_mapping (row_bank row) \<noteq> None) df) review_data" .
  then have "length review_data
      = length (filter (\<lambda>row. map_of bank_mapping (row_bank row) \<noteq> None) df)"
    by (simp add: list_all2_lengthD)
  then show "length review_data \<le> length df"
    by simp
next
  assume "prepare_review_data P bank_mapping df = Inl err"
  then show "\<exists>row \<in> set df. map_of bank_mapping (row_bank row) \<noteq> None
           \<and> py_int P (row_rating row) = Inl err"
    by (rule prepare_review_data_error)
next
  assume a: "fst (insert_reviews P conn df bank_mapping) = Inr n"
  then obtain review_data db' conn' where
    p: "prepare_review_data P bank_mapping df = Inr review_data" and
    b: "execute_batch P (pending conn) review_data = Inr db'" and
    c: "commit P (conn\<lparr>pending := db'\<rparr>) = Inr conn'" and
    s: "snd (insert_reviews P conn df bank_mapping) = conn'" and
    n: "n = length review_data"
    by (auto simp: insert_reviews_def except_psycopg2_error_raises
        split: sum.splits prod.splits)
  from prepare_review_data_rows [OF p]
  have l: "length review_data
      = length (filter (\<lambda>row. map_of bank_mapping (row_bank row) \<noteq> None) df)"
    by (simp add: list_all2_lengthD)
  with n show "n = length (filter (\<lambda>row. map_of bank_mapping (row_bank row) \<noteq> None) df)"
    by simp
  with l n show "n \<le> length df"
    by simp
  from commit_fields(1) [OF c] s b have
    "execute_batch P (pending conn) review_data
       = Inr (committed (snd (insert_reviews P conn df bank_mapping)))"
    by simp
  with p n show "\<exists>review_data. prepare_review_data P bank_mapping df = Inr review_data
             \<and> length review_data = n
             \<and> execute_batch P (pending conn) review_data
                 = Inr (committed (snd (insert_reviews P conn df bank_mapping)))"
    by blast
qed

text \<open>On the sample rows: the review of Awash Bank, which the mapping does not have, is
  passed over, and the review dated \<^verbatim>\<open>yesterday\<close> is inserted with the current date.\<close>

theorem insert_reviews_skips_and_dates_witness:
  "prepare_review_data sample_postgres sample_bank_mapping sample_rows =
     Inr [(1, Str ''Good app'', 5, ''2024-01-05'', NaN, NaN, Str ''google_play''),
          (2, Str ''Slow'', 2, ''2026-01-01'', NaN, NaN, Str ''google_play'')]
   \<and> fst (insert_reviews sample_postgres sample_connection sample_rows sample_bank_mapping)
       = Inr 2
   \<and> length (filter (\<lambda>row. map_of sample_bank_mapping (row_bank row) \<noteq> None) sample_rows) = 2
   \<and> length sample_rows = 3"
proof -
  have p: "prepare_review_data sample_postgres sample_bank_mapping sample_rows =
     Inr [(1, Str ''Good app'', 5, ''2024-01-05'', NaN, NaN, Str ''google_play''),
          (2, Str ''Slow'', 2, ''2026-01-01'', NaN, NaN, Str ''google_play'')]"
    by (simp add: sample_postgres_def sample_rows_def sample_bank_mapping_def py_int_def Let_def)
  have r: "fst (insert_reviews sample_postgres sample_connection sample_rows sample_bank_mapping)
      = Inr 2"
    by (simp add: insert_reviews_def sample_postgres_def sample_connection_def sample_rows_def
        sample_bank_mapping_def py_int_def commit_def Let_def)
  from insert_reviews_skips_and_dates [of sample_postgres sample_bank_mapping sample_rows _ _
      sample_connection 2] r
  have "2 = length (filter (\<lambda>row. map_of sample_bank_mapping (row_bank row) \<noteq> None) sample_rows)"
    by blast
  with p r show ?thesis by (simp add: sample_rows_def)
qed

end
